theory Spec2Isabelle
  imports Complex_Main "HOL-Library.Multiset"
begin

section \<open>Tensors\<close>

text \<open>
  A dense tensor is its shape together with its indexing function. Scalars of floating
  tensors are real numbers: \<open>softmax\<close>, sums and \<open>log\<close> are the exact ones. Rounding
  enters only where it is written out, in the single-precision version of the copy-mass
  scatter. Token identities (a LongTensor) are integers, padding masks are booleans.
\<close>

record 'a tensor2 =
  rows :: nat
  cols :: nat
  at2 :: "nat \<Rightarrow> nat \<Rightarrow> 'a"

record 'a tensor3 =
  dim0 :: nat
  dim1 :: nat
  dim2 :: nat
  at3 :: "nat \<Rightarrow> nat \<Rightarrow> nat \<Rightarrow> 'a"

section \<open>Failures\<close>

text \<open>
  \<open>forward\<close> has no \<open>raise\<close> of its own; the failures are those of the operations it
  calls. \<open>TypeError\<close>: subscripting \<open>encoder_out = None\<close>. \<open>ChunkError\<close>: \<open>chunk\<close> called
  with a number of chunks that is not positive. \<open>IndexError\<close>: a tuple or tensor indexed
  past its end. \<open>ValueError\<close>: unpacking \<open>gates.chunk(2, dim=-1)\<close> into two names when
  there are not two chunks. \<open>ShapeMismatch\<close>: operands that do not broadcast, a \<open>view\<close>
  whose sizes do not fit, \<open>stack\<close> of tensors of different shapes or of none.
  \<open>ScatterIndexError\<close>: \<open>scatter_add_\<close> with an index outside the scattered axis.
  \<open>FeatureError\<close>: whatever the feature extractor raises.
\<close>

datatype error =
  TypeError | ChunkError | IndexError | ValueError | ShapeMismatch | ScatterIndexError
  | FeatureError

definition res_bind :: "error + 'a \<Rightarrow> ('a \<Rightarrow> error + 'b) \<Rightarrow> error + 'b" where
  "res_bind m f = (case m of Inl e \<Rightarrow> Inl e | Inr x \<Rightarrow> f x)"

text \<open>A \<open>for\<close> loop that appends one result per element and stops at the first failure.\<close>

fun map_res :: "('a \<Rightarrow> error + 'b) \<Rightarrow> 'a list \<Rightarrow> error + 'b list" where
  "map_res f [] = Inr []"
| "map_res f (x # xs) =
     res_bind (f x) (\<lambda>y. res_bind (map_res f xs) (\<lambda>ys. Inr (y # ys)))"

text \<open>Indexing a Python tuple or list with a non-negative index.\<close>

definition nth_res :: "'a list \<Rightarrow> nat \<Rightarrow> error + 'a" where
  "nth_res xs i = (if i < length xs then Inr (xs ! i) else Inl IndexError)"

section \<open>Tensor operations used by \<open>forward\<close>\<close>

definition transpose01 :: "'a tensor3 \<Rightarrow> 'a tensor3" where
  "transpose01 t =
     \<lparr>dim0 = dim1 t, dim1 = dim0 t, dim2 = dim2 t, at3 = (\<lambda>i j k. at3 t j i k)\<rparr>"

definition transpose2 :: "'a tensor2 \<Rightarrow> 'a tensor2" where
  "transpose2 t = \<lparr>rows = cols t, cols = rows t, at2 = (\<lambda>i j. at2 t j i)\<rparr>"

text \<open>
  \<open>torch.chunk\<close> along an axis of size \<open>n\<close>: the chunk size is \<open>n\<close> divided by the
  number of chunks, rounded up; every chunk has that size except the last, which takes
  what is left, and there may be fewer chunks than asked for. An axis of size 0 gives
  the number of chunks asked for, all empty. Each chunk is given by its offset and length.
\<close>

definition chunk_bounds :: "nat \<Rightarrow> int \<Rightarrow> error + (nat \<times> nat) list" where
  "chunk_bounds n chunks =
     (if chunks \<le> 0 then Inl ChunkError
      else
        let c = nat chunks; split_size = (n + c - 1) div c in
        if split_size = 0 then Inr (replicate c (0, 0))
        else
          let num_splits = max ((n + split_size - 1) div split_size) 1 in
          Inr (map (\<lambda>i. (i * split_size,
                          if i < num_splits - 1 then split_size
                          else split_size - (split_size * num_splits - n)))
                   [0..<num_splits]))"

text \<open>
  The size of the chunks that \<open>torch.chunk\<close> cuts an axis of \<open>len\<close> positions into when
  asked for \<open>n\<close> chunks, and the number of chunks it returns.
\<close>

definition chunk_size :: "nat \<Rightarrow> nat \<Rightarrow> nat" where
  "chunk_size len n = (len + n - 1) div n"

definition chunk_count :: "nat \<Rightarrow> nat \<Rightarrow> nat" where
  "chunk_count len n = (len + chunk_size len n - 1) div chunk_size len n"

definition narrow0 :: "'a tensor3 \<Rightarrow> nat \<times> nat \<Rightarrow> 'a tensor3" where
  "narrow0 t b =
     \<lparr>dim0 = snd b, dim1 = dim1 t, dim2 = dim2 t, at3 = (\<lambda>i j k. at3 t (fst b + i) j k)\<rparr>"

definition narrow_last :: "'a tensor3 \<Rightarrow> nat \<times> nat \<Rightarrow> 'a tensor3" where
  "narrow_last t b =
     \<lparr>dim0 = dim0 t, dim1 = dim1 t, dim2 = snd b, at3 = (\<lambda>i j k. at3 t i j (fst b + k))\<rparr>"

definition narrow2_rows :: "'a tensor2 \<Rightarrow> nat \<times> nat \<Rightarrow> 'a tensor2" where
  "narrow2_rows t b = \<lparr>rows = snd b, cols = cols t, at2 = (\<lambda>i j. at2 t (fst b + i) j)\<rparr>"

definition narrow2_cols :: "'a tensor2 \<Rightarrow> nat \<times> nat \<Rightarrow> 'a tensor2" where
  "narrow2_cols t b = \<lparr>rows = rows t, cols = snd b, at2 = (\<lambda>i j. at2 t i (fst b + j))\<rparr>"

definition chunk_dim0 :: "'a tensor3 \<Rightarrow> int \<Rightarrow> error + 'a tensor3 list" where
  "chunk_dim0 t chunks = res_bind (chunk_bounds (dim0 t) chunks) (\<lambda>bs. Inr (map (narrow0 t) bs))"

definition chunk_last :: "'a tensor3 \<Rightarrow> int \<Rightarrow> error + 'a tensor3 list" where
  "chunk_last t chunks =
     res_bind (chunk_bounds (dim2 t) chunks) (\<lambda>bs. Inr (map (narrow_last t) bs))"

definition chunk2_rows :: "'a tensor2 \<Rightarrow> int \<Rightarrow> error + 'a tensor2 list" where
  "chunk2_rows t chunks =
     res_bind (chunk_bounds (rows t) chunks) (\<lambda>bs. Inr (map (narrow2_rows t) bs))"

definition chunk2_cols :: "'a tensor2 \<Rightarrow> int \<Rightarrow> error + 'a tensor2 list" where
  "chunk2_cols t chunks =
     res_bind (chunk_bounds (cols t) chunks) (\<lambda>bs. Inr (map (narrow2_cols t) bs))"

text \<open>
  Broadcasting of two tensors of the same rank: along each axis the sizes are equal or
  one of them is 1, and the operand of size 1 is read at index 0.
\<close>

definition bdim :: "nat \<Rightarrow> nat \<Rightarrow> nat option" where
  "bdim a b = (if a = b then Some a else if a = 1 then Some b else if b = 1 then Some a else None)"

definition bidx :: "nat \<Rightarrow> nat \<Rightarrow> nat" where
  "bidx d i = (if d = 1 then 0 else i)"

definition broadcast ::
  "(real \<Rightarrow> real \<Rightarrow> real) \<Rightarrow> real tensor3 \<Rightarrow> real tensor3 \<Rightarrow> error + real tensor3" where
  "broadcast f a b =
     (case (bdim (dim0 a) (dim0 b), bdim (dim1 a) (dim1 b), bdim (dim2 a) (dim2 b)) of
        (Some n0, Some n1, Some n2) \<Rightarrow>
          Inr \<lparr>dim0 = n0, dim1 = n1, dim2 = n2,
               at3 = (\<lambda>i j k. f (at3 a (bidx (dim0 a) i) (bidx (dim1 a) j) (bidx (dim2 a) k))
                                 (at3 b (bidx (dim0 b) i) (bidx (dim1 b) j) (bidx (dim2 b) k)))\<rparr>
      | _ \<Rightarrow> Inl ShapeMismatch)"

definition add3 :: "real tensor3 \<Rightarrow> real tensor3 \<Rightarrow> error + real tensor3" where
  "add3 = broadcast (+)"

definition mul3 :: "real tensor3 \<Rightarrow> real tensor3 \<Rightarrow> error + real tensor3" where
  "mul3 = broadcast (*)"

text \<open>\<open>torch.cat\<close> along the last axis: the other axes must agree.\<close>

definition cat_last :: "real tensor3 \<Rightarrow> real tensor3 \<Rightarrow> error + real tensor3" where
  "cat_last a b =
     (if dim0 a = dim0 b \<and> dim1 a = dim1 b
      then Inr \<lparr>dim0 = dim0 a, dim1 = dim1 a, dim2 = dim2 a + dim2 b,
                at3 = (\<lambda>i j k. if k < dim2 a then at3 a i j k else at3 b i j (k - dim2 a))\<rparr>
      else Inl ShapeMismatch)"

fun cat_last_list :: "real tensor3 list \<Rightarrow> error + real tensor3" where
  "cat_last_list [] = Inl ShapeMismatch"
| "cat_last_list [t] = Inr t"
| "cat_last_list (t # ts) = res_bind (cat_last_list ts) (\<lambda>r. cat_last t r)"

text \<open>\<open>F.softmax\<close> along the last axis.\<close>

definition softmax :: "real tensor3 \<Rightarrow> real tensor3" where
  "softmax t =
     \<lparr>dim0 = dim0 t, dim1 = dim1 t, dim2 = dim2 t,
      at3 = (\<lambda>i j k. exp (at3 t i j k) / (\<Sum>k'<dim2 t. exp (at3 t i j k')))\<rparr>"

text \<open>
  \<open>t.view(a, b, -1)\<close> of a contiguous tensor: the elements in row-major order, regrouped.
  The product \<open>a * b\<close> must divide the number of elements and must not be 0.
\<close>

definition flat3 :: "'a tensor3 \<Rightarrow> nat \<Rightarrow> 'a" where
  "flat3 t n = at3 t (n div (dim1 t * dim2 t)) (n div dim2 t mod dim1 t) (n mod dim2 t)"

definition view3 :: "'a tensor3 \<Rightarrow> nat \<Rightarrow> nat \<Rightarrow> error + 'a tensor3" where
  "view3 t a b =
     (let total = dim0 t * dim1 t * dim2 t in
      if a * b = 0 \<or> total mod (a * b) \<noteq> 0 then Inl ShapeMismatch
      else
        let c = total div (a * b) in
        Inr \<lparr>dim0 = a, dim1 = b, dim2 = c, at3 = (\<lambda>i j k. flat3 t ((i * b + j) * c + k))\<rparr>)"

text \<open>
  \<open>copy_seq.transpose(0, 1).contiguous().view(1, bsz, -1).expand(seq_len, -1, -1)\<close>:
  the token identities, batch first, regrouped into \<open>bsz\<close> rows and repeated for every
  target position.
\<close>

definition copy_index :: "int tensor2 \<Rightarrow> nat \<Rightarrow> nat \<Rightarrow> error + int tensor3" where
  "copy_index copy_seq seq_len bsz =
     (let t = transpose2 copy_seq; total = rows t * cols t in
      if bsz = 0 \<or> total mod bsz \<noteq> 0 then Inl ShapeMismatch
      else
        let c = total div bsz in
        Inr \<lparr>dim0 = seq_len, dim1 = bsz, dim2 = c,
             at3 = (\<lambda>i j k. at2 t ((j * c + k) div cols t) ((j * c + k) mod cols t))\<rparr>)"

text \<open>
  \<open>self.scatter_add_(-1, index, src)\<close>: for every position \<open>(i, j, k)\<close> of \<open>index\<close>, in
  turn, \<open>self[i][j][index[i][j][k]] += src[i][j][k]\<close>. The index must not be larger than
  \<open>src\<close> on any axis nor than \<open>self\<close> on the first two, and every entry must be a
  position of the last axis of \<open>self\<close>.
\<close>

definition scatter_row :: "(nat \<Rightarrow> real) \<Rightarrow> (nat \<times> real) list \<Rightarrow> nat \<Rightarrow> real" where
  "scatter_row row us = fold (\<lambda>u acc. acc(fst u := acc (fst u) + snd u)) us row"

definition index_in_range :: "int tensor3 \<Rightarrow> nat \<Rightarrow> bool" where
  "index_in_range index n =
     list_all (\<lambda>i. list_all (\<lambda>j. list_all (\<lambda>k. 0 \<le> at3 index i j k \<and> at3 index i j k < int n)
                                          [0..<dim2 index])
                             [0..<dim1 index])
              [0..<dim0 index]"

definition scatter_add_last ::
  "real tensor3 \<Rightarrow> int tensor3 \<Rightarrow> real tensor3 \<Rightarrow> error + real tensor3" where
  "scatter_add_last self index src =
     (if \<not> (dim0 index \<le> dim0 src \<and> dim1 index \<le> dim1 src \<and> dim2 index \<le> dim2 src
            \<and> dim0 index \<le> dim0 self \<and> dim1 index \<le> dim1 self)
      then Inl ShapeMismatch
      else if \<not> index_in_range index (dim2 self) then Inl ScatterIndexError
      else
        Inr \<lparr>dim0 = dim0 self, dim1 = dim1 self, dim2 = dim2 self,
             at3 = (\<lambda>i j.
                if i < dim0 index \<and> j < dim1 index
                then scatter_row (at3 self i j)
                       (map (\<lambda>k. (nat (at3 index i j k), at3 src i j k)) [0..<dim2 index])
                else at3 self i j)\<rparr>)"

text \<open>\<open>torch.stack\<close> of a list of tensors, which must be non-empty and of one shape.\<close>

definition same_shape :: "'a tensor3 \<Rightarrow> 'a tensor3 \<Rightarrow> bool" where
  "same_shape a b \<longleftrightarrow> dim0 a = dim0 b \<and> dim1 a = dim1 b \<and> dim2 a = dim2 b"

definition stackable :: "'a tensor3 list \<Rightarrow> bool" where
  "stackable ts \<longleftrightarrow> ts \<noteq> [] \<and> list_all (same_shape (hd ts)) ts"

text \<open>\<open>torch.sum(torch.stack(ts, dim=0), dim=0)\<close>.\<close>

definition stack_sum :: "real tensor3 list \<Rightarrow> error + real tensor3" where
  "stack_sum ts =
     (if stackable ts
      then Inr \<lparr>dim0 = dim0 (hd ts), dim1 = dim1 (hd ts), dim2 = dim2 (hd ts),
                at3 = (\<lambda>i j k. sum_list (map (\<lambda>t. at3 t i j k) ts))\<rparr>
      else Inl ShapeMismatch)"

text \<open>\<open>torch.mean(torch.stack(ts, dim=3), dim=3)\<close>.\<close>

definition stack_mean :: "real tensor3 list \<Rightarrow> error + real tensor3" where
  "stack_mean ts =
     (if stackable ts
      then Inr \<lparr>dim0 = dim0 (hd ts), dim1 = dim1 (hd ts), dim2 = dim2 (hd ts),
                at3 = (\<lambda>i j k. sum_list (map (\<lambda>t. at3 t i j k) ts) / real (length ts))\<rparr>
      else Inl ShapeMismatch)"

text \<open>\<open>torch.log(t + 1e-12)\<close>.\<close>

definition log_floor :: "real tensor3 \<Rightarrow> real tensor3" where
  "log_floor t =
     \<lparr>dim0 = dim0 t, dim1 = dim1 t, dim2 = dim2 t,
      at3 = (\<lambda>i j k. ln (at3 t i j k + 1 / 10 ^ 12))\<rparr>"

text \<open>\<open>w[:, idx][:, None, None]\<close> of a matrix and \<open>w[:, :, idx][:, :, None]\<close> of a tensor.\<close>

definition select_col :: "real tensor2 \<Rightarrow> nat \<Rightarrow> error + real tensor3" where
  "select_col w idx =
     (if idx < cols w
      then Inr \<lparr>dim0 = rows w, dim1 = 1, dim2 = 1, at3 = (\<lambda>i j k. at2 w i idx)\<rparr>
      else Inl IndexError)"

definition select_last :: "real tensor3 \<Rightarrow> nat \<Rightarrow> error + real tensor3" where
  "select_last w idx =
     (if idx < dim2 w
      then Inr \<lparr>dim0 = dim0 w, dim1 = dim1 w, dim2 = 1, at3 = (\<lambda>i j k. at3 w i j idx)\<rparr>
      else Inl IndexError)"

text \<open>\<open>x[T_idx, :, :][None, :, :]\<close>: one target position, kept as a tensor of rank 3.\<close>

definition row_of :: "real tensor3 \<Rightarrow> nat \<Rightarrow> real tensor3" where
  "row_of x T_idx =
     \<lparr>dim0 = 1, dim1 = dim1 x, dim2 = dim2 x, at3 = (\<lambda>i j k. at3 x T_idx j k)\<rparr>"

text \<open>
  \<open>torch.stack(ts, dim=0).transpose(0, 1)[T_idx, :, :, :]\<close>: position \<open>T_idx\<close> of every
  tensor of the list, the list index first.
\<close>

definition stack_at :: "real tensor3 list \<Rightarrow> nat \<Rightarrow> real tensor3" where
  "stack_at ts T_idx =
     \<lparr>dim0 = length ts, dim1 = dim1 (hd ts), dim2 = dim2 (hd ts),
      at3 = (\<lambda>m j k. at3 (ts ! m) T_idx j k)\<rparr>"

text \<open>\<open>torch.cat\<close> along axis 0 and along axis 1.\<close>

definition cat_dim0 :: "real tensor3 \<Rightarrow> real tensor3 \<Rightarrow> error + real tensor3" where
  "cat_dim0 a b =
     (if dim1 a = dim1 b \<and> dim2 a = dim2 b
      then Inr \<lparr>dim0 = dim0 a + dim0 b, dim1 = dim1 a, dim2 = dim2 a,
                at3 = (\<lambda>i j k. if i < dim0 a then at3 a i j k else at3 b (i - dim0 a) j k)\<rparr>
      else Inl ShapeMismatch)"

fun cat_dim0_list :: "real tensor3 list \<Rightarrow> error + real tensor3" where
  "cat_dim0_list [] = Inl ShapeMismatch"
| "cat_dim0_list [t] = Inr t"
| "cat_dim0_list (t # ts) = res_bind (cat_dim0_list ts) (\<lambda>r. cat_dim0 t r)"

definition cat_dim1 :: "real tensor3 \<Rightarrow> real tensor3 \<Rightarrow> error + real tensor3" where
  "cat_dim1 a b =
     (if dim0 a = dim0 b \<and> dim2 a = dim2 b
      then Inr \<lparr>dim0 = dim0 a, dim1 = dim1 a + dim1 b, dim2 = dim2 a,
                at3 = (\<lambda>i j k. if j < dim1 a then at3 a i j k else at3 b i (j - dim1 a) k)\<rparr>
      else Inl ShapeMismatch)"

fun cat_dim1_list :: "real tensor3 list \<Rightarrow> error + real tensor3" where
  "cat_dim1_list [] = Inl ShapeMismatch"
| "cat_dim1_list [t] = Inr t"
| "cat_dim1_list (t # ts) = res_bind (cat_dim1_list ts) (\<lambda>r. cat_dim1 t r)"

section \<open>The decoder\<close>

text \<open>
  The fields of \<open>TransformerDecoderBaseWithTM\<close> that \<open>forward\<close> reads. The configuration
  flags are values; the learned sub-modules (attention units, linear layers, layer
  normalisations, activation, dropout) and the transformer stack behind
  \<open>extract_features\<close> are parameters: functions from tensors to tensors, deterministic as
  they are in evaluation mode. An attention unit takes query, key, value (and the key
  padding mask) and returns the attended output and the attention weights
  (batch, target position, key position).
\<close>

typedecl incremental_state

record extra =
  attn_diag :: "real tensor3 option"
  inner_states :: "real tensor3 list"

record encoder_output =
  encoder_states :: "real tensor3 list"
  encoder_padding_mask :: "bool tensor2 list"
  memory_encoder_out :: "real tensor3"
  memory_encoder_padding_mask :: "bool tensor2"
  TMs :: "int tensor2"
  TMs_similarity :: "real tensor2 option"

record decoder =
  with_TM_ensemble :: bool
  TM_num :: int
  with_TM_learnable_p :: bool
  with_TM_learnable_p_model :: "string option"
  normalize_before :: bool
  adaptive_softmax :: bool
  extract_features ::
    "int tensor2 \<Rightarrow> encoder_output option \<Rightarrow> incremental_state option \<Rightarrow> bool \<Rightarrow>
     int option \<Rightarrow> int option \<Rightarrow> error + (real tensor3 \<times> extra)"
  alignment_layer ::
    "real tensor3 \<Rightarrow> real tensor3 \<Rightarrow> real tensor3 \<Rightarrow> bool tensor2 \<Rightarrow>
     real tensor3 \<times> real tensor3"
  alignment_layer_norm :: "real tensor3 \<Rightarrow> real tensor3"
  diverter :: "real tensor3 \<Rightarrow> real tensor3"
  ff_layer_1 :: "real tensor3 \<Rightarrow> real tensor3"
  ff_layer_2 :: "real tensor3 \<Rightarrow> real tensor3"
  ff_layer_norm :: "real tensor3 \<Rightarrow> real tensor3"
  activation_fn :: "real tensor3 \<Rightarrow> real tensor3"
  activation_dropout_module :: "real tensor3 \<Rightarrow> real tensor3"
  dropout_module :: "real tensor3 \<Rightarrow> real tensor3"
  output_projection :: "real tensor3 \<Rightarrow> real tensor3"
  learnable_p_fc1 :: "real tensor3 \<Rightarrow> real tensor3"
  learnable_p_fc2 :: "real tensor3 \<Rightarrow> real tensor3"
  learnable_p_attn ::
    "real tensor3 \<Rightarrow> real tensor3 \<Rightarrow> real tensor3 \<Rightarrow> real tensor3 \<times> real tensor3"

record forward_args =
  prev_output_tokens :: "int tensor2"
  encoder_out :: "encoder_output option"
  incremental_state :: "incremental_state option"
  features_only :: bool
  full_context_alignment :: bool
  alignment_layer_arg :: "int option"
  alignment_heads :: "int option"
  src_lengths :: "int list option"
  return_all_hiddens :: bool

text \<open>\<open>output_layer\<close>: the vocabulary projection, unless an adaptive softmax is configured.\<close>

definition output_layer :: "decoder \<Rightarrow> real tensor3 \<Rightarrow> real tensor3" where
  "output_layer dec features =
     (if \<not> adaptive_softmax dec then output_projection dec features else features)"

section \<open>The computation for one block of memory\<close>

text \<open>
  \<open>forward\<close> repeats the same statements in each of its branches; they are defined
  once here. \<open>attend\<close>: the call of the alignment attention and the normalisation of its
  output.
\<close>

definition attend ::
  "decoder \<Rightarrow> real tensor3 \<Rightarrow> real tensor3 \<Rightarrow> bool tensor2 \<Rightarrow>
   real tensor3 \<times> real tensor3 \<times> real tensor3" where
  "attend dec x memory key_padding_mask =
     (case alignment_layer dec x memory memory key_padding_mask of
        (attn, alignment_weight) \<Rightarrow> (attn, alignment_weight, alignment_layer_norm dec attn))"

text \<open>
  \<open>gates = F.softmax(self.diverter(torch.cat([x, attn_normalized], -1)), -1)\<close> and
  \<open>gen_gate, copy_gate = gates.chunk(2, dim=-1)\<close>.
\<close>

definition gates :: "decoder \<Rightarrow> real tensor3 \<Rightarrow> real tensor3 \<Rightarrow> error + real tensor3" where
  "gates dec x attn_normalized =
     res_bind (cat_last x attn_normalized) (\<lambda>c. Inr (softmax (diverter dec c)))"

definition gen_copy_gates ::
  "decoder \<Rightarrow> real tensor3 \<Rightarrow> real tensor3 \<Rightarrow> error + (real tensor3 \<times> real tensor3)" where
  "gen_copy_gates dec x attn_normalized =
     res_bind (gates dec x attn_normalized) (\<lambda>g.
     res_bind (chunk_last g 2) (\<lambda>cs.
       case cs of [gen_gate, copy_gate] \<Rightarrow> Inr (gen_gate, copy_gate) | _ \<Rightarrow> Inl ValueError))"

text \<open>The feed-forward block on \<open>x + attn\<close>, with the residual taken after the first normalisation.\<close>

definition feed_forward :: "decoder \<Rightarrow> real tensor3 \<Rightarrow> real tensor3 \<Rightarrow> error + real tensor3" where
  "feed_forward dec x attn =
     res_bind (add3 x attn) (\<lambda>s.
       let x1 = alignment_layer_norm dec s;
           residual = x1;
           x2 = (if normalize_before dec then ff_layer_norm dec x1 else x1);
           x3 = activation_fn dec (ff_layer_1 dec x2);
           x4 = activation_dropout_module dec x3;
           x5 = ff_layer_2 dec x4;
           x6 = dropout_module dec x5
       in res_bind (add3 x6 residual) (\<lambda>x7.
            Inr (if \<not> normalize_before dec then ff_layer_norm dec x7 else x7)))"

text \<open>
  \<open>probs = gen_gate * F.softmax(self.output_layer(x), -1)\<close>, returned with the copy gate
  and with \<open>seq_len, bsz, _ = x.size()\<close>.
\<close>

definition generate_probs ::
  "decoder \<Rightarrow> real tensor3 \<Rightarrow> real tensor3 \<Rightarrow> real tensor3 \<Rightarrow>
   error + (real tensor3 \<times> real tensor3 \<times> nat \<times> nat)" where
  "generate_probs dec x attn attn_normalized =
     res_bind (gen_copy_gates dec x attn_normalized) (\<lambda>(gen_gate, copy_gate).
     res_bind (feed_forward dec x attn) (\<lambda>x'.
     res_bind (mul3 gen_gate (softmax (output_layer dec x'))) (\<lambda>probs.
       Inr (probs, copy_gate, dim0 x', dim1 x'))))"

text \<open>
  The copy mass: the alignment weights, target position first, times the copy gate,
  scatter-added onto \<open>probs\<close> at the token identities of the memory positions.
\<close>

definition copy_scatter ::
  "real tensor3 \<Rightarrow> real tensor3 \<Rightarrow> real tensor3 \<Rightarrow> int tensor2 \<Rightarrow> nat \<Rightarrow> nat \<Rightarrow>
   error + real tensor3" where
  "copy_scatter probs copy_gate alignment_weight copy_seq seq_len bsz =
     (let aw = transpose01 alignment_weight in
      res_bind (copy_index copy_seq seq_len bsz) (\<lambda>index.
      res_bind (mul3 copy_gate aw) (\<lambda>cp.
      res_bind (view3 cp seq_len bsz) (\<lambda>copy_probs.
        scatter_add_last probs index copy_probs))))"

text \<open>
  One block of memory from the gates to the scattered probabilities. The token
  identities are passed as the result of their lookup, which the ensemble branches make
  (\<open>TM_num_copy_seqs[cur_idx]\<close>) only after \<open>probs\<close> is computed.
\<close>

definition exemplar_probs ::
  "decoder \<Rightarrow> real tensor3 \<Rightarrow> real tensor3 \<times> real tensor3 \<times> real tensor3 \<Rightarrow>
   error + int tensor2 \<Rightarrow> error + real tensor3" where
  "exemplar_probs dec x att copy_seq =
     (case att of (attn, alignment_weight, attn_normalized) \<Rightarrow>
        res_bind (generate_probs dec x attn attn_normalized) (\<lambda>(probs, copy_gate, seq_len, bsz).
        res_bind copy_seq (\<lambda>cur_copy_seq.
          copy_scatter probs copy_gate alignment_weight cur_copy_seq seq_len bsz)))"

section \<open>The branches of \<open>forward\<close>\<close>

text \<open>
  In every branch \<open>x\<close> is the feature tensor after \<open>x.transpose(0, 1)\<close>: target position,
  batch element, channel.

  Without ensemble the whole memory, all exemplars concatenated, is one block.
\<close>

definition no_ensemble_probs ::
  "decoder \<Rightarrow> real tensor3 \<Rightarrow> encoder_output \<Rightarrow> error + real tensor3" where
  "no_ensemble_probs dec x enc =
     exemplar_probs dec x
       (attend dec x (memory_encoder_out enc) (memory_encoder_padding_mask enc))
       (Inr (TMs enc))"

definition no_ensemble_branch ::
  "decoder \<Rightarrow> real tensor3 \<Rightarrow> encoder_output \<Rightarrow> error + real tensor3" where
  "no_ensemble_branch dec x enc =
     res_bind (no_ensemble_probs dec x enc) (\<lambda>probs. Inr (transpose01 (log_floor probs)))"

text \<open>
  The ensemble branches split memory, padding mask and token identities into \<open>TM_num\<close>
  chunks along the memory axis and index the chunks by \<open>cur_idx\<close> in \<open>range(TM_num)\<close>.
\<close>

definition tm_chunks ::
  "decoder \<Rightarrow> encoder_output \<Rightarrow>
   error + (real tensor3 list \<times> bool tensor2 list \<times> int tensor2 list)" where
  "tm_chunks dec enc =
     res_bind (chunk_dim0 (memory_encoder_out enc) (TM_num dec)) (\<lambda>TM_num_memorys.
     res_bind (chunk2_cols (memory_encoder_padding_mask enc) (TM_num dec))
       (\<lambda>TM_num_memory_encoder_padding_masks.
     res_bind (chunk2_rows (TMs enc) (TM_num dec)) (\<lambda>TM_num_copy_seqs.
       Inr (TM_num_memorys, TM_num_memory_encoder_padding_masks, TM_num_copy_seqs))))"

definition tm_range :: "decoder \<Rightarrow> nat list" where
  "tm_range dec = [0..<nat (TM_num dec)]"

text \<open>The probability tensor of exemplar \<open>cur_idx\<close>, computed from its own chunks only.\<close>

definition exemplar_pass ::
  "decoder \<Rightarrow> real tensor3 \<Rightarrow> real tensor3 list \<times> bool tensor2 list \<times> int tensor2 list \<Rightarrow>
   nat \<Rightarrow> error + real tensor3" where
  "exemplar_pass dec x chunks cur_idx =
     (case chunks of (TM_num_memorys, TM_num_memory_encoder_padding_masks, TM_num_copy_seqs) \<Rightarrow>
        res_bind (nth_res TM_num_memorys cur_idx) (\<lambda>cur_memory.
        res_bind (nth_res TM_num_memory_encoder_padding_masks cur_idx)
          (\<lambda>cur_memory_encoder_padding_mask.
           exemplar_probs dec x (attend dec x cur_memory cur_memory_encoder_padding_mask)
             (nth_res TM_num_copy_seqs cur_idx))))"

text \<open>The per-exemplar probability tensors, one after the other.\<close>

definition tm_probs ::
  "decoder \<Rightarrow> real tensor3 \<Rightarrow> encoder_output \<Rightarrow> error + real tensor3 list" where
  "tm_probs dec x enc =
     res_bind (tm_chunks dec enc) (\<lambda>chunks. map_res (exemplar_pass dec x chunks) (tm_range dec))"

text \<open>
  The branch taken when similarity scores are present: each exemplar's probabilities,
  batch first, are multiplied by that exemplar's score of the batch element; the products
  are summed and the logarithm is taken.
\<close>

definition similarity_branch ::
  "decoder \<Rightarrow> real tensor3 \<Rightarrow> encoder_output \<Rightarrow> real tensor2 \<Rightarrow> error + real tensor3" where
  "similarity_branch dec x enc sim =
     res_bind (tm_chunks dec enc) (\<lambda>chunks.
     res_bind (map_res (\<lambda>cur_idx.
                 res_bind (exemplar_pass dec x chunks cur_idx) (\<lambda>probs.
                 res_bind (select_col sim cur_idx) (\<lambda>cur_TMs_similarity.
                   mul3 (transpose01 probs) cur_TMs_similarity)))
               (tm_range dec)) (\<lambda>lprobs.
     res_bind (stack_sum lprobs) (\<lambda>final_lprobs. Inr (log_floor final_lprobs))))"

text \<open>The last branch: the mean of the per-exemplar probabilities, then the logarithm.\<close>

definition mean_branch ::
  "decoder \<Rightarrow> real tensor3 \<Rightarrow> encoder_output \<Rightarrow> error + real tensor3" where
  "mean_branch dec x enc =
     res_bind (tm_probs dec x enc) (\<lambda>lprobs.
     res_bind (stack_mean lprobs) (\<lambda>final_lprobs.
       Inr (transpose01 (log_floor final_lprobs))))"

subsection \<open>The branches with learned weights\<close>

text \<open>
  First loop of the learned branches: the attention of every exemplar, kept in
  \<open>attn_all\<close>, \<open>alignment_weight_all\<close> and \<open>attn_normalized_all\<close>.
\<close>

definition attend_all ::
  "decoder \<Rightarrow> real tensor3 \<Rightarrow> real tensor3 list \<times> bool tensor2 list \<times> int tensor2 list \<Rightarrow>
   error + (real tensor3 \<times> real tensor3 \<times> real tensor3) list" where
  "attend_all dec x chunks =
     (case chunks of (TM_num_memorys, TM_num_memory_encoder_padding_masks, TM_num_copy_seqs) \<Rightarrow>
        map_res (\<lambda>cur_idx.
          res_bind (nth_res TM_num_memorys cur_idx) (\<lambda>cur_memory.
          res_bind (nth_res TM_num_memory_encoder_padding_masks cur_idx)
            (\<lambda>cur_memory_encoder_padding_mask.
             Inr (attend dec x cur_memory cur_memory_encoder_padding_mask))))
          (tm_range dec))"

definition attn_of :: "real tensor3 \<times> real tensor3 \<times> real tensor3 \<Rightarrow> real tensor3" where
  "attn_of att = fst att"

definition attn_normalized_of ::
  "real tensor3 \<times> real tensor3 \<times> real tensor3 \<Rightarrow> real tensor3" where
  "attn_normalized_of att = snd (snd att)"

text \<open>
  The two-layer network that scores exemplars:
  \<open>fc1\<close>, activation, activation dropout, \<open>fc2\<close>, dropout.
\<close>

definition learnable_p_mlp :: "decoder \<Rightarrow> real tensor3 \<Rightarrow> real tensor3" where
  "learnable_p_mlp dec inp =
     dropout_module dec (learnable_p_fc2 dec
       (activation_dropout_module dec (activation_fn dec (learnable_p_fc1 dec inp))))"

text \<open>\<open>unscalable_linear\<close>: one network on \<open>x\<close> and all attended outputs, then softmax.\<close>

definition unscalable_weights ::
  "decoder \<Rightarrow> real tensor3 \<Rightarrow> (real tensor3 \<times> real tensor3 \<times> real tensor3) list \<Rightarrow>
   error + real tensor3" where
  "unscalable_weights dec x atts =
     res_bind (cat_last_list (x # map attn_of atts)) (\<lambda>input_for_learnable_p.
       Inr (softmax (transpose01 (learnable_p_mlp dec input_for_learnable_p))))"

text \<open>
  \<open>attention\<close>, \<open>attention_large\<close> and \<open>attention_2\<close>: for every target position the
  attention unit \<open>learnable_p_attn\<close> with that position of \<open>x\<close> as query and the normalised
  attended outputs of the exemplars as keys and values.
\<close>

definition pooled_attention ::
  "decoder \<Rightarrow> real tensor3 \<Rightarrow> (real tensor3 \<times> real tensor3 \<times> real tensor3) list \<Rightarrow>
   error + (real tensor3 \<times> real tensor3) list" where
  "pooled_attention dec x atts =
     (let attn_normalized_all = map attn_normalized_of atts in
      if \<not> stackable attn_normalized_all then Inl ShapeMismatch
      else
        map_res (\<lambda>T_idx.
          if T_idx < dim0 (hd attn_normalized_all)
          then
            let cur_x = row_of x T_idx;
                cur_clone_attn_normalized = stack_at attn_normalized_all T_idx
            in Inr (learnable_p_attn dec cur_x cur_clone_attn_normalized
                      cur_clone_attn_normalized)
          else Inl IndexError)
          [0..<dim0 x])"

definition attention_weights ::
  "decoder \<Rightarrow> real tensor3 \<Rightarrow> (real tensor3 \<times> real tensor3 \<times> real tensor3) list \<Rightarrow>
   error + real tensor3" where
  "attention_weights dec x atts =
     res_bind (pooled_attention dec x atts) (\<lambda>pooled. cat_dim1_list (map snd pooled))"

text \<open>
  \<open>linear\<close> and \<open>linear_large\<close>: the first loop also computes, right after the
  exemplar's attention, one score for the exemplar: the network on \<open>x\<close> and the
  exemplar's normalised attended output. The weights are the softmax of the scores over
  the exemplars.
\<close>

definition linear_attend_all ::
  "decoder \<Rightarrow> real tensor3 \<Rightarrow> real tensor3 list \<times> bool tensor2 list \<times> int tensor2 list \<Rightarrow>
   error + ((real tensor3 \<times> real tensor3 \<times> real tensor3) \<times> real tensor3) list" where
  "linear_attend_all dec x chunks =
     (case chunks of (TM_num_memorys, TM_num_memory_encoder_padding_masks, TM_num_copy_seqs) \<Rightarrow>
        map_res (\<lambda>cur_idx.
          res_bind (nth_res TM_num_memorys cur_idx) (\<lambda>cur_memory.
          res_bind (nth_res TM_num_memory_encoder_padding_masks cur_idx)
            (\<lambda>cur_memory_encoder_padding_mask.
             let att = attend dec x cur_memory cur_memory_encoder_padding_mask in
             res_bind (cat_last x (attn_normalized_of att)) (\<lambda>cur_learnable_p.
               Inr (att, transpose01 (learnable_p_mlp dec cur_learnable_p))))))
          (tm_range dec))"

definition linear_weights :: "real tensor3 list \<Rightarrow> error + real tensor3" where
  "linear_weights input_for_learnable_p =
     res_bind (cat_last_list input_for_learnable_p) (\<lambda>c. Inr (softmax c))"

text \<open>
  \<open>attention_2\<close>: the network on \<open>x\<close>, the exemplar's normalised attended output and the
  pooled attention output; softmax over the exemplars.
\<close>

definition hybrid_weights ::
  "decoder \<Rightarrow> real tensor3 \<Rightarrow> (real tensor3 \<times> real tensor3 \<times> real tensor3) list \<Rightarrow>
   error + real tensor3" where
  "hybrid_weights dec x atts =
     res_bind (pooled_attention dec x atts) (\<lambda>pooled.
     res_bind (cat_dim0_list (map fst pooled)) (\<lambda>learnable_p_attn_all_cat.
     res_bind (map_res (\<lambda>cur_idx.
                 res_bind (nth_res (map attn_normalized_of atts) cur_idx)
                   (\<lambda>cur_attn_normalized.
                 res_bind (cat_last_list [x, cur_attn_normalized, learnable_p_attn_all_cat])
                   (\<lambda>cur_learnable_p.
                    Inr (transpose01 (learnable_p_mlp dec cur_learnable_p)))))
               (tm_range dec)) linear_weights))"

text \<open>
  Second loop of the learned branches: each exemplar's probabilities from the stored
  attention, batch first, multiplied by the exemplar's weight at every target position and
  batch element.
\<close>

definition weighted_exemplars ::
  "decoder \<Rightarrow> real tensor3 \<Rightarrow> real tensor3 list \<times> bool tensor2 list \<times> int tensor2 list \<Rightarrow>
   (real tensor3 \<times> real tensor3 \<times> real tensor3) list \<Rightarrow> real tensor3 \<Rightarrow>
   error + real tensor3 list" where
  "weighted_exemplars dec x chunks atts input_for_learnable_p =
     (case chunks of (TM_num_memorys, TM_num_memory_encoder_padding_masks, TM_num_copy_seqs) \<Rightarrow>
        map_res (\<lambda>cur_idx.
          res_bind (nth_res atts cur_idx) (\<lambda>att.
          res_bind (exemplar_probs dec x att (nth_res TM_num_copy_seqs cur_idx)) (\<lambda>probs.
          res_bind (select_last input_for_learnable_p cur_idx) (\<lambda>cur_TMs_similarity.
            mul3 (transpose01 probs) cur_TMs_similarity))))
          (tm_range dec))"

definition weighted_sum_log ::
  "decoder \<Rightarrow> real tensor3 \<Rightarrow> real tensor3 list \<times> bool tensor2 list \<times> int tensor2 list \<Rightarrow>
   (real tensor3 \<times> real tensor3 \<times> real tensor3) list \<Rightarrow> real tensor3 \<Rightarrow>
   error + real tensor3" where
  "weighted_sum_log dec x chunks atts input_for_learnable_p =
     res_bind (weighted_exemplars dec x chunks atts input_for_learnable_p) (\<lambda>lprobs.
     res_bind (stack_sum lprobs) (\<lambda>final_lprobs. Inr (log_floor final_lprobs)))"

text \<open>
  The strategies of \<open>forward\<close>, one for each branch of its chain of conditions; the
  similarity-weighted one carries the scores \<open>encoder_out["TMs_similarity"][0]\<close>.
\<close>

datatype strategy =
  NoEnsemble | SimilarityWeighted "real tensor2" | UnscalableLinear | AttentionPooled | PairwiseLinear
  | HybridAttention | PlainMean

text \<open>
  The weights of a learned strategy, with the attention of all exemplars they are
  computed from.
\<close>

definition learned_weights ::
  "strategy \<Rightarrow> decoder \<Rightarrow> real tensor3 \<Rightarrow>
   real tensor3 list \<times> bool tensor2 list \<times> int tensor2 list \<Rightarrow>
   error + ((real tensor3 \<times> real tensor3 \<times> real tensor3) list \<times> real tensor3)" where
  "learned_weights s dec x chunks =
     (if s = PairwiseLinear
      then res_bind (linear_attend_all dec x chunks) (\<lambda>scored.
           res_bind (linear_weights (map snd scored)) (\<lambda>w. Inr (map fst scored, w)))
      else res_bind (attend_all dec x chunks) (\<lambda>atts.
           res_bind (if s = UnscalableLinear then unscalable_weights dec x atts
                     else if s = AttentionPooled then attention_weights dec x atts
                     else hybrid_weights dec x atts) (\<lambda>w. Inr (atts, w))))"

definition learned_branch ::
  "strategy \<Rightarrow> decoder \<Rightarrow> real tensor3 \<Rightarrow> encoder_output \<Rightarrow> error + real tensor3" where
  "learned_branch s dec x enc =
     res_bind (tm_chunks dec enc) (\<lambda>chunks.
     res_bind (learned_weights s dec x chunks) (\<lambda>(atts, input_for_learnable_p).
       weighted_sum_log dec x chunks atts input_for_learnable_p))"

section \<open>\<open>forward\<close>\<close>

text \<open>The chain of conditions of \<open>forward\<close>, in the order of the source.\<close>

definition select_strategy :: "decoder \<Rightarrow> encoder_output \<Rightarrow> strategy" where
  "select_strategy dec enc =
     (if \<not> with_TM_ensemble dec then NoEnsemble
      else if with_TM_ensemble dec \<and> TMs_similarity enc \<noteq> None
        then SimilarityWeighted (the (TMs_similarity enc))
      else if with_TM_ensemble dec \<and> with_TM_learnable_p dec
              \<and> with_TM_learnable_p_model dec = Some ''unscalable_linear''
        then UnscalableLinear
      else if with_TM_ensemble dec \<and> with_TM_learnable_p dec
              \<and> (with_TM_learnable_p_model dec = Some ''attention''
                 \<or> with_TM_learnable_p_model dec = Some ''attention_large'')
        then AttentionPooled
      else if with_TM_ensemble dec \<and> with_TM_learnable_p dec
              \<and> (with_TM_learnable_p_model dec = Some ''linear''
                 \<or> with_TM_learnable_p_model dec = Some ''linear_large'')
        then PairwiseLinear
      else if with_TM_ensemble dec \<and> with_TM_learnable_p dec
              \<and> with_TM_learnable_p_model dec = Some ''attention_2''
        then HybridAttention
      else PlainMean)"

definition run_strategy ::
  "strategy \<Rightarrow> decoder \<Rightarrow> real tensor3 \<Rightarrow> encoder_output \<Rightarrow> error + real tensor3" where
  "run_strategy s dec x enc =
     (case s of
        NoEnsemble \<Rightarrow> no_ensemble_branch dec x enc
      | SimilarityWeighted sim \<Rightarrow> similarity_branch dec x enc sim
      | PlainMean \<Rightarrow> mean_branch dec x enc
      | _ \<Rightarrow> learned_branch s dec x enc)"

text \<open>
  \<open>forward\<close>: the features, then the branch. The arguments \<open>features_only\<close>,
  \<open>src_lengths\<close> and \<open>return_all_hiddens\<close> are not read. Every branch subscripts
  \<open>encoder_out\<close> first, which fails when it is \<open>None\<close>.
\<close>

definition forward :: "decoder \<Rightarrow> forward_args \<Rightarrow> error + (real tensor3 \<times> extra)" where
  "forward dec a =
     res_bind (extract_features dec (prev_output_tokens a) (encoder_out a)
                 (incremental_state a) (full_context_alignment a) (alignment_layer_arg a)
                 (alignment_heads a)) (\<lambda>(x, extra).
     res_bind (case encoder_out a of None \<Rightarrow> Inl TypeError | Some enc \<Rightarrow> Inr enc) (\<lambda>enc.
     res_bind (run_strategy (select_strategy dec enc) dec (transpose01 x) enc) (\<lambda>lprobs.
       Inr (lprobs, extra))))"

text \<open>
  \<open>get_normalized_probs\<close> and \<open>get_normalized_probs_scriptable\<close>: the first component
  of the network output; \<open>contiguous()\<close> changes the memory layout only.
\<close>

definition get_normalized_probs_scriptable ::
  "decoder \<Rightarrow> real tensor3 \<times> extra \<Rightarrow> bool \<Rightarrow> 'sample option \<Rightarrow> real tensor3" where
  "get_normalized_probs_scriptable dec net_output log_probs sample =
     (let logits = fst net_output in logits)"

definition get_normalized_probs ::
  "decoder \<Rightarrow> real tensor3 \<times> extra \<Rightarrow> bool \<Rightarrow> 'sample option \<Rightarrow> real tensor3" where
  "get_normalized_probs dec net_output log_probs sample =
     get_normalized_probs_scriptable dec net_output log_probs sample"

section \<open>A small decoder for concrete runs\<close>

text \<open>
  Batch size 1, one target position, one channel, a vocabulary of two tokens. Layer
  normalisations, feed-forward layers, activation and dropout are the identity; the
  diverter and the vocabulary projection return zero logits, so both gates are 1/2 and
  the vocabulary softmax is uniform; the alignment attention returns the query as attended
  output and puts all weight on the first memory position; the weighting attention is
  uniform over its keys; \<open>learnable_p_fc2\<close> returns zero logits of the given width.
\<close>

definition ex_zeros :: "nat \<Rightarrow> real tensor3 \<Rightarrow> real tensor3" where
  "ex_zeros n t = \<lparr>dim0 = dim0 t, dim1 = dim1 t, dim2 = n, at3 = (\<lambda>i j k. 0)\<rparr>"

definition ex_alignment ::
  "real tensor3 \<Rightarrow> real tensor3 \<Rightarrow> real tensor3 \<Rightarrow> bool tensor2 \<Rightarrow> real tensor3 \<times> real tensor3" where
  "ex_alignment q k v m =
     (q, \<lparr>dim0 = dim1 q, dim1 = dim0 q, dim2 = dim0 k,
          at3 = (\<lambda>b t s. if s = 0 then 1 else 0)\<rparr>)"

definition ex_pooling ::
  "real tensor3 \<Rightarrow> real tensor3 \<Rightarrow> real tensor3 \<Rightarrow> real tensor3 \<times> real tensor3" where
  "ex_pooling q k v =
     (q, \<lparr>dim0 = dim1 q, dim1 = dim0 q, dim2 = dim0 k,
          at3 = (\<lambda>b t s. 1 / real (dim0 k))\<rparr>)"

definition ex_extra :: extra where
  "ex_extra = \<lparr>attn_diag = None, inner_states = []\<rparr>"

definition ex_features :: "real tensor3" where
  "ex_features = \<lparr>dim0 = 1, dim1 = 1, dim2 = 1, at3 = (\<lambda>i j k. 0)\<rparr>"

definition ex_decoder :: "bool \<Rightarrow> int \<Rightarrow> bool \<Rightarrow> string option \<Rightarrow> nat \<Rightarrow> decoder" where
  "ex_decoder ens n lp model width =
     \<lparr>with_TM_ensemble = ens, TM_num = n, with_TM_learnable_p = lp,
      with_TM_learnable_p_model = model, normalize_before = False, adaptive_softmax = False,
      extract_features = (\<lambda>toks enc inc fca al ah. Inr (ex_features, ex_extra)),
      alignment_layer = ex_alignment,
      alignment_layer_norm = (\<lambda>t. t), diverter = ex_zeros 2,
      ff_layer_1 = (\<lambda>t. t), ff_layer_2 = (\<lambda>t. t), ff_layer_norm = (\<lambda>t. t),
      activation_fn = (\<lambda>t. t), activation_dropout_module = (\<lambda>t. t),
      dropout_module = (\<lambda>t. t), output_projection = ex_zeros 2,
      learnable_p_fc1 = (\<lambda>t. t), learnable_p_fc2 = ex_zeros width,
      learnable_p_attn = ex_pooling\<rparr>"

text \<open>
  The small decoder without ensemble, built with an adaptive softmax: \<open>output_layer\<close>
  returns its input.
\<close>

definition ex_adaptive_decoder :: decoder where
  "ex_adaptive_decoder = (ex_decoder False 1 False None 1)\<lparr>adaptive_softmax := True\<rparr>"

text \<open>
  A memory of \<open>len\<close> positions for one batch element, without padding; position \<open>s\<close>
  holds token \<open>s mod 2\<close>.
\<close>

definition ex_encoder_output :: "nat \<Rightarrow> real tensor2 option \<Rightarrow> encoder_output" where
  "ex_encoder_output len sim =
     \<lparr>encoder_states = [], encoder_padding_mask = [],
      memory_encoder_out = \<lparr>dim0 = len, dim1 = 1, dim2 = 1, at3 = (\<lambda>i j k. 0)\<rparr>,
      memory_encoder_padding_mask = \<lparr>rows = 1, cols = len, at2 = (\<lambda>i j. False)\<rparr>,
      TMs = \<lparr>rows = len, cols = 1, at2 = (\<lambda>s b. int (s mod 2))\<rparr>,
      TMs_similarity = sim\<rparr>"

definition ex_args :: "encoder_output \<Rightarrow> forward_args" where
  "ex_args enc =
     \<lparr>prev_output_tokens = \<lparr>rows = 1, cols = 1, at2 = (\<lambda>i j. 0)\<rparr>,
      encoder_out = Some enc, incremental_state = None, features_only = False,
      full_context_alignment = False, alignment_layer_arg = None, alignment_heads = None,
      src_lengths = None, return_all_hiddens = False\<rparr>"

text \<open>Similarity scores 0.7 and 0.3 of two exemplars for the one batch element.\<close>

definition ex_similarity :: "real tensor2" where
  "ex_similarity = \<lparr>rows = 1, cols = 2, at2 = (\<lambda>b i. if i = 0 then 7 / 10 else 3 / 10)\<rparr>"

section \<open>Permuting the memory positions\<close>

text \<open>
  A permutation \<open>p\<close> of the memory positions applied to the position axis of the
  alignment weights (batch, target position, memory position) and of the token identities
  (memory position, batch).
\<close>

definition permute_last :: "(nat \<Rightarrow> nat) \<Rightarrow> 'a tensor3 \<Rightarrow> 'a tensor3" where
  "permute_last p t =
     \<lparr>dim0 = dim0 t, dim1 = dim1 t, dim2 = dim2 t, at3 = (\<lambda>i j k. at3 t i j (p k))\<rparr>"

definition permute_rows :: "(nat \<Rightarrow> nat) \<Rightarrow> 'a tensor2 \<Rightarrow> 'a tensor2" where
  "permute_rows p t = \<lparr>rows = rows t, cols = cols t, at2 = (\<lambda>i j. at2 t (p i) j)\<rparr>"

text \<open>Every token identity is a position of a vocabulary axis of size \<open>n\<close>.\<close>

definition ids_in_range :: "int tensor2 \<Rightarrow> nat \<Rightarrow> bool" where
  "ids_in_range cs n \<longleftrightarrow> (\<forall>s<rows cs. \<forall>b<cols cs. 0 \<le> at2 cs s b \<and> at2 cs s b < int n)"

definition ex_swap :: "nat \<Rightarrow> nat" where
  "ex_swap k = (if k = 0 then 1 else if k = 1 then 0 else k)"

text \<open>
  Generation mass 1/4 on each of two tokens, copy gate 1/2, alignment weights 1/4 and 3/4
  on two memory positions that hold the tokens 0 and 1.
\<close>

definition ex_gen_probs :: "real tensor3" where
  "ex_gen_probs = \<lparr>dim0 = 1, dim1 = 1, dim2 = 2, at3 = (\<lambda>i j k. 1 / 4)\<rparr>"

definition ex_copy_gate :: "real tensor3" where
  "ex_copy_gate = \<lparr>dim0 = 1, dim1 = 1, dim2 = 1, at3 = (\<lambda>i j k. 1 / 2)\<rparr>"

definition ex_alignment_weight :: "real tensor3" where
  "ex_alignment_weight =
     \<lparr>dim0 = 1, dim1 = 1, dim2 = 2, at3 = (\<lambda>b t s. if s = 0 then 1 / 4 else 3 / 4)\<rparr>"

definition ex_copy_seq :: "int tensor2" where
  "ex_copy_seq = \<lparr>rows = 2, cols = 1, at2 = (\<lambda>s b. int s)\<rparr>"

section \<open>What the theorems ask of the learned modules\<close>

text \<open>
  A linear layer, a normalisation, an activation or a dropout acts on the channel axis
  and keeps the two leading axes of its input. The attention weights of an attention
  unit are a distribution over the key positions.
\<close>

definition keeps_positions :: "(real tensor3 \<Rightarrow> real tensor3) \<Rightarrow> bool" where
  "keeps_positions f \<longleftrightarrow> (\<forall>t. dim0 (f t) = dim0 t \<and> dim1 (f t) = dim1 t)"

definition modules_keep_positions :: "decoder \<Rightarrow> bool" where
  "modules_keep_positions dec \<longleftrightarrow>
     keeps_positions (alignment_layer_norm dec) \<and> keeps_positions (diverter dec)
     \<and> keeps_positions (ff_layer_1 dec) \<and> keeps_positions (ff_layer_2 dec)
     \<and> keeps_positions (ff_layer_norm dec) \<and> keeps_positions (activation_fn dec)
     \<and> keeps_positions (activation_dropout_module dec) \<and> keeps_positions (dropout_module dec)
     \<and> keeps_positions (output_projection dec)"

definition weights_normalized :: "real tensor3 \<Rightarrow> bool" where
  "weights_normalized w \<longleftrightarrow> (\<forall>b<dim0 w. \<forall>t<dim1 w. (\<Sum>s<dim2 w. at3 w b t s) = 1)"

text \<open>A tensor of the given shape.\<close>

definition shaped :: "nat \<Rightarrow> nat \<Rightarrow> nat \<Rightarrow> 'a tensor3 \<Rightarrow> bool" where
  "shaped a b c t \<longleftrightarrow> dim0 t = a \<and> dim1 t = b \<and> dim2 t = c"

text \<open>
  The weighting attention returns one weight per key for every query position and batch
  element, and with at least one key these weights sum to 1.
\<close>

definition pooling_normalized ::
  "(real tensor3 \<Rightarrow> real tensor3 \<Rightarrow> real tensor3 \<Rightarrow> real tensor3 \<times> real tensor3) \<Rightarrow> bool" where
  "pooling_normalized f \<longleftrightarrow>
     (\<forall>q k v. dim0 (snd (f q k v)) = dim1 q \<and> dim1 (snd (f q k v)) = dim0 q
        \<and> dim2 (snd (f q k v)) = dim0 k
        \<and> (0 < dim0 k \<longrightarrow> weights_normalized (snd (f q k v))))"

text \<open>Similarity scores 0.7 and 0.7, which do not sum to 1.\<close>

definition ex_similarity_raw :: "real tensor2" where
  "ex_similarity_raw = \<lparr>rows = 1, cols = 2, at2 = (\<lambda>b i. 7 / 10)\<rparr>"

section \<open>Single-precision arithmetic\<close>

text \<open>
  The gates and the vocabulary softmax are computed with \<open>dtype=torch.float32\<close> and the
  copy mass is converted with \<open>.float()\<close>, so the scatter adds single-precision numbers.
  \<open>round_float32\<close> rounds a real number to the nearest one: 24 significant bits, the
  exponent of the leading bit between -126 and 127 (below, the spacing stays that of
  exponent -126), ties to the even significand. Overflow to infinity is not part of it.
\<close>

definition float32_exponent :: "real \<Rightarrow> int" where
  "float32_exponent x =
     (case filter (\<lambda>e. 2 powi e \<le> \<bar>x\<bar>) (rev [-126..127]) of [] \<Rightarrow> -126 | e # _ \<Rightarrow> e)"

definition round_half_even :: "real \<Rightarrow> int" where
  "round_half_even y =
     (let f = \<lfloor>y\<rfloor>; r = y - of_int f in
      if r < 1 / 2 then f else if 1 / 2 < r then f + 1 else if even f then f else f + 1)"

definition round_float32 :: "real \<Rightarrow> real" where
  "round_float32 x =
     (let q = 2 powi (float32_exponent x - 23) in
      sgn x * (of_int (round_half_even (\<bar>x\<bar> / q)) * q))"

definition is_float32 :: "real \<Rightarrow> bool" where
  "is_float32 x \<longleftrightarrow> round_float32 x = x"

text \<open>\<open>acc += c\<close> on single-precision numbers.\<close>

definition float32_add :: "real \<Rightarrow> real \<Rightarrow> real" where
  "float32_add c acc = round_float32 (acc + c)"

text \<open>
  The copy-mass scatter on single-precision tensors: the product \<open>copy_gate *
  alignment_weight\<close> is rounded, and \<open>scatter_add_\<close> adds the entries of a row one after
  the other in the order of the memory positions, rounding after every addition.
\<close>

definition mul3_float32 :: "real tensor3 \<Rightarrow> real tensor3 \<Rightarrow> error + real tensor3" where
  "mul3_float32 = broadcast (\<lambda>a b. round_float32 (a * b))"

definition scatter_row_float32 :: "(nat \<Rightarrow> real) \<Rightarrow> (nat \<times> real) list \<Rightarrow> nat \<Rightarrow> real" where
  "scatter_row_float32 row us =
     fold (\<lambda>u acc. acc(fst u := float32_add (snd u) (acc (fst u)))) us row"

definition scatter_add_last_float32 ::
  "real tensor3 \<Rightarrow> int tensor3 \<Rightarrow> real tensor3 \<Rightarrow> error + real tensor3" where
  "scatter_add_last_float32 self index src =
     (if \<not> (dim0 index \<le> dim0 src \<and> dim1 index \<le> dim1 src \<and> dim2 index \<le> dim2 src
            \<and> dim0 index \<le> dim0 self \<and> dim1 index \<le> dim1 self)
      then Inl ShapeMismatch
      else if \<not> index_in_range index (dim2 self) then Inl ScatterIndexError
      else
        Inr \<lparr>dim0 = dim0 self, dim1 = dim1 self, dim2 = dim2 self,
             at3 = (\<lambda>i j.
                if i < dim0 index \<and> j < dim1 index
                then scatter_row_float32 (at3 self i j)
                       (map (\<lambda>k. (nat (at3 index i j k), at3 src i j k)) [0..<dim2 index])
                else at3 self i j)\<rparr>)"

definition copy_scatter_float32 ::
  "real tensor3 \<Rightarrow> real tensor3 \<Rightarrow> real tensor3 \<Rightarrow> int tensor2 \<Rightarrow> nat \<Rightarrow> nat \<Rightarrow>
   error + real tensor3" where
  "copy_scatter_float32 probs copy_gate alignment_weight copy_seq seq_len bsz =
     (let aw = transpose01 alignment_weight in
      res_bind (copy_index copy_seq seq_len bsz) (\<lambda>index.
      res_bind (mul3_float32 copy_gate aw) (\<lambda>cp.
      res_bind (view3 cp seq_len bsz) (\<lambda>copy_probs.
        scatter_add_last_float32 probs index copy_probs))))"

text \<open>
  Two memory positions that both hold token 0, with alignment weights \<open>2^-23\<close> and
  \<open>1 - 2^-23\<close>, copy gate 1/2 and generation mass \<open>1/4 + 2^-25\<close> and \<open>1/4 - 2^-25\<close> on the
  two tokens. All of these are single-precision numbers.
\<close>

definition ex_shared_probs :: "real tensor3" where
  "ex_shared_probs =
     \<lparr>dim0 = 1, dim1 = 1, dim2 = 2,
      at3 = (\<lambda>i j k. if k = 0 then 1 / 4 + 1 / 2 ^ 25 else 1 / 4 - 1 / 2 ^ 25)\<rparr>"

definition ex_shared_weight :: "real tensor3" where
  "ex_shared_weight =
     \<lparr>dim0 = 1, dim1 = 1, dim2 = 2,
      at3 = (\<lambda>b t s. if s = 0 then 1 / 2 ^ 23 else 1 - 1 / 2 ^ 23)\<rparr>"

definition ex_shared_copy_seq :: "int tensor2" where
  "ex_shared_copy_seq = \<lparr>rows = 2, cols = 1, at2 = (\<lambda>s b. 0)\<rparr>"

section \<open>The attention over the memory\<close>

text \<open>
  Modelled from the spec: the softmax of the Attention-over-Memory unit, whose class
  (\<open>MultiheadAttention\<close> of \<open>fairseq.modules\<close>, behind \<open>alignment_layer\<close>) is not among
  the source files. The spec: the alignment-weight matrix gives "a normalized (softmax
  over exemplar-length) attention distribution per target position. Padding positions in
  the exemplar must receive zero weight regardless of raw score (masked before softmax)."
  Masking before the softmax replaces the score of a padding position by minus infinity,
  whose exponential is 0. Scores and weights are indexed by batch element, target
  position and memory position, the mask by batch element and memory position.
\<close>

definition masked_softmax :: "real tensor3 \<Rightarrow> bool tensor2 \<Rightarrow> real tensor3" where
  "masked_softmax scores key_padding_mask =
     \<lparr>dim0 = dim0 scores, dim1 = dim1 scores, dim2 = dim2 scores,
      at3 = (\<lambda>b t s.
         (if at2 key_padding_mask b s then 0 else exp (at3 scores b t s))
         / (\<Sum>s'<dim2 scores. if at2 key_padding_mask b s' then 0
                                else exp (at3 scores b t s')))\<rparr>"

text \<open>
  Modelled from the spec: the Attention-over-Memory unit. The spec: "given decoder states
  (positions x batch x channels) and one exemplar's encoded sequence + padding mask,
  returns (a) an attended output of identical shape to the decoder states, and (b) an
  alignment-weight matrix of shape (batch x target-positions x exemplar-length)". The raw
  scores of query and key and the attended output computed from the weights and the
  values are those of the unit's learned projections: parameters.
\<close>

definition attention_over_memory ::
  "(real tensor3 \<Rightarrow> real tensor3 \<Rightarrow> real tensor3) \<Rightarrow>
   (real tensor3 \<Rightarrow> real tensor3 \<Rightarrow> real tensor3) \<Rightarrow>
   real tensor3 \<Rightarrow> real tensor3 \<Rightarrow> real tensor3 \<Rightarrow> bool tensor2 \<Rightarrow>
   real tensor3 \<times> real tensor3" where
  "attention_over_memory raw_scores attended query key value' key_padding_mask =
     (let alignment_weight = masked_softmax (raw_scores query key) key_padding_mask
      in (attended alignment_weight value', alignment_weight))"

text \<open>
  A mask that marks the second of two memory positions as padding, raw scores that are
  largest on that position, and the small decoder with the unit above as its alignment
  attention.
\<close>

definition ex_padding_mask :: "bool tensor2" where
  "ex_padding_mask = \<lparr>rows = 1, cols = 2, at2 = (\<lambda>b s. s = 1)\<rparr>"

definition ex_raw_scores :: "real tensor3 \<Rightarrow> real tensor3 \<Rightarrow> real tensor3" where
  "ex_raw_scores q k =
     \<lparr>dim0 = dim1 q, dim1 = dim0 q, dim2 = dim0 k, at3 = (\<lambda>b t s. if s = 1 then 100 else 0)\<rparr>"

definition ex_masked_decoder :: decoder where
  "ex_masked_decoder =
     (ex_decoder False 2 False None 1)
       \<lparr>alignment_layer := attention_over_memory ex_raw_scores (\<lambda>w v. v)\<rparr>"

section \<open>Properties\<close>

subsection \<open>Results and loops\<close>

lemma res_bind_Inl [simp]: "res_bind (Inl e) f = Inl e"
  by (simp add: res_bind_def)

lemma res_bind_Inr [simp]: "res_bind (Inr x) f = f x"
  by (simp add: res_bind_def)

lemma res_bind_eq_Inr: "res_bind m f = Inr y \<longleftrightarrow> (\<exists>x. m = Inr x \<and> f x = Inr y)"
  by (cases m) simp_all

lemma res_bind_isl: "isl m \<Longrightarrow> isl (res_bind m f)"
  by (cases m) simp_all

lemma map_res_eq_Inr:
  "map_res f xs = Inr ys \<longleftrightarrow> length ys = length xs \<and> (\<forall>i<length xs. f (xs ! i) = Inr (ys ! i))"
proof (induction xs arbitrary: ys)
  case Nil
  then show ?case by auto
next
  case (Cons x xs)
  show ?case
  proof (cases ys)
    case Nil
    then show ?thesis by (auto simp: res_bind_eq_Inr)
  next
    case (Cons y ys')
    then show ?thesis
      using Cons.IH [of ys'] by (auto simp: res_bind_eq_Inr less_Suc_eq_0_disj)
  qed
qed

lemma map_res_isl: "x \<in> set xs \<Longrightarrow> isl (f x) \<Longrightarrow> isl (map_res f xs)"
proof (induction xs)
  case Nil
  then show ?case by simp
next
  case (Cons a xs)
  then show ?case
    by (cases "f a"; cases "map_res f xs") auto
qed

lemma map_res_map: "map_res (\<lambda>x. Inr (g x)) xs = Inr (map g xs)"
  by (induction xs) simp_all

lemma res_bind_assoc: "res_bind (res_bind m f) g = res_bind m (\<lambda>x. res_bind (f x) g)"
  by (cases m) simp_all

lemma res_bind_case_prod:
  "res_bind (case p of (a, b) \<Rightarrow> f a b) g = (case p of (a, b) \<Rightarrow> res_bind (f a b) g)"
  by (cases p) simp

subsection \<open>The output of \<open>forward\<close>\<close>

lemma log_floor_transpose01: "log_floor (transpose01 t) = transpose01 (log_floor t)"
  by (simp add: log_floor_def transpose01_def)

lemma run_strategy_log:
  "run_strategy s dec x enc =
     res_bind
       (case s of
          NoEnsemble \<Rightarrow>
            res_bind (no_ensemble_probs dec x enc) (\<lambda>probs. Inr (transpose01 probs))
        | SimilarityWeighted sim \<Rightarrow>
            res_bind (tm_chunks dec enc) (\<lambda>chunks.
            res_bind (map_res (\<lambda>cur_idx.
                        res_bind (exemplar_pass dec x chunks cur_idx) (\<lambda>probs.
                        res_bind (select_col sim cur_idx) (\<lambda>cur_TMs_similarity.
                          mul3 (transpose01 probs) cur_TMs_similarity)))
                      (tm_range dec)) stack_sum)
        | PlainMean \<Rightarrow>
            res_bind (tm_probs dec x enc) (\<lambda>ps.
            res_bind (stack_mean ps) (\<lambda>m. Inr (transpose01 m)))
        | s' \<Rightarrow>
            res_bind (tm_chunks dec enc) (\<lambda>chunks.
            res_bind (learned_weights s' dec x chunks) (\<lambda>(atts, w).
            res_bind (weighted_exemplars dec x chunks atts w) stack_sum)))
       (\<lambda>fused. Inr (log_floor fused))"
  by (cases s)
    (simp_all add: run_strategy_def no_ensemble_branch_def similarity_branch_def
      mean_branch_def learned_branch_def weighted_sum_log_def res_bind_assoc
      res_bind_case_prod log_floor_transpose01 split_def)

text \<open>
  C10. The argument \<open>features_only\<close> of \<open>forward\<close> is ignored: whatever its value, the
  result is the one of the call with the argument as given. \<open>forward\<close> is the feature
  extraction, then the fusion of the selected branch, then \<open>log(fused + 1e-12)\<close>, which is
  the tensor returned with the extractor's \<open>extra\<close>: the tensor of the one pass without
  ensemble, the sum of the weighted per-exemplar tensors with similarity scores or learned
  weights, their mean otherwise, batch first. Every such tensor comes from
  \<open>exemplar_probs\<close>: the generation gate times the softmax of the vocabulary projection of
  the feed-forward output, or of the feed-forward output itself when the decoder has an
  adaptive softmax, with the copy mass scattered onto it.
\<close>

theorem forward_returns_log_probabilities:
  "forward dec (a\<lparr>features_only := fo\<rparr>) = forward dec a
   \<and> forward dec a =
       res_bind (extract_features dec (prev_output_tokens a) (encoder_out a)
                   (incremental_state a) (full_context_alignment a) (alignment_layer_arg a)
                   (alignment_heads a)) (\<lambda>(x, ex).
       res_bind (case encoder_out a of None \<Rightarrow> Inl TypeError | Some enc \<Rightarrow> Inr enc) (\<lambda>enc.
       res_bind
         (case select_strategy dec enc of
            NoEnsemble \<Rightarrow>
              res_bind (no_ensemble_probs dec (transpose01 x) enc)
                (\<lambda>probs. Inr (transpose01 probs))
          | SimilarityWeighted sim \<Rightarrow>
              res_bind (tm_chunks dec enc) (\<lambda>chunks.
              res_bind (map_res (\<lambda>cur_idx.
                          res_bind (exemplar_pass dec (transpose01 x) chunks cur_idx) (\<lambda>probs.
                          res_bind (select_col sim cur_idx) (\<lambda>cur_TMs_similarity.
                            mul3 (transpose01 probs) cur_TMs_similarity)))
                        (tm_range dec)) stack_sum)
          | PlainMean \<Rightarrow>
              res_bind (tm_probs dec (transpose01 x) enc) (\<lambda>ps.
              res_bind (stack_mean ps) (\<lambda>m. Inr (transpose01 m)))
          | s \<Rightarrow>
              res_bind (tm_chunks dec enc) (\<lambda>chunks.
              res_bind (learned_weights s dec (transpose01 x) chunks) (\<lambda>(atts, w).
              res_bind (weighted_exemplars dec (transpose01 x) chunks atts w) stack_sum)))
         (\<lambda>fused. Inr (log_floor fused, ex))))
   \<and> exemplar_probs dec y att cs =
       res_bind (gen_copy_gates dec y (snd (snd att))) (\<lambda>(gen_gate, copy_gate).
       res_bind (feed_forward dec y (fst att)) (\<lambda>h.
       res_bind (mul3 gen_gate
                   (softmax (if adaptive_softmax dec then h else output_projection dec h)))
         (\<lambda>probs.
       res_bind cs (\<lambda>cur_copy_seq.
         copy_scatter probs copy_gate (fst (snd att)) cur_copy_seq (dim0 h) (dim1 h)))))"
proof (intro conjI)
  show "forward dec (a\<lparr>features_only := fo\<rparr>) = forward dec a"
    by (simp add: forward_def)
  show "exemplar_probs dec y att cs =
       res_bind (gen_copy_gates dec y (snd (snd att))) (\<lambda>(gen_gate, copy_gate).
       res_bind (feed_forward dec y (fst att)) (\<lambda>h.
       res_bind (mul3 gen_gate
                   (softmax (if adaptive_softmax dec then h else output_projection dec h)))
         (\<lambda>probs.
       res_bind cs (\<lambda>cur_copy_seq.
         copy_scatter probs copy_gate (fst (snd att)) cur_copy_seq (dim0 h) (dim1 h)))))"
    by (cases att; cases "adaptive_softmax dec")
      (simp_all add: exemplar_probs_def generate_probs_def output_layer_def res_bind_assoc
        res_bind_case_prod split_def)
  show "forward dec a =
       res_bind (extract_features dec (prev_output_tokens a) (encoder_out a)
                   (incremental_state a) (full_context_alignment a) (alignment_layer_arg a)
                   (alignment_heads a)) (\<lambda>(x, ex).
       res_bind (case encoder_out a of None \<Rightarrow> Inl TypeError | Some enc \<Rightarrow> Inr enc) (\<lambda>enc.
       res_bind
         (case select_strategy dec enc of
            NoEnsemble \<Rightarrow>
              res_bind (no_ensemble_probs dec (transpose01 x) enc)
                (\<lambda>probs. Inr (transpose01 probs))
          | SimilarityWeighted sim \<Rightarrow>
              res_bind (tm_chunks dec enc) (\<lambda>chunks.
              res_bind (map_res (\<lambda>cur_idx.
                          res_bind (exemplar_pass dec (transpose01 x) chunks cur_idx) (\<lambda>probs.
                          res_bind (select_col sim cur_idx) (\<lambda>cur_TMs_similarity.
                            mul3 (transpose01 probs) cur_TMs_similarity)))
                        (tm_range dec)) stack_sum)
          | PlainMean \<Rightarrow>
              res_bind (tm_probs dec (transpose01 x) enc) (\<lambda>ps.
              res_bind (stack_mean ps) (\<lambda>m. Inr (transpose01 m)))
          | s \<Rightarrow>
              res_bind (tm_chunks dec enc) (\<lambda>chunks.
              res_bind (learned_weights s dec (transpose01 x) chunks) (\<lambda>(atts, w).
              res_bind (weighted_exemplars dec (transpose01 x) chunks atts w) stack_sum)))
         (\<lambda>fused. Inr (log_floor fused, ex))))"
    unfolding forward_def
    by (subst run_strategy_log) (simp add: res_bind_assoc split_def)
qed

text \<open>
  C9. \<open>get_normalized_probs\<close> and \<open>get_normalized_probs_scriptable\<close> return the first
  component of the network output unchanged, whatever \<open>log_probs\<close> and \<open>sample\<close> are: no
  softmax or log-softmax is applied.
\<close>

theorem get_normalized_probs_is_first_component:
  "get_normalized_probs dec (logits, ex) log_probs sample = logits
   \<and> get_normalized_probs_scriptable dec (logits, ex) log_probs sample = logits"
  by (simp add: get_normalized_probs_def get_normalized_probs_scriptable_def)

text \<open>
  C4. With \<open>with_TM_ensemble = true\<close> and similarity scores in the input, the
  similarity-weighted branch is the one taken, whatever \<open>with_TM_learnable_p\<close> and the
  configured model are: \<open>forward\<close> is the feature extraction followed by that branch. A
  learned-weighting branch is selected only when the scores are absent.
\<close>

theorem similarity_takes_priority:
  assumes "with_TM_ensemble dec" and "encoder_out a = Some enc"
    and "TMs_similarity enc = Some sim"
  shows "select_strategy dec enc = SimilarityWeighted sim
    \<and> forward dec a =
        res_bind (extract_features dec (prev_output_tokens a) (encoder_out a)
                    (incremental_state a) (full_context_alignment a) (alignment_layer_arg a)
                    (alignment_heads a))
          (\<lambda>(x, ex). res_bind (similarity_branch dec (transpose01 x) enc sim)
                        (\<lambda>lprobs. Inr (lprobs, ex)))
    \<and> (\<forall>enc'. select_strategy dec enc' \<in> {UnscalableLinear, AttentionPooled, PairwiseLinear,
                                          HybridAttention}
          \<longrightarrow> TMs_similarity enc' = None)"
  using assms by (auto simp: select_strategy_def forward_def run_strategy_def split: if_splits)

theorem similarity_takes_priority_witness:
  "select_strategy (ex_decoder True 2 True (Some ''attention'') 1)
     (ex_encoder_output 2 (Some ex_similarity)) = SimilarityWeighted ex_similarity
   \<and> forward (ex_decoder True 2 True (Some ''attention'') 1)
       (ex_args (ex_encoder_output 2 (Some ex_similarity)))
     = res_bind (similarity_branch (ex_decoder True 2 True (Some ''attention'') 1)
                   (transpose01 ex_features) (ex_encoder_output 2 (Some ex_similarity))
                   ex_similarity)
         (\<lambda>lprobs. Inr (lprobs, ex_extra))"
  using similarity_takes_priority [of "ex_decoder True 2 True (Some ''attention'') 1"
      "ex_args (ex_encoder_output 2 (Some ex_similarity))"
      "ex_encoder_output 2 (Some ex_similarity)" ex_similarity]
  by (simp add: ex_decoder_def ex_args_def ex_encoder_output_def)

subsection \<open>Broadcasting, views and the scatter\<close>

lemma bidx_less [simp]: "i < d \<Longrightarrow> bidx d i = i"
  by (auto simp: bidx_def)

lemma bidx_one [simp]: "bidx (Suc 0) i = 0"
  by (simp add: bidx_def)

lemma bdim_same [simp]: "bdim a a = Some a"
  by (simp add: bdim_def)

lemma bdim_one_left [simp]: "bdim (Suc 0) b = Some b"
  by (simp add: bdim_def)

lemma bdim_one_right [simp]: "bdim a (Suc 0) = Some a"
  by (auto simp: bdim_def)

lemma scatter_row_eq:
  "scatter_row row us v = row v + sum_list (map (\<lambda>u. if fst u = v then snd u else 0) us)"
  unfolding scatter_row_def
  by (induction us arbitrary: row) (auto simp: fun_upd_def)

lemma flat_index:
  fixes i j k b c :: nat
  assumes "j < b" and "k < c"
  shows "((i * b + j) * c + k) div (b * c) = i"
    and "((i * b + j) * c + k) div c mod b = j"
    and "((i * b + j) * c + k) mod c = k"
proof -
  have c: "0 < c" using assms by simp
  have d: "((i * b + j) * c + k) div c = i * b + j"
    using assms by simp
  show "((i * b + j) * c + k) div c mod b = j"
    using assms d by simp
  show "((i * b + j) * c + k) mod c = k"
    using assms by simp
  have "((i * b + j) * c + k) div (b * c) = ((i * b + j) * c + k) div (c * b)"
    by (simp add: mult.commute)
  also have "\<dots> = ((i * b + j) * c + k) div c div b"
    by (rule div_mult2_eq)
  also have "\<dots> = i" using assms d by simp
  finally show "((i * b + j) * c + k) div (b * c) = i" .
qed

lemma flat3_index:
  "dim1 t = b \<Longrightarrow> dim2 t = c \<Longrightarrow> j < b \<Longrightarrow> k < c \<Longrightarrow> flat3 t ((i * b + j) * c + k) = at3 t i j k"
  by (simp add: flat3_def flat_index)

lemma view3_same:
  assumes "dim0 t = a" and "dim1 t = b" and "dim2 t = c" and "0 < a" and "0 < b"
  shows "view3 t a b =
    Inr \<lparr>dim0 = a, dim1 = b, dim2 = c, at3 = (\<lambda>i j k. flat3 t ((i * b + j) * c + k))\<rparr>"
  using assms by (simp add: view3_def Let_def mult.assoc)

lemma copy_index_same:
  assumes "cols cs = bsz" and "0 < bsz"
  shows "copy_index cs seq_len bsz =
    Inr \<lparr>dim0 = seq_len, dim1 = bsz, dim2 = rows cs,
         at3 = (\<lambda>i j k. at2 (transpose2 cs) ((j * rows cs + k) div rows cs)
                           ((j * rows cs + k) mod rows cs))\<rparr>"
  using assms by (simp add: copy_index_def Let_def transpose2_def)

lemma index_in_range_iff:
  "index_in_range index n \<longleftrightarrow>
     (\<forall>i<dim0 index. \<forall>j<dim1 index. \<forall>k<dim2 index. 0 \<le> at3 index i j k \<and> at3 index i j k < int n)"
  by (auto simp: index_in_range_def list_all_iff)

lemma copy_scatter_eq:
  assumes g: "dim0 copy_gate = T" "dim1 copy_gate = B" "dim2 copy_gate = 1"
    and w: "dim0 aw = B" "dim1 aw = T" "dim2 aw = S"
    and cs: "rows cs = S" "cols cs = B"
    and pos: "0 < T" "0 < B"
  shows "copy_scatter probs copy_gate aw cs T B =
    (if \<not> (T \<le> dim0 probs \<and> B \<le> dim1 probs) then Inl ShapeMismatch
     else if \<not> ids_in_range cs (dim2 probs) then Inl ScatterIndexError
     else Inr \<lparr>dim0 = dim0 probs, dim1 = dim1 probs, dim2 = dim2 probs,
               at3 = (\<lambda>i j. if i < T \<and> j < B
                  then scatter_row (at3 probs i j)
                         (map (\<lambda>k. (nat (at2 cs k j), at3 copy_gate i j 0 * at3 aw j i k)) [0..<S])
                  else at3 probs i j)\<rparr>)"
proof -
  define index :: "int tensor3" where "index = \<lparr>dim0 = T, dim1 = B, dim2 = S,
         at3 = (\<lambda>i j k. at2 (transpose2 cs) ((j * S + k) div S) ((j * S + k) mod S))\<rparr>"
  define cp where "cp = \<lparr>dim0 = T, dim1 = B, dim2 = S,
       at3 = (\<lambda>i j k. at3 copy_gate (bidx T i) (bidx B j) (bidx 1 k)
                      * at3 (transpose01 aw) (bidx T i) (bidx B j) (bidx S k))\<rparr>"
  define src where
    "src = \<lparr>dim0 = T, dim1 = B, dim2 = S, at3 = (\<lambda>i j k. flat3 cp ((i * B + j) * S + k))\<rparr>"
  have 1: "copy_index cs T B = Inr index"
    using copy_index_same [of cs B T] cs pos by (simp add: index_def)
  have 2: "mul3 copy_gate (transpose01 aw) = Inr cp"
    using g w by (simp add: mul3_def broadcast_def transpose01_def cp_def)
  have 3: "view3 cp T B = Inr src"
    using pos unfolding src_def by (subst view3_same [where c = S]) (simp_all add: cp_def)
  have dims: "dim0 index = T" "dim1 index = B" "dim2 index = S"
    "dim0 src = T" "dim1 src = B" "dim2 src = S"
    by (simp_all add: index_def src_def)
  have idx: "at3 index i j k = at2 cs k j" if "k < S" for i j k
    using that by (simp add: transpose2_def index_def)
  have src: "at3 src i j k = at3 copy_gate i j 0 * at3 aw j i k"
    if "i < T" "j < B" "k < S" for i j k
    using that by (simp add: src_def flat3_index cp_def transpose01_def)
  have rng: "index_in_range index n \<longleftrightarrow> ids_in_range cs n" for n
    unfolding index_in_range_iff ids_in_range_def dims using cs pos idx
    by auto
  have row: "(if i < T \<and> j < B
       then scatter_row (at3 probs i j) (map (\<lambda>k. (nat (at3 index i j k), at3 src i j k)) [0..<S])
       else at3 probs i j)
      = (if i < T \<and> j < B
       then scatter_row (at3 probs i j)
              (map (\<lambda>k. (nat (at2 cs k j), at3 copy_gate i j 0 * at3 aw j i k)) [0..<S])
       else at3 probs i j)" for i j
    using idx src by (auto intro!: arg_cong [where f = "scatter_row (at3 probs i j)"])
  have "copy_scatter probs copy_gate aw cs T B = scatter_add_last probs index src"
    by (simp only: copy_scatter_def Let_def 1 2 3 res_bind_Inr)
  also have "\<dots> = (if \<not> (T \<le> dim0 probs \<and> B \<le> dim1 probs) then Inl ShapeMismatch
     else if \<not> ids_in_range cs (dim2 probs) then Inl ScatterIndexError
     else Inr \<lparr>dim0 = dim0 probs, dim1 = dim1 probs, dim2 = dim2 probs,
               at3 = (\<lambda>i j. if i < T \<and> j < B
                  then scatter_row (at3 probs i j)
                         (map (\<lambda>k. (nat (at2 cs k j), at3 copy_gate i j 0 * at3 aw j i k)) [0..<S])
                  else at3 probs i j)\<rparr>)"
    unfolding scatter_add_last_def rng dims row by simp
  finally show ?thesis .
qed

lemma sum_list_upt: "sum_list (map f [0..<n]) = (\<Sum>k<n. f k)"
  by (simp add: interv_sum_list_conv_sum_set_nat atLeast0LessThan)

lemma scatter_row_positions:
  "scatter_row row (map (\<lambda>k. (ix k, c k)) [0..<S]) v
     = row v + (\<Sum>k<S. if ix k = v then c k else 0)"
  by (simp add: scatter_row_eq comp_def sum_list_upt cong del: if_weak_cong)

lemma ids_in_range_permute:
  assumes "bij_betw p {..<rows cs} {..<rows cs}"
  shows "ids_in_range (permute_rows p cs) n \<longleftrightarrow> ids_in_range cs n"
proof -
  have img: "p ` {..<rows cs} = {..<rows cs}"
    using assms by (simp add: bij_betw_def)
  have into: "p s < rows cs" if "s < rows cs" for s
    using img that by blast
  have onto: "\<exists>s'<rows cs. p s' = s" if "s < rows cs" for s
    using img that by (metis imageE lessThan_iff)
  show ?thesis
    unfolding ids_in_range_def permute_rows_def using into onto
    by (simp; metis)
qed

subsection \<open>Single-precision rounding\<close>

lemma filter_rev_upto_le:
  assumes "a \<le> e" and "e \<le> b"
  shows "filter (\<lambda>i. i \<le> e) (rev [a..b]) = rev [a..e]"
proof -
  have split: "[a..b] = [a..e] @ [e + 1..b]"
    using assms by (rule upto_split2)
  have 1: "filter (\<lambda>i. i \<le> e) [a..e] = [a..e]"
    by (rule filter_True) simp
  have 2: "filter (\<lambda>i. i \<le> e) [e + 1..b] = []"
    by (rule filter_False) simp
  have "filter (\<lambda>i. i \<le> e) [a..b] = [a..e]"
    unfolding split filter_append 1 2 by simp
  then show ?thesis
    by (simp only: rev_filter [symmetric])
qed

lemma float32_exponent_eq:
  assumes e: "-126 \<le> e" "e \<le> 127" and lo: "2 powi e \<le> \<bar>x\<bar>" and hi: "\<bar>x\<bar> < 2 powi (e + 1)"
  shows "float32_exponent x = e"
proof -
  have iff: "2 powi i \<le> \<bar>x\<bar> \<longleftrightarrow> i \<le> e" for i :: int
  proof
    assume le: "2 powi i \<le> \<bar>x\<bar>"
    show "i \<le> e"
    proof (rule ccontr)
      assume "\<not> i \<le> e"
      then have "(2::real) powi (e + 1) \<le> 2 powi i"
        by (intro power_int_increasing) simp_all
      with le hi show False
        by simp
    qed
  next
    assume "i \<le> e"
    then have "(2::real) powi i \<le> 2 powi e"
      by (intro power_int_increasing) simp_all
    then show "2 powi i \<le> \<bar>x\<bar>"
      using lo by simp
  qed
  have "filter (\<lambda>i. 2 powi i \<le> \<bar>x\<bar>) (rev [-126..127]) = rev [-126..e]"
    unfolding iff using e by (rule filter_rev_upto_le)
  also have "\<dots> = e # rev [-126..e - 1]"
    using e by (simp add: upto_rec2)
  finally show ?thesis
    by (simp add: float32_exponent_def)
qed

lemma round_float32_pos:
  assumes "-126 \<le> e" and "e \<le> 127" and "2 powi e \<le> x" and "x < 2 powi (e + 1)"
  shows "round_float32 x = of_int (round_half_even (x / 2 powi (e - 23))) * 2 powi (e - 23)"
proof -
  have "0 < (2::real) powi e"
    by simp
  then have x: "0 < x"
    using assms(3) by linarith
  then have "float32_exponent x = e"
    using assms by (intro float32_exponent_eq) simp_all
  then show ?thesis
    using x by (simp add: round_float32_def Let_def)
qed

lemma round_half_even_tie:
  assumes "y = of_int f + 1 / 2"
  shows "round_half_even y = (if even f then f else f + 1)"
proof -
  have "\<lfloor>y\<rfloor> = f"
    unfolding assms by (rule floor_unique) simp_all
  then show ?thesis
    by (simp add: round_half_even_def Let_def assms)
qed

lemma round_half_even_int: "round_half_even (of_int f) = f"
  by (simp add: round_half_even_def Let_def)

lemma round_float32_example:
  "round_float32 (3 / 4 + 1 / 2 ^ 25) = 3 / 4"
  "round_float32 (3 / 4 - 1 / 2 ^ 25) = 3 / 4"
  "round_float32 (3 / 4 + 1 / 2 ^ 24) = 3 / 4 + 1 / 2 ^ 24"
  "round_float32 (1 / 4 + 3 / 2 ^ 25) = 1 / 4 + 3 / 2 ^ 25"
  "round_float32 (1 / 2 ^ 24) = 1 / 2 ^ 24"
  "round_float32 (1 / 2 - 1 / 2 ^ 24) = 1 / 2 - 1 / 2 ^ 24"
proof -
  have a: "(3 / 4 + 1 / 2 ^ 25) / 2 powi (-1 - 23) = of_int 12582912 + (1 / 2 :: real)"
    by (simp add: power_int_minus)
  have "round_float32 (3 / 4 + 1 / 2 ^ 25)
      = of_int (round_half_even ((3 / 4 + 1 / 2 ^ 25) / 2 powi (-1 - 23))) * 2 powi (-1 - 23)"
    by (rule round_float32_pos) (simp_all add: power_int_minus)
  also have "\<dots> = 3 / 4"
    unfolding a round_half_even_tie [OF refl] by (simp add: power_int_minus)
  finally show "round_float32 (3 / 4 + 1 / 2 ^ 25) = 3 / 4" .
  have b: "(3 / 4 - 1 / 2 ^ 25) / 2 powi (-1 - 23) = of_int 12582911 + (1 / 2 :: real)"
    by (simp add: power_int_minus)
  have "round_float32 (3 / 4 - 1 / 2 ^ 25)
      = of_int (round_half_even ((3 / 4 - 1 / 2 ^ 25) / 2 powi (-1 - 23))) * 2 powi (-1 - 23)"
    by (rule round_float32_pos) (simp_all add: power_int_minus)
  also have "\<dots> = 3 / 4"
    unfolding b round_half_even_tie [OF refl] by (simp add: power_int_minus)
  finally show "round_float32 (3 / 4 - 1 / 2 ^ 25) = 3 / 4" .
  have c: "(3 / 4 + 1 / 2 ^ 24) / 2 powi (-1 - 23) = (of_int 12582913 :: real)"
    by (simp add: power_int_minus)
  have "round_float32 (3 / 4 + 1 / 2 ^ 24)
      = of_int (round_half_even ((3 / 4 + 1 / 2 ^ 24) / 2 powi (-1 - 23))) * 2 powi (-1 - 23)"
    by (rule round_float32_pos) (simp_all add: power_int_minus)
  also have "\<dots> = 3 / 4 + 1 / 2 ^ 24"
    unfolding c round_half_even_int by (simp add: power_int_minus)
  finally show "round_float32 (3 / 4 + 1 / 2 ^ 24) = 3 / 4 + 1 / 2 ^ 24" .
  have d: "(1 / 4 + 3 / 2 ^ 25) / 2 powi (-2 - 23) = (of_int 8388611 :: real)"
    by (simp add: power_int_minus)
  have "round_float32 (1 / 4 + 3 / 2 ^ 25)
      = of_int (round_half_even ((1 / 4 + 3 / 2 ^ 25) / 2 powi (-2 - 23))) * 2 powi (-2 - 23)"
    by (rule round_float32_pos) (simp_all add: power_int_minus)
  also have "\<dots> = 1 / 4 + 3 / 2 ^ 25"
    unfolding d round_half_even_int by (simp add: power_int_minus)
  finally show "round_float32 (1 / 4 + 3 / 2 ^ 25) = 1 / 4 + 3 / 2 ^ 25" .
  have e: "(1 / 2 ^ 24) / 2 powi (-24 - 23) = (of_int 8388608 :: real)"
    by (simp add: power_int_minus)
  have "round_float32 (1 / 2 ^ 24)
      = of_int (round_half_even ((1 / 2 ^ 24) / 2 powi (-24 - 23))) * 2 powi (-24 - 23)"
    by (rule round_float32_pos) (simp_all add: power_int_minus)
  also have "\<dots> = 1 / 2 ^ 24"
    unfolding e round_half_even_int by (simp add: power_int_minus)
  finally show "round_float32 (1 / 2 ^ 24) = 1 / 2 ^ 24" .
  have f: "(1 / 2 - 1 / 2 ^ 24) / 2 powi (-2 - 23) = (of_int 16777214 :: real)"
    by (simp add: power_int_minus)
  have "round_float32 (1 / 2 - 1 / 2 ^ 24)
      = of_int (round_half_even ((1 / 2 - 1 / 2 ^ 24) / 2 powi (-2 - 23))) * 2 powi (-2 - 23)"
    by (rule round_float32_pos) (simp_all add: power_int_minus)
  also have "\<dots> = 1 / 2 - 1 / 2 ^ 24"
    unfolding f round_half_even_int by (simp add: power_int_minus)
  finally show "round_float32 (1 / 2 - 1 / 2 ^ 24) = 1 / 2 - 1 / 2 ^ 24" .
qed

lemma round_float32_exact:
  assumes e: "-126 \<le> e" "e \<le> 127" and m: "2 ^ 23 \<le> m" "m < 2 ^ 24"
    and x: "x = of_int m * 2 powi (e - 23)"
  shows "round_float32 x = x"
proof -
  define q :: real where "q = 2 powi (e - 23)"
  have q: "0 < q"
    by (simp add: q_def)
  have lo_e: "2 powi e = 2 ^ 23 * q"
  proof -
    have "e = 23 + (e - 23)"
      by simp
    then have "(2::real) powi e = 2 powi (23 + (e - 23))"
      by (rule arg_cong)
    also have "\<dots> = 2 powi 23 * 2 powi (e - 23)"
      by (rule power_int_add) simp
    finally show ?thesis
      by (simp add: q_def)
  qed
  have hi_e: "2 powi (e + 1) = 2 ^ 24 * q"
  proof -
    have "e + 1 = 24 + (e - 23)"
      by simp
    then have "(2::real) powi (e + 1) = 2 powi (24 + (e - 23))"
      by (rule arg_cong)
    also have "\<dots> = 2 powi 24 * 2 powi (e - 23)"
      by (rule power_int_add) simp
    finally show ?thesis
      by (simp add: q_def)
  qed
  have m_lo: "(2 ^ 23 :: real) \<le> of_int m"
    using m(1) by (metis of_int_le_iff of_int_numeral of_int_power)
  have m_hi: "of_int m < (2 ^ 24 :: real)"
    using m(2) by (metis of_int_less_iff of_int_numeral of_int_power)
  have lo: "2 powi e \<le> x"
    unfolding lo_e x q_def [symmetric] using m_lo q by simp
  have hi: "x < 2 powi (e + 1)"
    unfolding hi_e x q_def [symmetric] using m_hi q by simp
  have "round_float32 x = of_int (round_half_even (x / 2 powi (e - 23))) * 2 powi (e - 23)"
    using e lo hi by (rule round_float32_pos)
  also have "x / 2 powi (e - 23) = of_int m"
    unfolding x by simp
  finally show ?thesis
    by (simp add: round_half_even_int x)
qed

subsection \<open>The scatter adds\<close>

lemma copy_scatter_float32_eq:
  assumes g: "dim0 copy_gate = T" "dim1 copy_gate = B" "dim2 copy_gate = 1"
    and w: "dim0 aw = B" "dim1 aw = T" "dim2 aw = S"
    and cs: "rows cs = S" "cols cs = B"
    and pos: "0 < T" "0 < B"
  shows "copy_scatter_float32 probs copy_gate aw cs T B =
    (if \<not> (T \<le> dim0 probs \<and> B \<le> dim1 probs) then Inl ShapeMismatch
     else if \<not> ids_in_range cs (dim2 probs) then Inl ScatterIndexError
     else Inr \<lparr>dim0 = dim0 probs, dim1 = dim1 probs, dim2 = dim2 probs,
               at3 = (\<lambda>i j. if i < T \<and> j < B
                  then scatter_row_float32 (at3 probs i j)
                         (map (\<lambda>k. (nat (at2 cs k j),
                                     round_float32 (at3 copy_gate i j 0 * at3 aw j i k))) [0..<S])
                  else at3 probs i j)\<rparr>)"
proof -
  define index :: "int tensor3" where "index = \<lparr>dim0 = T, dim1 = B, dim2 = S,
         at3 = (\<lambda>i j k. at2 (transpose2 cs) ((j * S + k) div S) ((j * S + k) mod S))\<rparr>"
  define cp where "cp = \<lparr>dim0 = T, dim1 = B, dim2 = S,
       at3 = (\<lambda>i j k. round_float32 (at3 copy_gate (bidx T i) (bidx B j) (bidx 1 k)
                      * at3 (transpose01 aw) (bidx T i) (bidx B j) (bidx S k)))\<rparr>"
  define src where
    "src = \<lparr>dim0 = T, dim1 = B, dim2 = S, at3 = (\<lambda>i j k. flat3 cp ((i * B + j) * S + k))\<rparr>"
  have 1: "copy_index cs T B = Inr index"
    using copy_index_same [of cs B T] cs pos by (simp add: index_def)
  have 2: "mul3_float32 copy_gate (transpose01 aw) = Inr cp"
    using g w by (simp add: mul3_float32_def broadcast_def transpose01_def cp_def)
  have 3: "view3 cp T B = Inr src"
    using pos unfolding src_def by (subst view3_same [where c = S]) (simp_all add: cp_def)
  have dims: "dim0 index = T" "dim1 index = B" "dim2 index = S"
    "dim0 src = T" "dim1 src = B" "dim2 src = S"
    by (simp_all add: index_def src_def)
  have idx: "at3 index i j k = at2 cs k j" if "k < S" for i j k
    using that by (simp add: transpose2_def index_def)
  have src: "at3 src i j k = round_float32 (at3 copy_gate i j 0 * at3 aw j i k)"
    if "i < T" "j < B" "k < S" for i j k
    using that by (simp add: src_def flat3_index cp_def transpose01_def)
  have rng: "index_in_range index n \<longleftrightarrow> ids_in_range cs n" for n
    unfolding index_in_range_iff ids_in_range_def dims using cs pos idx
    by auto
  have row: "(if i < T \<and> j < B
       then scatter_row_float32 (at3 probs i j)
              (map (\<lambda>k. (nat (at3 index i j k), at3 src i j k)) [0..<S])
       else at3 probs i j)
      = (if i < T \<and> j < B
       then scatter_row_float32 (at3 probs i j)
              (map (\<lambda>k. (nat (at2 cs k j),
                          round_float32 (at3 copy_gate i j 0 * at3 aw j i k))) [0..<S])
       else at3 probs i j)" for i j
    using idx src by (auto intro!: arg_cong [where f = "scatter_row_float32 (at3 probs i j)"])
  have "copy_scatter_float32 probs copy_gate aw cs T B = scatter_add_last_float32 probs index src"
    by (simp only: copy_scatter_float32_def Let_def 1 2 3 res_bind_Inr)
  also have "\<dots> = (if \<not> (T \<le> dim0 probs \<and> B \<le> dim1 probs) then Inl ShapeMismatch
     else if \<not> ids_in_range cs (dim2 probs) then Inl ScatterIndexError
     else Inr \<lparr>dim0 = dim0 probs, dim1 = dim1 probs, dim2 = dim2 probs,
               at3 = (\<lambda>i j. if i < T \<and> j < B
                  then scatter_row_float32 (at3 probs i j)
                         (map (\<lambda>k. (nat (at2 cs k j),
                                     round_float32 (at3 copy_gate i j 0 * at3 aw j i k))) [0..<S])
                  else at3 probs i j)\<rparr>)"
    unfolding scatter_add_last_float32_def rng dims row by simp
  finally show ?thesis .
qed

lemma scatter_row_float32_eq:
  "scatter_row_float32 row us v
     = fold float32_add (map snd (filter (\<lambda>u. fst u = v) us)) (row v)"
  unfolding scatter_row_float32_def
  by (induction us arbitrary: row) auto

lemma scatter_row_float32_positions:
  "scatter_row_float32 row (map (\<lambda>k. (ix k, c k)) [0..<S]) v
     = fold float32_add (map c (filter (\<lambda>k. ix k = v) [0..<S])) (row v)"
  by (simp add: scatter_row_float32_eq filter_map comp_def)

lemma filter_upt_single:
  assumes "k0 < S" and "\<And>k. k < S \<Longrightarrow> P k \<longleftrightarrow> k = k0"
  shows "filter P [0..<S] = [k0]"
proof -
  have "filter P [0..<S] = filter (\<lambda>k. k = k0) [0..<S]"
    using assms(2) by (intro filter_cong) simp_all
  also have "\<dots> = [k0]"
    using assms(1)
  proof (induction S)
    case 0
    then show ?case by simp
  next
    case (Suc n)
    show ?case
    proof (cases "k0 = n")
      case True
      have "filter (\<lambda>k. k = k0) [0..<n] = []"
        using True by (intro filter_False) simp
      then show ?thesis
        using True by simp
    next
      case False
      then have "k0 < n"
        using Suc.prems by simp
      then show ?thesis
        using Suc.IH False by simp
    qed
  qed
  finally show ?thesis .
qed

lemma filter_permuted:
  assumes p: "bij_betw p {..<S} {..<S}" and inj: "inj_on ix {..<S}"
  shows "map (\<lambda>k. c (p k)) (filter (\<lambda>k. ix (p k) = v) [0..<S])
       = map c (filter (\<lambda>k. ix k = v) [0..<S])"
proof -
  have img: "p ` {..<S} = {..<S}"
    using p by (simp add: bij_betw_def)
  have into: "p k < S" if "k < S" for k
    using img that by blast
  show ?thesis
  proof (cases "\<exists>k<S. ix k = v")
    case False
    then have "filter (\<lambda>k. ix k = v) [0..<S] = []"
      by (intro filter_False) simp
    moreover have "filter (\<lambda>k. ix (p k) = v) [0..<S] = []"
      using False into by (intro filter_False) auto
    ultimately show ?thesis
      by simp
  next
    case True
    then obtain k0 where k0: "k0 < S" "ix k0 = v"
      by blast
    then obtain k1 where k1: "k1 < S" "p k1 = k0"
      using img by (metis imageE lessThan_iff)
    have a: "ix k = v \<longleftrightarrow> k = k0" if "k < S" for k
      using inj k0 that by (auto simp: inj_on_def)
    have b: "ix (p k) = v \<longleftrightarrow> k = k1" if "k < S" for k
    proof -
      have "ix (p k) = v \<longleftrightarrow> p k = k0"
        using a [OF into [OF that]] .
      also have "\<dots> \<longleftrightarrow> k = k1"
        using p k1 that by (auto simp: bij_betw_def inj_on_def)
      finally show ?thesis .
    qed
    have "filter (\<lambda>k. ix k = v) [0..<S] = [k0]"
      using k0(1) a by (rule filter_upt_single)
    moreover have "filter (\<lambda>k. ix (p k) = v) [0..<S] = [k1]"
      using k1(1) b by (rule filter_upt_single)
    ultimately show ?thesis
      using k1 by simp
  qed
qed


lemma float32_row_permuted:
  assumes p: "bij_betw p {..<rows cs} {..<rows cs}"
    and inj: "inj_on (\<lambda>k. at2 cs k j) {..<rows cs}"
    and rng: "\<And>k. k < rows cs \<Longrightarrow> 0 \<le> at2 cs k j"
  shows "scatter_row_float32 r
        (map (\<lambda>k. (nat (at2 (permute_rows p cs) k j),
                    round_float32 (g * at3 (permute_last p aw) j i k))) [0..<rows cs])
      = scatter_row_float32 r
        (map (\<lambda>k. (nat (at2 cs k j), round_float32 (g * at3 aw j i k))) [0..<rows cs])"
proof
  fix v
  have inj': "inj_on (\<lambda>k. nat (at2 cs k j)) {..<rows cs}"
  proof (rule inj_onI)
    fix a b
    assume a: "a \<in> {..<rows cs}" and b: "b \<in> {..<rows cs}"
      and eq: "nat (at2 cs a j) = nat (at2 cs b j)"
    have "at2 cs a j = at2 cs b j"
      using rng [of a] rng [of b] a b eq by simp
    then show "a = b"
      using inj a b by (simp add: inj_on_def)
  qed
  have "map (\<lambda>k. round_float32 (g * at3 aw j i (p k)))
          (filter (\<lambda>k. nat (at2 cs (p k) j) = v) [0..<rows cs])
      = map (\<lambda>k. round_float32 (g * at3 aw j i k))
          (filter (\<lambda>k. nat (at2 cs k j) = v) [0..<rows cs])"
    using p inj'
    by (rule filter_permuted [where c = "\<lambda>k. round_float32 (g * at3 aw j i k)"
          and ix = "\<lambda>k. nat (at2 cs k j)"])
  then show "scatter_row_float32 r
        (map (\<lambda>k. (nat (at2 (permute_rows p cs) k j),
                    round_float32 (g * at3 (permute_last p aw) j i k))) [0..<rows cs]) v
      = scatter_row_float32 r
        (map (\<lambda>k. (nat (at2 cs k j), round_float32 (g * at3 aw j i k))) [0..<rows cs]) v"
    by (simp add: scatter_row_float32_positions permute_rows_def permute_last_def)
qed

text \<open>
  C7. The copy-mass scatter adds and never overwrites. For a copy gate (target position,
  batch, 1), alignment weights (batch, target position, memory position) and token
  identities (memory position, batch): in exact arithmetic, permuting the memory positions
  of the weights and of the token identities alike leaves the result of \<open>copy_scatter\<close>
  unchanged, the scattered tensor or the failure, and when the scatter succeeds every token
  holds its generation mass plus the sum of copy gate times alignment weight over all
  memory positions that hold that token. In single precision every token holds its
  generation mass with the rounded products of the positions that hold it added one after
  the other, in the order of the positions, each sum rounded; the result is unchanged by
  the permutation when no two positions of a batch element hold the same token.
\<close>

theorem copy_scatter_accumulates:
  assumes p: "bij_betw p {..<S} {..<S}"
    and g: "dim0 copy_gate = seq_len" "dim1 copy_gate = bsz" "dim2 copy_gate = 1"
    and w: "dim0 aw = bsz" "dim1 aw = seq_len" "dim2 aw = S"
    and cs: "rows cs = S" "cols cs = bsz"
  shows "copy_scatter probs copy_gate (permute_last p aw) (permute_rows p cs) seq_len bsz
       = copy_scatter probs copy_gate aw cs seq_len bsz
    \<and> (0 < seq_len \<and> 0 < bsz \<and> seq_len \<le> dim0 probs \<and> bsz \<le> dim1 probs
        \<and> ids_in_range cs (dim2 probs) \<longrightarrow>
         (\<exists>out. copy_scatter probs copy_gate aw cs seq_len bsz = Inr out
            \<and> shaped (dim0 probs) (dim1 probs) (dim2 probs) out
            \<and> (\<forall>i<seq_len. \<forall>j<bsz. \<forall>v. at3 out i j v
                 = at3 probs i j v
                   + (\<Sum>k<S. if nat (at2 cs k j) = v
                             then at3 copy_gate i j 0 * at3 aw j i k else 0)))
       \<and> (\<exists>out. copy_scatter_float32 probs copy_gate aw cs seq_len bsz = Inr out
            \<and> shaped (dim0 probs) (dim1 probs) (dim2 probs) out
            \<and> (\<forall>i<seq_len. \<forall>j<bsz. \<forall>v. at3 out i j v
                 = fold float32_add
                     (map (\<lambda>k. round_float32 (at3 copy_gate i j 0 * at3 aw j i k))
                        (filter (\<lambda>k. nat (at2 cs k j) = v) [0..<S]))
                     (at3 probs i j v)))
       \<and> ((\<forall>j<bsz. inj_on (\<lambda>k. at2 cs k j) {..<S}) \<longrightarrow>
            copy_scatter_float32 probs copy_gate (permute_last p aw) (permute_rows p cs)
              seq_len bsz
            = copy_scatter_float32 probs copy_gate aw cs seq_len bsz))"
proof (intro conjI impI)
  have rng: "ids_in_range (permute_rows p cs) n \<longleftrightarrow> ids_in_range cs n" for n
    using ids_in_range_permute [of p cs n] p cs by simp
  show "copy_scatter probs copy_gate (permute_last p aw) (permute_rows p cs) seq_len bsz
       = copy_scatter probs copy_gate aw cs seq_len bsz"
  proof (cases "0 < seq_len \<and> 0 < bsz")
    case False
    then show ?thesis
      using g w cs
      by (auto simp: copy_scatter_def copy_index_def view3_def Let_def mul3_def broadcast_def
          permute_last_def permute_rows_def transpose01_def transpose2_def)
  next
    case True
    have row: "scatter_row r
          (map (\<lambda>k. (nat (at2 (permute_rows p cs) k j),
                      at3 copy_gate i j 0 * at3 (permute_last p aw) j i k)) [0..<S])
        = scatter_row r
          (map (\<lambda>k. (nat (at2 cs k j), at3 copy_gate i j 0 * at3 aw j i k)) [0..<S])"
      for r i j
    proof
      fix v
      have "(\<Sum>k<S. if nat (at2 cs (p k) j) = v then at3 copy_gate i j 0 * at3 aw j i (p k) else 0)
          = (\<Sum>k<S. if nat (at2 cs k j) = v then at3 copy_gate i j 0 * at3 aw j i k else 0)"
        using p
        by (rule sum.reindex_bij_betw
            [where g = "\<lambda>k. if nat (at2 cs k j) = v then at3 copy_gate i j 0 * at3 aw j i k else 0"])
      then show "scatter_row r
          (map (\<lambda>k. (nat (at2 (permute_rows p cs) k j),
                      at3 copy_gate i j 0 * at3 (permute_last p aw) j i k)) [0..<S]) v
        = scatter_row r
          (map (\<lambda>k. (nat (at2 cs k j), at3 copy_gate i j 0 * at3 aw j i k)) [0..<S]) v"
        by (simp add: scatter_row_positions permute_rows_def permute_last_def)
    qed
    have "copy_scatter probs copy_gate (permute_last p aw) (permute_rows p cs) seq_len bsz
      = (if \<not> (seq_len \<le> dim0 probs \<and> bsz \<le> dim1 probs) then Inl ShapeMismatch
       else if \<not> ids_in_range (permute_rows p cs) (dim2 probs) then Inl ScatterIndexError
       else Inr \<lparr>dim0 = dim0 probs, dim1 = dim1 probs, dim2 = dim2 probs,
                 at3 = (\<lambda>i j. if i < seq_len \<and> j < bsz
                    then scatter_row (at3 probs i j)
                           (map (\<lambda>k. (nat (at2 (permute_rows p cs) k j),
                                       at3 copy_gate i j 0 * at3 (permute_last p aw) j i k)) [0..<S])
                    else at3 probs i j)\<rparr>)"
      using True g w cs
      by (intro copy_scatter_eq) (simp_all add: permute_last_def permute_rows_def)
    also have "\<dots> = copy_scatter probs copy_gate aw cs seq_len bsz"
      unfolding rng row using True g w cs by (intro copy_scatter_eq [symmetric]) simp_all
    finally show ?thesis .
  qed
next
  assume ok: "0 < seq_len \<and> 0 < bsz \<and> seq_len \<le> dim0 probs \<and> bsz \<le> dim1 probs
        \<and> ids_in_range cs (dim2 probs)"
  define out where "out = \<lparr>dim0 = dim0 probs, dim1 = dim1 probs, dim2 = dim2 probs,
                 at3 = (\<lambda>i j. if i < seq_len \<and> j < bsz
                    then scatter_row (at3 probs i j)
                           (map (\<lambda>k. (nat (at2 cs k j), at3 copy_gate i j 0 * at3 aw j i k)) [0..<S])
                    else at3 probs i j)\<rparr>"
  have "copy_scatter probs copy_gate aw cs seq_len bsz = Inr out"
    using copy_scatter_eq [OF g w cs, of probs] ok by (simp add: out_def)
  moreover have "shaped (dim0 probs) (dim1 probs) (dim2 probs) out"
    by (simp add: shaped_def out_def)
  moreover have "\<forall>i<seq_len. \<forall>j<bsz. \<forall>v. at3 out i j v
                 = at3 probs i j v
                   + (\<Sum>k<S. if nat (at2 cs k j) = v
                             then at3 copy_gate i j 0 * at3 aw j i k else 0)"
    by (simp add: out_def scatter_row_positions)
  ultimately show "\<exists>out. copy_scatter probs copy_gate aw cs seq_len bsz = Inr out
            \<and> shaped (dim0 probs) (dim1 probs) (dim2 probs) out
            \<and> (\<forall>i<seq_len. \<forall>j<bsz. \<forall>v. at3 out i j v
                 = at3 probs i j v
                   + (\<Sum>k<S. if nat (at2 cs k j) = v
                             then at3 copy_gate i j 0 * at3 aw j i k else 0))"
    by blast
next
  assume ok: "0 < seq_len \<and> 0 < bsz \<and> seq_len \<le> dim0 probs \<and> bsz \<le> dim1 probs
        \<and> ids_in_range cs (dim2 probs)"
  define out where "out = \<lparr>dim0 = dim0 probs, dim1 = dim1 probs, dim2 = dim2 probs,
                 at3 = (\<lambda>i j. if i < seq_len \<and> j < bsz
                    then scatter_row_float32 (at3 probs i j)
                           (map (\<lambda>k. (nat (at2 cs k j),
                                       round_float32 (at3 copy_gate i j 0 * at3 aw j i k))) [0..<S])
                    else at3 probs i j)\<rparr>"
  have "copy_scatter_float32 probs copy_gate aw cs seq_len bsz = Inr out"
    using copy_scatter_float32_eq [OF g w cs, of probs] ok by (simp add: out_def)
  moreover have "shaped (dim0 probs) (dim1 probs) (dim2 probs) out"
    by (simp add: shaped_def out_def)
  moreover have "\<forall>i<seq_len. \<forall>j<bsz. \<forall>v. at3 out i j v
                 = fold float32_add
                     (map (\<lambda>k. round_float32 (at3 copy_gate i j 0 * at3 aw j i k))
                        (filter (\<lambda>k. nat (at2 cs k j) = v) [0..<S]))
                     (at3 probs i j v)"
    by (simp add: out_def scatter_row_float32_positions)
  ultimately show "\<exists>out. copy_scatter_float32 probs copy_gate aw cs seq_len bsz = Inr out
            \<and> shaped (dim0 probs) (dim1 probs) (dim2 probs) out
            \<and> (\<forall>i<seq_len. \<forall>j<bsz. \<forall>v. at3 out i j v
                 = fold float32_add
                     (map (\<lambda>k. round_float32 (at3 copy_gate i j 0 * at3 aw j i k))
                        (filter (\<lambda>k. nat (at2 cs k j) = v) [0..<S]))
                     (at3 probs i j v))"
    by blast
next
  assume ok: "0 < seq_len \<and> 0 < bsz \<and> seq_len \<le> dim0 probs \<and> bsz \<le> dim1 probs
        \<and> ids_in_range cs (dim2 probs)"
    and inj: "\<forall>j<bsz. inj_on (\<lambda>k. at2 cs k j) {..<S}"
  have rng: "ids_in_range (permute_rows p cs) n \<longleftrightarrow> ids_in_range cs n" for n
    using ids_in_range_permute [of p cs n] p cs by simp
  have nonneg: "0 \<le> at2 cs k j" if "k < S" "j < bsz" for k j
    using ok that cs by (simp add: ids_in_range_def)
  have row: "(if i < seq_len \<and> j < bsz
       then scatter_row_float32 (at3 probs i j)
          (map (\<lambda>k. (nat (at2 (permute_rows p cs) k j),
                      round_float32 (at3 copy_gate i j 0 * at3 (permute_last p aw) j i k)))
             [0..<S])
       else at3 probs i j)
     = (if i < seq_len \<and> j < bsz
       then scatter_row_float32 (at3 probs i j)
          (map (\<lambda>k. (nat (at2 cs k j),
                      round_float32 (at3 copy_gate i j 0 * at3 aw j i k))) [0..<S])
       else at3 probs i j)" for i j
  proof (cases "i < seq_len \<and> j < bsz")
    case False
    then show ?thesis by (simp only: if_False)
  next
    case True
    have "scatter_row_float32 (at3 probs i j)
          (map (\<lambda>k. (nat (at2 (permute_rows p cs) k j),
                      round_float32 (at3 copy_gate i j 0 * at3 (permute_last p aw) j i k)))
             [0..<rows cs])
      = scatter_row_float32 (at3 probs i j)
          (map (\<lambda>k. (nat (at2 cs k j),
                      round_float32 (at3 copy_gate i j 0 * at3 aw j i k))) [0..<rows cs])"
      using p inj nonneg True unfolding cs [symmetric]
      by (intro float32_row_permuted) simp_all
    then show ?thesis
      using True cs by simp
  qed
  have "copy_scatter_float32 probs copy_gate (permute_last p aw) (permute_rows p cs) seq_len bsz
    = (if \<not> (seq_len \<le> dim0 probs \<and> bsz \<le> dim1 probs) then Inl ShapeMismatch
     else if \<not> ids_in_range (permute_rows p cs) (dim2 probs) then Inl ScatterIndexError
     else Inr \<lparr>dim0 = dim0 probs, dim1 = dim1 probs, dim2 = dim2 probs,
               at3 = (\<lambda>i j. if i < seq_len \<and> j < bsz
                  then scatter_row_float32 (at3 probs i j)
                         (map (\<lambda>k. (nat (at2 (permute_rows p cs) k j),
                                     round_float32
                                       (at3 copy_gate i j 0 * at3 (permute_last p aw) j i k)))
                            [0..<S])
                  else at3 probs i j)\<rparr>)"
    using ok g w cs
    by (intro copy_scatter_float32_eq) (simp_all add: permute_last_def permute_rows_def)
  also have "\<dots> = copy_scatter_float32 probs copy_gate aw cs seq_len bsz"
    unfolding rng row using ok g w cs by (intro copy_scatter_float32_eq [symmetric]) simp_all
  finally show "copy_scatter_float32 probs copy_gate (permute_last p aw) (permute_rows p cs)
              seq_len bsz
            = copy_scatter_float32 probs copy_gate aw cs seq_len bsz" .
qed

subsection \<open>One block of memory\<close>

lemma softmax_dims [simp]:
  "dim0 (softmax t) = dim0 t" "dim1 (softmax t) = dim1 t" "dim2 (softmax t) = dim2 t"
  by (simp_all add: softmax_def)

lemma softmax_sum:
  assumes "0 < dim2 t"
  shows "(\<Sum>k<dim2 t. at3 (softmax t) i j k) = 1"
proof -
  have pos: "0 < (\<Sum>k<dim2 t. exp (at3 t i j k))"
    using assms by (intro sum_pos) auto
  have "(\<Sum>k<dim2 t. at3 (softmax t) i j k)
        = (\<Sum>k<dim2 t. exp (at3 t i j k)) / (\<Sum>k<dim2 t. exp (at3 t i j k))"
    by (simp add: softmax_def sum_divide_distrib [symmetric])
  with pos show ?thesis by simp
qed

lemma chunk_bounds_two: "chunk_bounds 2 2 = Inr [(0, 1), (1, 1)]"
  by code_simp

lemma broadcast_dims:
  assumes "broadcast f a b = Inr r"
  shows "bdim (dim0 a) (dim0 b) = Some (dim0 r)" "bdim (dim1 a) (dim1 b) = Some (dim1 r)"
    "bdim (dim2 a) (dim2 b) = Some (dim2 r)"
    "at3 r = (\<lambda>i j k. f (at3 a (bidx (dim0 a) i) (bidx (dim1 a) j) (bidx (dim2 a) k))
                        (at3 b (bidx (dim0 b) i) (bidx (dim1 b) j) (bidx (dim2 b) k)))"
  using assms by (auto simp: broadcast_def split: option.splits)

lemma bdim_same_iff [simp]: "bdim a a = Some c \<longleftrightarrow> c = a"
  by (auto simp: bdim_def)

lemma gen_copy_gates_props:
  assumes ok: "gen_copy_gates dec x attn_normalized = Inr (gen_gate, copy_gate)"
    and kp: "keeps_positions (diverter dec)"
    and two: "\<forall>t. dim2 (diverter dec t) = 2"
  shows "dim0 gen_gate = dim0 x" "dim1 gen_gate = dim1 x" "dim2 gen_gate = 1"
    "dim0 copy_gate = dim0 x" "dim1 copy_gate = dim1 x" "dim2 copy_gate = 1"
    "at3 gen_gate i j 0 + at3 copy_gate i j 0 = 1"
proof -
  from ok obtain c cs where c: "cat_last x attn_normalized = Inr c"
    and ch0: "chunk_last (softmax (diverter dec c)) 2 = Inr cs"
    and cs: "(case cs of [gen_gate, copy_gate] \<Rightarrow> Inr (gen_gate, copy_gate)
              | _ \<Rightarrow> Inl ValueError) = Inr (gen_gate, copy_gate)"
    by (auto simp: gen_copy_gates_def gates_def res_bind_eq_Inr)
  have "cs = [gen_gate, copy_gate]"
    using cs by (simp split: list.splits)
  with ch0 have ch: "chunk_last (softmax (diverter dec c)) 2 = Inr [gen_gate, copy_gate]"
    by simp
  have cd: "dim0 c = dim0 x" "dim1 c = dim1 x"
    using c by (auto simp: cat_last_def split: if_splits)
  let ?g = "softmax (diverter dec c)"
  have gd: "dim0 ?g = dim0 x" "dim1 ?g = dim1 x" "dim2 ?g = 2"
    using kp two cd by (simp_all add: keeps_positions_def)
  have gen: "gen_gate = narrow_last ?g (0, 1)" and copy: "copy_gate = narrow_last ?g (1, 1)"
    using ch gd by (simp_all add: chunk_last_def chunk_bounds_two)
  show "dim0 gen_gate = dim0 x" "dim1 gen_gate = dim1 x" "dim2 gen_gate = 1"
    "dim0 copy_gate = dim0 x" "dim1 copy_gate = dim1 x" "dim2 copy_gate = 1"
    using gd by (simp_all add: gen copy narrow_last_def)
  have "(\<Sum>k<dim2 (diverter dec c). at3 ?g i j k) = 1"
    using two by (intro softmax_sum) simp
  then have "at3 ?g i j 0 + at3 ?g i j 1 = 1"
    using two by (simp add: numeral_2_eq_2)
  then show "at3 gen_gate i j 0 + at3 copy_gate i j 0 = 1"
    by (simp add: gen copy narrow_last_def)
qed

lemma feed_forward_dims:
  assumes ok: "feed_forward dec x attn = Inr x'"
    and kp: "modules_keep_positions dec"
    and at: "dim0 attn = dim0 x" "dim1 attn = dim1 x"
  shows "dim0 x' = dim0 x" "dim1 x' = dim1 x"
proof -
  from ok obtain s x7 where s: "add3 x attn = Inr s"
    and x7: "add3 (dropout_module dec (ff_layer_2 dec (activation_dropout_module dec
               (activation_fn dec (ff_layer_1 dec
                 (if normalize_before dec then ff_layer_norm dec (alignment_layer_norm dec s)
                  else alignment_layer_norm dec s))))))
              (alignment_layer_norm dec s) = Inr x7"
    and x': "x' = (if \<not> normalize_before dec then ff_layer_norm dec x7 else x7)"
    by (auto simp: feed_forward_def res_bind_eq_Inr Let_def)
  have sd: "dim0 s = dim0 x" "dim1 s = dim1 x"
    using broadcast_dims(1,2) [OF s [unfolded add3_def]] at by simp_all
  have k: "\<And>t. dim0 (alignment_layer_norm dec t) = dim0 t"
    "\<And>t. dim1 (alignment_layer_norm dec t) = dim1 t"
    "\<And>t. dim0 (ff_layer_norm dec t) = dim0 t" "\<And>t. dim1 (ff_layer_norm dec t) = dim1 t"
    "\<And>t. dim0 (ff_layer_1 dec t) = dim0 t" "\<And>t. dim1 (ff_layer_1 dec t) = dim1 t"
    "\<And>t. dim0 (ff_layer_2 dec t) = dim0 t" "\<And>t. dim1 (ff_layer_2 dec t) = dim1 t"
    "\<And>t. dim0 (activation_fn dec t) = dim0 t" "\<And>t. dim1 (activation_fn dec t) = dim1 t"
    "\<And>t. dim0 (activation_dropout_module dec t) = dim0 t"
    "\<And>t. dim1 (activation_dropout_module dec t) = dim1 t"
    "\<And>t. dim0 (dropout_module dec t) = dim0 t" "\<And>t. dim1 (dropout_module dec t) = dim1 t"
    using kp by (simp_all add: modules_keep_positions_def keeps_positions_def)
  have "dim0 x7 = dim0 x" "dim1 x7 = dim1 x"
    using broadcast_dims(1,2) [OF x7 [unfolded add3_def]] sd k by (simp_all split: if_splits)
  then show "dim0 x' = dim0 x" "dim1 x' = dim1 x"
    using k x' by simp_all
qed

lemma bdim_one_left_iff [simp]: "bdim (Suc 0) b = Some c \<longleftrightarrow> c = b"
  by (auto simp: bdim_def)

lemma output_layer_dims:
  assumes "keeps_positions (output_projection dec)"
  shows "dim0 (output_layer dec t) = dim0 t" "dim1 (output_layer dec t) = dim1 t"
  using assms by (simp_all add: output_layer_def keeps_positions_def)

lemma generate_probs_props:
  assumes ok: "generate_probs dec x attn attn_normalized = Inr (probs, copy_gate, seq_len, bsz)"
    and kp: "modules_keep_positions dec"
    and two: "\<forall>t. dim2 (diverter dec t) = 2"
    and at: "dim0 attn = dim0 x" "dim1 attn = dim1 x"
  shows "seq_len = dim0 x" "bsz = dim1 x"
    "dim0 copy_gate = dim0 x" "dim1 copy_gate = dim1 x" "dim2 copy_gate = 1"
    "dim0 probs = dim0 x" "dim1 probs = dim1 x"
    "i < dim0 x \<Longrightarrow> j < dim1 x \<Longrightarrow> 0 < dim2 probs \<Longrightarrow>
       (\<Sum>v<dim2 probs. at3 probs i j v) + at3 copy_gate i j 0 = 1"
proof -
  from ok obtain gen_gate x' where g: "gen_copy_gates dec x attn_normalized = Inr (gen_gate, copy_gate)"
    and ff: "feed_forward dec x attn = Inr x'"
    and m: "mul3 gen_gate (softmax (output_layer dec x')) = Inr probs"
    and sz: "seq_len = dim0 x'" "bsz = dim1 x'"
    by (auto simp: generate_probs_def res_bind_eq_Inr)
  have kd: "keeps_positions (diverter dec)" and ko: "keeps_positions (output_projection dec)"
    using kp by (simp_all add: modules_keep_positions_def)
  note gp = gen_copy_gates_props [OF g kd two]
  note xd = feed_forward_dims [OF ff kp at]
  show "seq_len = dim0 x" "bsz = dim1 x"
    using sz xd by simp_all
  show "dim0 copy_gate = dim0 x" "dim1 copy_gate = dim1 x" "dim2 copy_gate = 1"
    using gp by simp_all
  let ?P = "softmax (output_layer dec x')"
  have Pd: "dim0 ?P = dim0 x" "dim1 ?P = dim1 x"
    using output_layer_dims [OF ko] xd by simp_all
  note bd = broadcast_dims [OF m [unfolded mul3_def]]
  show pd: "dim0 probs = dim0 x" "dim1 probs = dim1 x"
    using bd(1,2) gp Pd by simp_all
  have v: "dim2 probs = dim2 ?P"
    using bd(3) gp by simp
  show "(\<Sum>v<dim2 probs. at3 probs i j v) + at3 copy_gate i j 0 = 1"
    if "i < dim0 x" "j < dim1 x" "0 < dim2 probs"
  proof -
    have "(\<Sum>v<dim2 probs. at3 probs i j v) = (\<Sum>v<dim2 ?P. at3 gen_gate i j 0 * at3 ?P i j v)"
      unfolding v using that gp Pd by (intro sum.cong) (simp_all add: bd(4))
    also have "\<dots> = at3 gen_gate i j 0 * (\<Sum>v<dim2 ?P. at3 ?P i j v)"
      by (simp add: sum_distrib_left)
    also have "(\<Sum>v<dim2 ?P. at3 ?P i j v) = 1"
      using that v softmax_sum [of "output_layer dec x'" i j] by simp
    finally show ?thesis
      using gp(7) [of i j] by simp
  qed
qed

lemma copy_scatter_positive:
  assumes "copy_scatter probs copy_gate aw cs T B = Inr r"
  shows "0 < T" "0 < B"
  using assms
  by (auto simp: copy_scatter_def res_bind_eq_Inr copy_index_def view3_def Let_def
      split: if_splits)

lemma scattered_mass:
  assumes rng: "\<forall>k<S. ix k < V"
  shows "(\<Sum>v<V. scatter_row row (map (\<lambda>k. (ix k, c k)) [0..<S]) v)
       = (\<Sum>v<V. row v) + (\<Sum>k<S. c k)"
proof -
  have "(\<Sum>v<V. \<Sum>k<S. if ix k = v then c k else 0) = (\<Sum>k<S. \<Sum>v<V. if ix k = v then c k else 0)"
    by (rule sum.swap)
  also have "\<dots> = (\<Sum>k<S. c k)"
    using rng by (intro sum.cong) simp_all
  finally show ?thesis
    by (simp add: scatter_row_positions sum.distrib)
qed

text \<open>
  C2. Without ensemble, on an input for which the computation succeeds, the probability
  tensor before the logarithm (generate gate times vocabulary softmax, plus copy gate
  times alignment weights scatter-added at the token identities) sums to 1 over the
  vocabulary at every target position and batch element, and \<open>forward\<close> returns its
  logarithm with the floor, batch first. The input is valid in that the modules keep the
  position axes, the diverter has two outputs, the attention returns one weight per
  memory position and these weights sum to 1, and there is one token identity per memory
  position. Scalars are real numbers, so the sum is exactly 1.
\<close>

theorem no_ensemble_mass_is_one:
  assumes cfg: "\<not> with_TM_ensemble dec"
    and enc: "encoder_out a = Some enc"
    and feat: "extract_features dec (prev_output_tokens a) (encoder_out a) (incremental_state a)
                 (full_context_alignment a) (alignment_layer_arg a) (alignment_heads a)
               = Inr (features, ex)"
    and x: "x = transpose01 features"
    and kp: "modules_keep_positions dec"
    and two: "\<forall>t. dim2 (diverter dec t) = 2"
    and att: "alignment_layer dec x (memory_encoder_out enc) (memory_encoder_out enc)
                (memory_encoder_padding_mask enc) = (attn, w)"
    and ad: "dim0 attn = dim0 x" "dim1 attn = dim1 x"
    and wd: "dim0 w = dim1 x" "dim1 w = dim0 x" "dim2 w = dim0 (memory_encoder_out enc)"
    and norm: "weights_normalized w"
    and tms: "rows (TMs enc) = dim0 (memory_encoder_out enc)" "cols (TMs enc) = dim1 x"
    and ok: "no_ensemble_probs dec x enc = Inr probs"
  shows "forward dec a = Inr (transpose01 (log_floor probs), ex)
    \<and> dim0 probs = dim0 x \<and> dim1 probs = dim1 x
    \<and> (\<forall>t<dim0 probs. \<forall>b<dim1 probs. (\<Sum>v<dim2 probs. at3 probs t b v) = 1)"
proof -
  let ?S = "dim0 (memory_encoder_out enc)"
  have fw: "forward dec a = Inr (transpose01 (log_floor probs), ex)"
    using cfg enc feat ok
    by (simp add: forward_def select_strategy_def run_strategy_def no_ensemble_branch_def
        x [symmetric])
  from ok att obtain probs0 copy_gate seq_len bsz
    where gp: "generate_probs dec x attn (alignment_layer_norm dec attn)
                 = Inr (probs0, copy_gate, seq_len, bsz)"
      and sc: "copy_scatter probs0 copy_gate w (TMs enc) seq_len bsz = Inr probs"
    by (auto simp: no_ensemble_probs_def exemplar_probs_def attend_def res_bind_eq_Inr)
  note g = generate_probs_props [OF gp kp two ad]
  have sc': "copy_scatter probs0 copy_gate w (TMs enc) (dim0 x) (dim1 x) = Inr probs"
    using sc g(1,2) by simp
  note pos = copy_scatter_positive [OF sc']
  have eq: "copy_scatter probs0 copy_gate w (TMs enc) (dim0 x) (dim1 x) =
    (if \<not> (dim0 x \<le> dim0 probs0 \<and> dim1 x \<le> dim1 probs0) then Inl ShapeMismatch
     else if \<not> ids_in_range (TMs enc) (dim2 probs0) then Inl ScatterIndexError
     else Inr \<lparr>dim0 = dim0 probs0, dim1 = dim1 probs0, dim2 = dim2 probs0,
               at3 = (\<lambda>i j. if i < dim0 x \<and> j < dim1 x
                  then scatter_row (at3 probs0 i j)
                         (map (\<lambda>k. (nat (at2 (TMs enc) k j), at3 copy_gate i j 0 * at3 w j i k))
                            [0..<?S])
                  else at3 probs0 i j)\<rparr>)"
    using g(3,4,5) wd tms pos by (intro copy_scatter_eq) simp_all
  have rng: "ids_in_range (TMs enc) (dim2 probs0)"
    and pr: "probs = \<lparr>dim0 = dim0 probs0, dim1 = dim1 probs0, dim2 = dim2 probs0,
               at3 = (\<lambda>i j. if i < dim0 x \<and> j < dim1 x
                  then scatter_row (at3 probs0 i j)
                         (map (\<lambda>k. (nat (at2 (TMs enc) k j), at3 copy_gate i j 0 * at3 w j i k))
                            [0..<?S])
                  else at3 probs0 i j)\<rparr>"
    using sc' unfolding eq by (auto split: if_splits)
  have pd: "dim0 probs = dim0 x" "dim1 probs = dim1 x" "dim2 probs = dim2 probs0"
    using g(6,7) by (simp_all add: pr)
  have mass: "(\<Sum>v<dim2 probs. at3 probs t b v) = 1" if t: "t < dim0 x" and b: "b < dim1 x" for t b
  proof -
    have w1: "(\<Sum>s<?S. at3 w b t s) = 1"
      using norm t b wd by (simp add: weights_normalized_def)
    then have S: "0 < ?S"
      by (cases "?S") simp_all
    have ix: "\<forall>k<?S. nat (at2 (TMs enc) k b) < dim2 probs0"
    proof (intro allI impI)
      fix k assume "k < ?S"
      then have "0 \<le> at2 (TMs enc) k b \<and> at2 (TMs enc) k b < int (dim2 probs0)"
        using rng tms b by (simp add: ids_in_range_def)
      then show "nat (at2 (TMs enc) k b) < dim2 probs0"
        by linarith
    qed
    with S have V: "0 < dim2 probs0"
      by (metis gr_implies_not0 gr0I)
    have "(\<Sum>v<dim2 probs. at3 probs t b v)
        = (\<Sum>v<dim2 probs0. at3 probs0 t b v) + (\<Sum>k<?S. at3 copy_gate t b 0 * at3 w b t k)"
      using t b scattered_mass [OF ix] by (simp add: pr)
    also have "(\<Sum>k<?S. at3 copy_gate t b 0 * at3 w b t k) = at3 copy_gate t b 0"
      using w1 by (simp add: sum_distrib_left [symmetric])
    finally show ?thesis
      using g(8) [OF t b V] by simp
  qed
  show ?thesis
    using fw pd mass by simp
qed

subsection \<open>Combining the exemplars\<close>

lemma map_res_Inr_map: "(\<And>x. x \<in> set xs \<Longrightarrow> f x = Inr (g x)) \<Longrightarrow> map_res f xs = Inr (map g xs)"
  by (induction xs) simp_all

lemma sum_list_nth: "sum_list (map f xs) = (\<Sum>i<length xs. f (xs ! i))"
proof -
  have "sum_list (map f xs) = (\<Sum>i = 0..<length (map f xs). map f xs ! i)"
    by (rule sum_list_sum_nth)
  also have "\<dots> = (\<Sum>i<length xs. f (xs ! i))"
    by (auto simp: atLeast0LessThan intro!: sum.cong)
  finally show ?thesis .
qed

lemma stack_sum_shaped:
  assumes "ts \<noteq> []" and "\<forall>t\<in>set ts. shaped a b c t"
  shows "stack_sum ts = Inr \<lparr>dim0 = a, dim1 = b, dim2 = c,
           at3 = (\<lambda>i j k. sum_list (map (\<lambda>t. at3 t i j k) ts))\<rparr>"
proof -
  have "hd ts \<in> set ts"
    using assms(1) by simp
  then have "shaped a b c (hd ts)"
    using assms(2) by blast
  then show ?thesis
    using assms by (auto simp: stack_sum_def stackable_def same_shape_def shaped_def list_all_iff)
qed

lemma stack_mean_shaped:
  assumes "ts \<noteq> []" and "\<forall>t\<in>set ts. shaped a b c t"
  shows "stack_mean ts = Inr \<lparr>dim0 = a, dim1 = b, dim2 = c,
           at3 = (\<lambda>i j k. sum_list (map (\<lambda>t. at3 t i j k) ts) / real (length ts))\<rparr>"
proof -
  have "hd ts \<in> set ts"
    using assms(1) by simp
  then have "shaped a b c (hd ts)"
    using assms(2) by blast
  then show ?thesis
    using assms by (auto simp: stack_mean_def stackable_def same_shape_def shaped_def list_all_iff)
qed

lemma tm_chunks_positive: "tm_chunks dec enc = Inr chunks \<Longrightarrow> 0 < TM_num dec"
  by (auto simp: tm_chunks_def chunk_dim0_def chunk_bounds_def res_bind_eq_Inr split: if_splits)

lemma tm_probs_eq_Inr:
  "tm_probs dec x enc = Inr ps \<longleftrightarrow>
     (\<exists>chunks. tm_chunks dec enc = Inr chunks \<and> length ps = nat (TM_num dec)
        \<and> (\<forall>i<nat (TM_num dec). exemplar_pass dec x chunks i = Inr (ps ! i)))"
  by (auto simp: tm_probs_def res_bind_eq_Inr map_res_eq_Inr tm_range_def)

lemma scale_by_similarity:
  assumes "shaped T B V p" and "rows sim = B" and "i < cols sim"
  shows "res_bind (select_col sim i) (\<lambda>c. mul3 (transpose01 p) c)
     = Inr \<lparr>dim0 = B, dim1 = T, dim2 = V,
            at3 = (\<lambda>b t v. at3 p (bidx T t) (bidx B b) (bidx V v) * at2 sim (bidx B b) i)\<rparr>"
  using assms by (simp add: select_col_def mul3_def broadcast_def transpose01_def shaped_def)

lemma forward_similarity:
  assumes ens: "with_TM_ensemble dec"
    and enc: "encoder_out a = Some enc"
    and sim: "TMs_similarity enc = Some sim"
    and feat: "extract_features dec (prev_output_tokens a) (encoder_out a) (incremental_state a)
                 (full_context_alignment a) (alignment_layer_arg a) (alignment_heads a)
               = Inr (features, ex)"
  shows "forward dec a = res_bind (similarity_branch dec (transpose01 features) enc sim)
                           (\<lambda>lprobs. Inr (lprobs, ex))"
  using assms by (simp add: forward_def select_strategy_def run_strategy_def)

lemma weighted_stack:
  assumes N: "0 < N"
    and body: "\<And>i. i < N \<Longrightarrow> f i = Inr \<lparr>dim0 = B, dim1 = T, dim2 = V,
        at3 = (\<lambda>b t v. at3 (ps ! i) (bidx T t) (bidx B b) (bidx V v)
                         * wt (bidx B b) (bidx T t) i)\<rparr>"
  shows "\<exists>out. res_bind (map_res f [0..<N])
                 (\<lambda>lprobs. res_bind (stack_sum lprobs) (\<lambda>s. Inr (log_floor s))) = Inr out
     \<and> shaped B T V out
     \<and> (\<forall>b<B. \<forall>t<T. \<forall>v<V.
           at3 out b t v = ln ((\<Sum>i<N. wt b t i * at3 (ps ! i) t b v) + 1 / 10 ^ 12))"
proof -
  define g where "g i = \<lparr>dim0 = B, dim1 = T, dim2 = V,
      at3 = (\<lambda>b t v. at3 (ps ! i) (bidx T t) (bidx B b) (bidx V v) * wt (bidx B b) (bidx T t) i)\<rparr>"
    for i
  have loop: "map_res f [0..<N] = Inr (map g [0..<N])"
    using body by (intro map_res_Inr_map) (simp add: g_def)
  have st: "stack_sum (map g [0..<N])
      = Inr \<lparr>dim0 = B, dim1 = T, dim2 = V,
             at3 = (\<lambda>i j k. sum_list (map (\<lambda>t. at3 t i j k) (map g [0..<N])))\<rparr>"
    using N by (intro stack_sum_shaped) (auto simp: g_def shaped_def)
  define out where "out = log_floor \<lparr>dim0 = B, dim1 = T, dim2 = V,
             at3 = (\<lambda>i j k. sum_list (map (\<lambda>t. at3 t i j k) (map g [0..<N])))\<rparr>"
  have r: "res_bind (map_res f [0..<N])
             (\<lambda>lprobs. res_bind (stack_sum lprobs) (\<lambda>s. Inr (log_floor s))) = Inr out"
    by (simp add: loop st out_def)
  have sh: "shaped B T V out"
    by (simp add: out_def log_floor_def shaped_def)
  have pt: "at3 out b t v = ln ((\<Sum>i<N. wt b t i * at3 (ps ! i) t b v) + 1 / 10 ^ 12)"
    if "b < B" "t < T" "v < V" for b t v
  proof -
    have "sum_list (map (\<lambda>t'. at3 t' b t v) (map g [0..<N]))
        = (\<Sum>i<N. wt b t i * at3 (ps ! i) t b v)"
      using that by (simp add: comp_def sum_list_upt g_def mult.commute)
    then show ?thesis
      by (simp add: out_def log_floor_def)
  qed
  show ?thesis
    using r sh pt by blast
qed

lemma similarity_branch_value:
  assumes ps: "tm_probs dec x enc = Inr ps"
    and shp: "\<forall>p\<in>set ps. shaped T B V p"
    and sd: "rows sim = B" "nat (TM_num dec) \<le> cols sim"
  shows "\<exists>out. similarity_branch dec x enc sim = Inr out \<and> shaped B T V out
     \<and> (\<forall>b<B. \<forall>t<T. \<forall>v<V.
           at3 out b t v
           = ln ((\<Sum>i<nat (TM_num dec). at2 sim b i * at3 (ps ! i) t b v) + 1 / 10 ^ 12))"
proof -
  let ?N = "nat (TM_num dec)"
  from ps obtain chunks where ch: "tm_chunks dec enc = Inr chunks"
    and len: "length ps = ?N"
    and ep: "\<forall>i<?N. exemplar_pass dec x chunks i = Inr (ps ! i)"
    by (auto simp: tm_probs_eq_Inr)
  have N: "0 < ?N"
    using tm_chunks_positive [OF ch] by simp
  have body: "res_bind (exemplar_pass dec x chunks i) (\<lambda>probs.
                res_bind (select_col sim i) (\<lambda>c. mul3 (transpose01 probs) c))
      = Inr \<lparr>dim0 = B, dim1 = T, dim2 = V,
        at3 = (\<lambda>b t v. at3 (ps ! i) (bidx T t) (bidx B b) (bidx V v)
                         * (\<lambda>b t i. at2 sim b i) (bidx B b) (bidx T t) i)\<rparr>"
    if i: "i < ?N" for i
  proof -
    have "shaped T B V (ps ! i)"
      using shp len i by simp
    then show ?thesis
      using ep i sd by (simp add: scale_by_similarity)
  qed
  show ?thesis
    using weighted_stack [of ?N _ B T V ps "\<lambda>b t i. at2 sim b i", OF N body]
    by (simp add: similarity_branch_def ch tm_range_def)
qed

lemma mean_branch_value:
  assumes ps: "tm_probs dec x enc = Inr ps"
    and shp: "\<forall>p\<in>set ps. shaped T B V p"
  shows "\<exists>out. mean_branch dec x enc = Inr out \<and> shaped B T V out
     \<and> (\<forall>b<B. \<forall>t<T. \<forall>v<V.
           at3 out b t v
           = ln ((\<Sum>i<nat (TM_num dec). at3 (ps ! i) t b v) / real (nat (TM_num dec))
                 + 1 / 10 ^ 12))"
proof -
  let ?N = "nat (TM_num dec)"
  from ps obtain chunks where ch: "tm_chunks dec enc = Inr chunks"
    and len: "length ps = ?N"
    by (auto simp: tm_probs_eq_Inr)
  have N: "0 < ?N"
    using tm_chunks_positive [OF ch] by simp
  then have ne: "ps \<noteq> []"
    using len by auto
  define out where "out = transpose01 (log_floor \<lparr>dim0 = T, dim1 = B, dim2 = V,
      at3 = (\<lambda>i j k. sum_list (map (\<lambda>t. at3 t i j k) ps) / real (length ps))\<rparr>)"
  have "mean_branch dec x enc = Inr out"
    by (simp add: mean_branch_def ps stack_mean_shaped [OF ne shp] out_def)
  moreover have "shaped B T V out"
    by (simp add: out_def shaped_def transpose01_def log_floor_def)
  moreover have "at3 out b t v
      = ln ((\<Sum>i<?N. at3 (ps ! i) t b v) / real ?N + 1 / 10 ^ 12)" for b t v
    by (simp add: out_def transpose01_def log_floor_def sum_list_nth len)
  ultimately show ?thesis
    by blast
qed

lemma scale_by_weight:
  assumes "shaped T B V p" and "dim0 w = B" and "dim1 w = T" and "i < dim2 w"
  shows "res_bind (select_last w i) (\<lambda>c. mul3 (transpose01 p) c)
     = Inr \<lparr>dim0 = B, dim1 = T, dim2 = V,
            at3 = (\<lambda>b t v. at3 p (bidx T t) (bidx B b) (bidx V v)
                            * at3 w (bidx B b) (bidx T t) i)\<rparr>"
  using assms by (simp add: select_last_def mul3_def broadcast_def transpose01_def shaped_def)

lemma attend_all_nth:
  assumes "attend_all dec x chunks = Inr atts"
  shows "length atts = nat (TM_num dec)"
    and "i < nat (TM_num dec) \<Longrightarrow>
         exemplar_pass dec x chunks i = exemplar_probs dec x (atts ! i) (nth_res (snd (snd chunks)) i)"
  using assms
  by (auto simp: attend_all_def exemplar_pass_def map_res_eq_Inr tm_range_def res_bind_eq_Inr
      split: prod.splits)

lemma linear_attend_all_nth:
  assumes "linear_attend_all dec x chunks = Inr scored"
  shows "length scored = nat (TM_num dec)"
    and "i < nat (TM_num dec) \<Longrightarrow>
         exemplar_pass dec x chunks i
           = exemplar_probs dec x (fst (scored ! i)) (nth_res (snd (snd chunks)) i)"
proof -
  obtain mems masks seqs where c: "chunks = (mems, masks, seqs)"
    by (cases chunks) auto
  define body where "body cur_idx =
      res_bind (nth_res mems cur_idx) (\<lambda>cur_memory.
        res_bind (nth_res masks cur_idx) (\<lambda>cur_mask.
          res_bind (cat_last x (attn_normalized_of (attend dec x cur_memory cur_mask)))
            (\<lambda>cur_learnable_p. Inr (attend dec x cur_memory cur_mask,
                                     transpose01 (learnable_p_mlp dec cur_learnable_p)))))"
    for cur_idx
  have "map_res body [0..<nat (TM_num dec)] = Inr scored"
    using assms unfolding linear_attend_all_def c tm_range_def body_def Let_def by simp
  then have len: "length scored = nat (TM_num dec)"
    and all: "\<And>i. i < nat (TM_num dec) \<Longrightarrow> body i = Inr (scored ! i)"
    unfolding map_res_eq_Inr by simp_all
  show "length scored = nat (TM_num dec)"
    by (rule len)
  show "exemplar_pass dec x chunks i
      = exemplar_probs dec x (fst (scored ! i)) (nth_res (snd (snd chunks)) i)"
    if "i < nat (TM_num dec)"
  proof -
    have e: "body i = Inr (scored ! i)"
      using all that .
    obtain m where m: "nth_res mems i = Inr m"
      using e unfolding body_def by (cases "nth_res mems i") simp_all
    obtain k where k: "nth_res masks i = Inr k"
      using e m unfolding body_def by (cases "nth_res masks i") simp_all
    obtain cc where cc: "cat_last x (attn_normalized_of (attend dec x m k)) = Inr cc"
      using e m k unfolding body_def
      by (cases "cat_last x (attn_normalized_of (attend dec x m k))") simp_all
    have "scored ! i = (attend dec x m k, transpose01 (learnable_p_mlp dec cc))"
      using e by (simp add: body_def m k cc)
    then have "fst (scored ! i) = attend dec x m k"
      by simp
    with m k show ?thesis
      by (simp add: exemplar_pass_def c)
  qed
qed

lemma learned_weights_nth:
  assumes "learned_weights s dec x chunks = Inr (atts, w)"
  shows "length atts = nat (TM_num dec)"
    and "i < nat (TM_num dec) \<Longrightarrow>
         exemplar_pass dec x chunks i = exemplar_probs dec x (atts ! i) (nth_res (snd (snd chunks)) i)"
  using assms attend_all_nth [of dec x chunks] linear_attend_all_nth [of dec x chunks]
  by (auto simp: learned_weights_def res_bind_eq_Inr split: if_splits)

lemma learned_branch_value:
  assumes ps: "tm_probs dec x enc = Inr ps"
    and shp: "\<forall>p\<in>set ps. shaped T B V p"
    and ch: "tm_chunks dec enc = Inr chunks"
    and lw: "learned_weights s dec x chunks = Inr (atts, w)"
    and wd: "dim0 w = B" "dim1 w = T" "nat (TM_num dec) \<le> dim2 w"
  shows "\<exists>out. learned_branch s dec x enc = Inr out \<and> shaped B T V out
     \<and> (\<forall>b<B. \<forall>t<T. \<forall>v<V.
           at3 out b t v
           = ln ((\<Sum>i<nat (TM_num dec). at3 w b t i * at3 (ps ! i) t b v) + 1 / 10 ^ 12))"
proof -
  let ?N = "nat (TM_num dec)"
  from ps ch have len: "length ps = ?N"
    and ep: "\<forall>i<?N. exemplar_pass dec x chunks i = Inr (ps ! i)"
    by (auto simp: tm_probs_eq_Inr)
  have N: "0 < ?N"
    using tm_chunks_positive [OF ch] by simp
  obtain mems masks seqs where c: "chunks = (mems, masks, seqs)"
    by (cases chunks) auto
  have body: "res_bind (nth_res atts i) (\<lambda>att.
                res_bind (exemplar_probs dec x att (nth_res seqs i)) (\<lambda>probs.
                res_bind (select_last w i) (\<lambda>cur. mul3 (transpose01 probs) cur)))
      = Inr \<lparr>dim0 = B, dim1 = T, dim2 = V,
        at3 = (\<lambda>b t v. at3 (ps ! i) (bidx T t) (bidx B b) (bidx V v)
                         * at3 w (bidx B b) (bidx T t) i)\<rparr>"
    if i: "i < ?N" for i
  proof -
    have "shaped T B V (ps ! i)"
      using shp len i by simp
    moreover have "exemplar_probs dec x (atts ! i) (nth_res seqs i) = Inr (ps ! i)"
      using learned_weights_nth(2) [OF lw i] ep i c by simp
    ultimately show ?thesis
      using learned_weights_nth(1) [OF lw] i wd by (simp add: nth_res_def scale_by_weight)
  qed
  show ?thesis
    using weighted_stack [of ?N _ B T V ps "at3 w", OF N body]
    by (simp add: learned_branch_def ch [unfolded c] lw [unfolded c] weighted_sum_log_def
        weighted_exemplars_def c tm_range_def)
qed

lemma forward_run:
  assumes enc: "encoder_out a = Some enc"
    and feat: "extract_features dec (prev_output_tokens a) (encoder_out a) (incremental_state a)
                 (full_context_alignment a) (alignment_layer_arg a) (alignment_heads a)
               = Inr (features, ex)"
  shows "forward dec a = res_bind (run_strategy (select_strategy dec enc) dec
                                     (transpose01 features) enc)
                           (\<lambda>lprobs. Inr (lprobs, ex))"
  using assms by (simp add: forward_def)

text \<open>
  C1. With \<open>with_TM_ensemble = true\<close> and similarity scores present, when the
  per-exemplar probability tensors \<open>ps\<close> (each computed from its own chunks of the
  memory, of one shape) exist and there is a score for every batch element and exemplar,
  \<open>forward\<close> succeeds and its output at batch element \<open>b\<close>, target position \<open>t\<close> and
  token \<open>v\<close> is \<open>log(sum over exemplars i of similarity[b][i] * ps[i][t][b][v] + 1e-12)\<close>;
  the scores enter as they are, without normalisation.
\<close>

theorem similarity_weighted_output:
  assumes ens: "with_TM_ensemble dec"
    and enc: "encoder_out a = Some enc"
    and sim: "TMs_similarity enc = Some sim"
    and feat: "extract_features dec (prev_output_tokens a) (encoder_out a) (incremental_state a)
                 (full_context_alignment a) (alignment_layer_arg a) (alignment_heads a)
               = Inr (features, ex)"
    and ps: "tm_probs dec (transpose01 features) enc = Inr ps"
    and shp: "\<forall>p\<in>set ps. shaped T B V p"
    and sd: "rows sim = B" "nat (TM_num dec) \<le> cols sim"
  shows "\<exists>out. forward dec a = Inr (out, ex) \<and> shaped B T V out
     \<and> (\<forall>b<B. \<forall>t<T. \<forall>v<V.
           at3 out b t v
           = ln ((\<Sum>i<nat (TM_num dec). at2 sim b i * at3 (ps ! i) t b v) + 1 / 10 ^ 12))"
proof -
  from similarity_branch_value [OF ps shp sd]
  obtain out where br: "similarity_branch dec (transpose01 features) enc sim = Inr out"
    and sh: "shaped B T V out"
    and pt: "\<forall>b<B. \<forall>t<T. \<forall>v<V.
           at3 out b t v
           = ln ((\<Sum>i<nat (TM_num dec). at2 sim b i * at3 (ps ! i) t b v) + 1 / 10 ^ 12)"
    by blast
  have "forward dec a = Inr (out, ex)"
    by (simp add: forward_similarity [OF ens enc sim feat] br)
  with sh pt show ?thesis
    by blast
qed

text \<open>
  C3. The arithmetic mean belongs to the last branch of \<open>forward\<close>, the ensemble without
  weights (\<open>with_TM_ensemble = true\<close>, no similarity scores, no learned-weighting branch
  selected): there the output is \<open>log(mean over the TM_num exemplars of ps[i] + 1e-12)\<close>,
  the logarithm after the mean. The similarity-weighted branch and the learned-weighting
  branches take the weighted sum of the same per-exemplar tensors, so the mean branch is
  the only one that divides by \<open>TM_num\<close>. With \<open>with_TM_ensemble = false\<close> there are no
  per-exemplar tensors and no mean: the output is the logarithm, with the floor, of the
  one tensor computed from the whole memory.
\<close>

theorem mean_only_in_plain_ensemble:
  assumes enc: "encoder_out a = Some enc"
    and feat: "extract_features dec (prev_output_tokens a) (encoder_out a) (incremental_state a)
                 (full_context_alignment a) (alignment_layer_arg a) (alignment_heads a)
               = Inr (features, ex)"
    and x: "x = transpose01 features"
    and n: "n = nat (TM_num dec)"
  shows "(\<not> with_TM_ensemble dec \<longrightarrow>
            forward dec a = res_bind (no_ensemble_probs dec x enc)
                              (\<lambda>probs. Inr (transpose01 (log_floor probs), ex)))
    \<and> (tm_probs dec x enc = Inr ps \<and> (\<forall>p\<in>set ps. shaped T B V p) \<longrightarrow>
         (select_strategy dec enc = PlainMean \<longrightarrow>
            (\<exists>out. forward dec a = Inr (out, ex) \<and> shaped B T V out
               \<and> (\<forall>b<B. \<forall>t<T. \<forall>v<V.
                     at3 out b t v
                     = ln ((\<Sum>i<n. at3 (ps ! i) t b v) / real n + 1 / 10 ^ 12))))
       \<and> (\<forall>sim. select_strategy dec enc = SimilarityWeighted sim \<and> rows sim = B \<and> n \<le> cols sim
            \<longrightarrow> (\<exists>out. forward dec a = Inr (out, ex) \<and> shaped B T V out
               \<and> (\<forall>b<B. \<forall>t<T. \<forall>v<V.
                     at3 out b t v
                     = ln ((\<Sum>i<n. at2 sim b i * at3 (ps ! i) t b v) + 1 / 10 ^ 12))))
       \<and> (\<forall>chunks atts w.
            select_strategy dec enc \<in> {UnscalableLinear, AttentionPooled, PairwiseLinear,
                                       HybridAttention}
            \<and> tm_chunks dec enc = Inr chunks
            \<and> learned_weights (select_strategy dec enc) dec x chunks = Inr (atts, w)
            \<and> dim0 w = B \<and> dim1 w = T \<and> n \<le> dim2 w
            \<longrightarrow> (\<exists>out. forward dec a = Inr (out, ex) \<and> shaped B T V out
               \<and> (\<forall>b<B. \<forall>t<T. \<forall>v<V.
                     at3 out b t v
                     = ln ((\<Sum>i<n. at3 w b t i * at3 (ps ! i) t b v) + 1 / 10 ^ 12)))))"
proof (intro conjI impI allI)
  assume "\<not> with_TM_ensemble dec"
  then show "forward dec a = res_bind (no_ensemble_probs dec x enc)
                              (\<lambda>probs. Inr (transpose01 (log_floor probs), ex))"
    unfolding forward_run [OF enc feat]
    by (cases "no_ensemble_probs dec x enc")
      (simp_all add: select_strategy_def run_strategy_def no_ensemble_branch_def x)
next
  assume ps: "tm_probs dec x enc = Inr ps \<and> (\<forall>p\<in>set ps. shaped T B V p)"
    and s: "select_strategy dec enc = PlainMean"
  from ps mean_branch_value [of dec x enc ps T B V]
  obtain out where "mean_branch dec x enc = Inr out" "shaped B T V out"
    "\<forall>b<B. \<forall>t<T. \<forall>v<V. at3 out b t v
        = ln ((\<Sum>i<n. at3 (ps ! i) t b v) / real n + 1 / 10 ^ 12)"
    unfolding n by blast
  then show "\<exists>out. forward dec a = Inr (out, ex) \<and> shaped B T V out
     \<and> (\<forall>b<B. \<forall>t<T. \<forall>v<V.
           at3 out b t v = ln ((\<Sum>i<n. at3 (ps ! i) t b v) / real n + 1 / 10 ^ 12))"
    unfolding forward_run [OF enc feat] s by (auto simp: run_strategy_def x)
next
  fix sim
  assume ps: "tm_probs dec x enc = Inr ps \<and> (\<forall>p\<in>set ps. shaped T B V p)"
    and s: "select_strategy dec enc = SimilarityWeighted sim \<and> rows sim = B \<and> n \<le> cols sim"
  from ps s similarity_branch_value [of dec x enc ps T B V sim]
  obtain out where "similarity_branch dec x enc sim = Inr out" "shaped B T V out"
    "\<forall>b<B. \<forall>t<T. \<forall>v<V. at3 out b t v
        = ln ((\<Sum>i<n. at2 sim b i * at3 (ps ! i) t b v) + 1 / 10 ^ 12)"
    unfolding n by blast
  then show "\<exists>out. forward dec a = Inr (out, ex) \<and> shaped B T V out
     \<and> (\<forall>b<B. \<forall>t<T. \<forall>v<V.
           at3 out b t v = ln ((\<Sum>i<n. at2 sim b i * at3 (ps ! i) t b v) + 1 / 10 ^ 12))"
    unfolding forward_run [OF enc feat] using s by (auto simp: run_strategy_def x)
next
  fix chunks atts w
  assume ps: "tm_probs dec x enc = Inr ps \<and> (\<forall>p\<in>set ps. shaped T B V p)"
    and s: "select_strategy dec enc \<in> {UnscalableLinear, AttentionPooled, PairwiseLinear,
                                       HybridAttention}
            \<and> tm_chunks dec enc = Inr chunks
            \<and> learned_weights (select_strategy dec enc) dec x chunks = Inr (atts, w)
            \<and> dim0 w = B \<and> dim1 w = T \<and> n \<le> dim2 w"
  from ps s learned_branch_value [of dec x enc ps T B V chunks "select_strategy dec enc" atts w]
  obtain out where "learned_branch (select_strategy dec enc) dec x enc = Inr out"
    "shaped B T V out"
    "\<forall>b<B. \<forall>t<T. \<forall>v<V. at3 out b t v
        = ln ((\<Sum>i<n. at3 w b t i * at3 (ps ! i) t b v) + 1 / 10 ^ 12)"
    unfolding n by blast
  then show "\<exists>out. forward dec a = Inr (out, ex) \<and> shaped B T V out
     \<and> (\<forall>b<B. \<forall>t<T. \<forall>v<V.
           at3 out b t v = ln ((\<Sum>i<n. at3 w b t i * at3 (ps ! i) t b v) + 1 / 10 ^ 12))"
    unfolding forward_run [OF enc feat] using s by (auto simp: run_strategy_def x)
qed

subsection \<open>The learned weights\<close>

lemma cat_last_list_width:
  "cat_last_list ts = Inr r \<Longrightarrow> dim2 r = sum_list (map dim2 ts)"
proof (induction ts arbitrary: r rule: cat_last_list.induct)
  case 1
  then show ?case by simp
next
  case (2 t)
  then show ?case by simp
next
  case (3 t u us)
  from "3.prems" obtain r' where r': "cat_last_list (u # us) = Inr r'"
    and c: "cat_last t r' = Inr r"
    by (auto simp: res_bind_eq_Inr)
  have "dim2 r = dim2 t + dim2 r'"
    using c by (auto simp: cat_last_def split: if_splits)
  then show ?case
    using "3.IH" [OF r'] by simp
qed

lemma cat_last_list_dims:
  "cat_last_list ts = Inr r \<Longrightarrow> dim0 r = dim0 (hd ts) \<and> dim1 r = dim1 (hd ts)"
proof (induction ts arbitrary: r rule: cat_last_list.induct)
  case 1
  then show ?case by simp
next
  case (2 t)
  then show ?case by simp
next
  case (3 t u us)
  from "3.prems" obtain r' where c: "cat_last t r' = Inr r"
    by (auto simp: res_bind_eq_Inr)
  then show ?case
    by (auto simp: cat_last_def split: if_splits)
qed

lemma cat_dim1_list_unit:
  assumes "cat_dim1_list ts = Inr r" and "\<forall>u\<in>set ts. dim1 u = 1"
  shows "dim1 r = length ts \<and> dim0 r = dim0 (hd ts) \<and> dim2 r = dim2 (hd ts)
    \<and> (\<forall>t<length ts. \<forall>b k. at3 r b t k = at3 (ts ! t) b 0 k)"
  using assms
proof (induction ts arbitrary: r rule: cat_dim1_list.induct)
  case 1
  then show ?case by simp
next
  case (2 t)
  then show ?case by simp
next
  case (3 t u us)
  from "3.prems" obtain r' where r': "cat_dim1_list (u # us) = Inr r'"
    and c: "cat_dim1 t r' = Inr r"
    by (auto simp: res_bind_eq_Inr)
  have ih: "dim1 r' = length (u # us)"
    "\<forall>j<length (u # us). \<forall>b k. at3 r' b j k = at3 ((u # us) ! j) b 0 k"
    using "3.IH" [OF r'] "3.prems"(2) by simp_all
  have t1: "dim1 t = 1"
    using "3.prems"(2) by simp
  have r: "r = \<lparr>dim0 = dim0 t, dim1 = dim1 t + dim1 r', dim2 = dim2 t,
      at3 = (\<lambda>i j k. if j < dim1 t then at3 t i j k else at3 r' i (j - dim1 t) k)\<rparr>"
    using c by (auto simp: cat_dim1_def split: if_splits)
  show ?case
  proof (intro conjI allI impI)
    show "dim1 r = length (t # u # us)"
      using ih(1) t1 by (simp add: r)
    show "dim0 r = dim0 (hd (t # u # us))" "dim2 r = dim2 (hd (t # u # us))"
      by (simp_all add: r)
    fix j b k
    assume j: "j < length (t # u # us)"
    show "at3 r b j k = at3 ((t # u # us) ! j) b 0 k"
    proof (cases j)
      case 0
      then show ?thesis by (simp add: r t1)
    next
      case (Suc j')
      then have "j' < length (u # us)"
        using j by simp
      then show ?thesis
        using ih(2) Suc by (simp add: r t1)
    qed
  qed
qed

lemma map_res_all:
  assumes "map_res f xs = Inr ys" and "\<And>x y. f x = Inr y \<Longrightarrow> P y"
  shows "\<forall>y\<in>set ys. P y"
  using assms unfolding map_res_eq_Inr by (metis in_set_conv_nth)

lemma transpose01_dims [simp]:
  "dim0 (transpose01 t) = dim1 t" "dim1 (transpose01 t) = dim0 t" "dim2 (transpose01 t) = dim2 t"
  by (simp_all add: transpose01_def)

lemma sum_list_ones: "\<forall>u\<in>set ts. f u = (1::nat) \<Longrightarrow> sum_list (map f ts) = length ts"
  by (induction ts) simp_all

lemma unscalable_weights_sum:
  assumes "unscalable_weights dec x atts = Inr w"
    and "\<forall>t. dim2 (learnable_p_mlp dec t) = N" and "0 < N"
  shows "dim2 w = N \<and> (\<Sum>i<N. at3 w b t i) = 1"
proof -
  from assms(1) obtain inp where w: "w = softmax (transpose01 (learnable_p_mlp dec inp))"
    by (auto simp: unscalable_weights_def res_bind_eq_Inr)
  have d: "dim2 (transpose01 (learnable_p_mlp dec inp)) = N"
    using assms(2) by simp
  show ?thesis
    using softmax_sum [of "transpose01 (learnable_p_mlp dec inp)" b t] assms(3) d
    by (simp add: w)
qed

lemma linear_weights_sum:
  assumes "linear_weights scores = Inr w" and "\<forall>u\<in>set scores. dim2 u = 1"
    and "0 < length scores"
  shows "dim2 w = length scores \<and> (\<Sum>i<length scores. at3 w b t i) = 1"
proof -
  from assms(1) obtain c where c: "cat_last_list scores = Inr c" and w: "w = softmax c"
    by (auto simp: linear_weights_def res_bind_eq_Inr)
  have d: "dim2 c = length scores"
    using cat_last_list_width [OF c] sum_list_ones [of scores dim2] assms(2) by simp
  show ?thesis
    using softmax_sum [of c b t] assms(3) d by (simp add: w)
qed

lemma attention_weights_sum:
  assumes aw: "attention_weights dec x atts = Inr w"
    and pn: "pooling_normalized (learnable_p_attn dec)"
    and ne: "0 < length atts"
    and b: "b < dim0 w" and t: "t < dim1 w"
  shows "dim2 w = length atts \<and> (\<Sum>i<length atts. at3 w b t i) = 1"
proof -
  let ?ns = "map attn_normalized_of atts"
  let ?f = "\<lambda>T_idx. if T_idx < dim0 (hd ?ns)
          then Inr (learnable_p_attn dec (row_of x T_idx) (stack_at ?ns T_idx) (stack_at ?ns T_idx))
          else Inl IndexError"
  from aw obtain pooled where p: "pooled_attention dec x atts = Inr pooled"
    and c: "cat_dim1_list (map snd pooled) = Inr w"
    by (auto simp: attention_weights_def res_bind_eq_Inr)
  have mr: "map_res ?f [0..<dim0 x] = Inr pooled"
    using p unfolding pooled_attention_def Let_def by (simp split: if_splits)
  have W: "dim0 (snd y) = dim1 x \<and> dim1 (snd y) = 1 \<and> dim2 (snd y) = length atts
      \<and> weights_normalized (snd y)" if "y \<in> set pooled" for y
  proof -
    have "\<forall>y\<in>set pooled. dim0 (snd y) = dim1 x \<and> dim1 (snd y) = 1 \<and> dim2 (snd y) = length atts
      \<and> weights_normalized (snd y)"
    proof (rule map_res_all [OF mr])
      fix T_idx y
      assume "?f T_idx = Inr y"
      then have y: "y = learnable_p_attn dec (row_of x T_idx) (stack_at ?ns T_idx)
                         (stack_at ?ns T_idx)"
        by (simp split: if_splits)
      show "dim0 (snd y) = dim1 x \<and> dim1 (snd y) = 1 \<and> dim2 (snd y) = length atts
          \<and> weights_normalized (snd y)"
        using pn ne unfolding y pooling_normalized_def
        by (simp add: row_of_def stack_at_def)
    qed
    with that show ?thesis by blast
  qed
  have ne': "map snd pooled \<noteq> []"
    using c by auto
  have u: "\<forall>u\<in>set (map snd pooled). dim1 u = 1"
    using W by auto
  note cu = cat_dim1_list_unit [OF c u]
  have h: "hd (map snd pooled) \<in> set (map snd pooled)"
    using ne' by (rule hd_in_set)
  then obtain y0 where y0: "y0 \<in> set pooled" "hd (map snd pooled) = snd y0"
    by auto
  have d0: "dim0 w = dim1 x" and d2: "dim2 w = length atts"
    using cu y0 W [OF y0(1)] by simp_all
  have tl: "t < length pooled"
    using cu t by simp
  then have yt: "pooled ! t \<in> set pooled"
    by simp
  have "(\<Sum>i<length atts. at3 w b t i) = (\<Sum>i<length atts. at3 (snd (pooled ! t)) b 0 i)"
    using cu tl by simp
  also have "\<dots> = 1"
  proof -
    have n: "weights_normalized (snd (pooled ! t))" and db: "b < dim0 (snd (pooled ! t))"
      and d1: "0 < dim1 (snd (pooled ! t))" and dk: "dim2 (snd (pooled ! t)) = length atts"
      using W [OF yt] b d0 by simp_all
    from n db d1 have "(\<Sum>i<dim2 (snd (pooled ! t)). at3 (snd (pooled ! t)) b 0 i) = 1"
      unfolding weights_normalized_def by blast
    then show ?thesis
      unfolding dk .
  qed
  finally show ?thesis
    using d2 by simp
qed

lemma hybrid_weights_sum:
  assumes hw: "hybrid_weights dec x atts = Inr w"
    and one: "\<forall>t. dim2 (learnable_p_mlp dec t) = 1" and N: "0 < nat (TM_num dec)"
  shows "dim2 w = nat (TM_num dec) \<and> (\<Sum>i<nat (TM_num dec). at3 w b t i) = 1"
proof -
  from hw obtain pooled cat scores
    where mr: "map_res (\<lambda>cur_idx.
                 res_bind (nth_res (map attn_normalized_of atts) cur_idx)
                   (\<lambda>cur_attn_normalized.
                 res_bind (cat_last_list [x, cur_attn_normalized, cat])
                   (\<lambda>cur_learnable_p.
                    Inr (transpose01 (learnable_p_mlp dec cur_learnable_p)))))
               (tm_range dec) = Inr scores"
      and lw: "linear_weights scores = Inr w"
    unfolding hybrid_weights_def res_bind_eq_Inr by blast
  have len: "length scores = nat (TM_num dec)"
    using mr by (simp add: map_res_eq_Inr tm_range_def)
  have "\<forall>u\<in>set scores. dim2 u = 1"
  proof (rule map_res_all [OF mr])
    fix cur_idx y
    assume "res_bind (nth_res (map attn_normalized_of atts) cur_idx)
              (\<lambda>cur_attn_normalized.
                 res_bind (cat_last_list [x, cur_attn_normalized, cat])
                   (\<lambda>cur_learnable_p.
                      Inr (transpose01 (learnable_p_mlp dec cur_learnable_p)))) = Inr y"
    then obtain c where "y = transpose01 (learnable_p_mlp dec c)"
      unfolding res_bind_eq_Inr by blast
    then show "dim2 y = 1"
      using one by simp
  qed
  then show ?thesis
    using linear_weights_sum [OF lw, of b t] len N by simp
qed

lemma linear_scores_width:
  assumes la: "linear_attend_all dec x chunks = Inr scored"
    and one: "\<forall>t. dim2 (learnable_p_mlp dec t) = 1"
  shows "\<forall>u\<in>set (map snd scored). dim2 u = 1"
proof -
  obtain mems masks seqs where c: "chunks = (mems, masks, seqs)"
    by (cases chunks) auto
  define body where "body cur_idx =
      res_bind (nth_res mems cur_idx) (\<lambda>cur_memory.
        res_bind (nth_res masks cur_idx) (\<lambda>cur_mask.
          res_bind (cat_last x (attn_normalized_of (attend dec x cur_memory cur_mask)))
            (\<lambda>cur_learnable_p. Inr (attend dec x cur_memory cur_mask,
                                     transpose01 (learnable_p_mlp dec cur_learnable_p)))))"
    for cur_idx
  have mr: "map_res body (tm_range dec) = Inr scored"
    using la unfolding linear_attend_all_def c body_def Let_def by simp
  have "\<forall>y\<in>set scored. dim2 (snd y) = 1"
  proof (rule map_res_all [OF mr])
    fix cur_idx y
    assume "body cur_idx = Inr y"
    then obtain m k cc where "y = (attend dec x m k, transpose01 (learnable_p_mlp dec cc))"
      unfolding body_def res_bind_eq_Inr by blast
    then show "dim2 (snd y) = 1"
      using one by simp
  qed
  then show ?thesis
    by simp
qed

text \<open>
  C5. In every learned-weighting strategy (\<open>unscalable_linear\<close>; \<open>attention\<close> and
  \<open>attention_large\<close>; \<open>linear\<close> and \<open>linear_large\<close>; \<open>attention_2\<close>) the weights that
  scale the per-exemplar probability tensors have one entry per exemplar and sum to 1 over
  the exemplars at every batch element and target position. The weights are a softmax
  over the exemplar axis, or the weights of the weighting attention, which are a
  distribution by the contract of the attention unit. The widths of the scoring network
  are those its constructor fixes: \<open>TM_num\<close> for \<open>unscalable_linear\<close>, 1 otherwise. The
  similarity-weighted branch, in contrast, multiplies by the scores as they are given,
  whatever they sum to.
\<close>

theorem learned_weights_sum_to_one:
  assumes s: "s \<in> {UnscalableLinear, AttentionPooled, PairwiseLinear, HybridAttention}"
    and ch: "tm_chunks dec enc = Inr chunks"
    and lw: "learned_weights s dec x chunks = Inr (atts, w)"
    and u: "s = UnscalableLinear \<longrightarrow> (\<forall>t. dim2 (learnable_p_mlp dec t) = nat (TM_num dec))"
    and l: "s = PairwiseLinear \<or> s = HybridAttention
            \<longrightarrow> (\<forall>t. dim2 (learnable_p_mlp dec t) = 1)"
    and p: "s = AttentionPooled \<longrightarrow> pooling_normalized (learnable_p_attn dec)"
    and b: "b < dim0 w" and t: "t < dim1 w"
  shows "(dim2 w = nat (TM_num dec) \<and> (\<Sum>i<nat (TM_num dec). at3 w b t i) = 1)
    \<and> (\<forall>sim ps T B V.
          tm_probs dec x enc = Inr ps \<and> (\<forall>p\<in>set ps. shaped T B V p)
          \<and> rows sim = B \<and> nat (TM_num dec) \<le> cols sim
          \<longrightarrow> (\<exists>out. similarity_branch dec x enc sim = Inr out
                 \<and> (\<forall>b<B. \<forall>t<T. \<forall>v<V.
                       at3 out b t v
                       = ln ((\<Sum>i<nat (TM_num dec). at2 sim b i * at3 (ps ! i) t b v)
                             + 1 / 10 ^ 12))))"
proof -
  have N: "0 < nat (TM_num dec)"
    using tm_chunks_positive [OF ch] by simp
  note len = learned_weights_nth(1) [OF lw]
  have raw: "\<exists>out. similarity_branch dec x enc sim = Inr out
         \<and> (\<forall>b<B. \<forall>t<T. \<forall>v<V.
               at3 out b t v
               = ln ((\<Sum>i<nat (TM_num dec). at2 sim b i * at3 (ps ! i) t b v) + 1 / 10 ^ 12))"
    if "tm_probs dec x enc = Inr ps \<and> (\<forall>p\<in>set ps. shaped T B V p)
          \<and> rows sim = B \<and> nat (TM_num dec) \<le> cols sim" for sim ps T B V
    using similarity_branch_value [of dec x enc ps T B V sim] that by blast
  have "dim2 w = nat (TM_num dec) \<and> (\<Sum>i<nat (TM_num dec). at3 w b t i) = 1"
  proof (cases "s = PairwiseLinear")
    case True
    from lw True obtain scored where la: "linear_attend_all dec x chunks = Inr scored"
      and w: "linear_weights (map snd scored) = Inr w" and a: "atts = map fst scored"
      by (auto simp: learned_weights_def res_bind_eq_Inr)
    have "length (map snd scored) = nat (TM_num dec)"
      using len a by simp
    then show ?thesis
      using linear_weights_sum [OF w linear_scores_width [OF la], of b t] l True N by simp
  next
    case False
    from lw False have at: "attend_all dec x chunks = Inr atts"
      and w: "(if s = UnscalableLinear then unscalable_weights dec x atts
               else if s = AttentionPooled then attention_weights dec x atts
               else hybrid_weights dec x atts) = Inr w"
      by (auto simp: learned_weights_def res_bind_eq_Inr)
    consider "s = UnscalableLinear" | "s = AttentionPooled" | "s = HybridAttention"
      using s False by auto
    then show ?thesis
    proof cases
      case 1
      then show ?thesis
        using unscalable_weights_sum [of dec x atts w "nat (TM_num dec)" b t] w u N by simp
    next
      case 2
      then show ?thesis
        using attention_weights_sum [of dec x atts w b t] w p N len b t by simp
    next
      case 3
      then show ?thesis
        using hybrid_weights_sum [of dec x atts w b t] w l N by simp
    qed
  qed
then show ?thesis
    using raw by blast
qed

subsection \<open>Evaluating the small decoder\<close>

lemmas ex_defs = ex_decoder_def ex_encoder_output_def ex_args_def ex_features_def ex_extra_def
  ex_zeros_def ex_alignment_def ex_pooling_def ex_similarity_def

lemmas op_defs = exemplar_probs_def attend_def generate_probs_def gen_copy_gates_def gates_def
  cat_last_def chunk_last_def chunk_bounds_two feed_forward_def add3_def mul3_def broadcast_def
  output_layer_def copy_scatter_def copy_index_def view3_def scatter_add_last_def
  index_in_range_def transpose01_def transpose2_def softmax_def narrow_last_def Let_def

lemma ex_no_ensemble_ok:
  "\<not> isl (no_ensemble_probs (ex_decoder False 2 False None 1) (transpose01 ex_features)
            (ex_encoder_output 2 None))"
  by (simp add: no_ensemble_probs_def op_defs ex_defs list_all_iff)

theorem no_ensemble_mass_is_one_witness:
  "forward (ex_decoder False 2 False None 1) (ex_args (ex_encoder_output 2 None))
     = Inr (transpose01 (log_floor (projr (no_ensemble_probs (ex_decoder False 2 False None 1)
                (transpose01 ex_features) (ex_encoder_output 2 None)))), ex_extra)
   \<and> dim2 (projr (no_ensemble_probs (ex_decoder False 2 False None 1)
                (transpose01 ex_features) (ex_encoder_output 2 None))) = 2
   \<and> (\<Sum>v<2. at3 (projr (no_ensemble_probs (ex_decoder False 2 False None 1)
                (transpose01 ex_features) (ex_encoder_output 2 None))) 0 0 v) = 1"
proof -
  let ?D = "ex_decoder False 2 False None 1"
  let ?E = "ex_encoder_output 2 None"
  let ?X = "transpose01 ex_features"
  let ?P = "projr (no_ensemble_probs ?D ?X ?E)"
  let ?att = "alignment_layer ?D ?X (memory_encoder_out ?E) (memory_encoder_out ?E)
                (memory_encoder_padding_mask ?E)"
  have ok: "no_ensemble_probs ?D ?X ?E = Inr ?P"
    using ex_no_ensemble_ok by simp
  have two: "{..<2::nat} = {0, 1}"
    by auto
  have d: "dim0 ?P = 1" "dim1 ?P = 1" "dim2 ?P = 2"
    by (simp_all add: no_ensemble_probs_def op_defs ex_defs list_all_iff)
  have r: "forward ?D (ex_args ?E) = Inr (transpose01 (log_floor ?P), ex_extra)
    \<and> dim0 ?P = dim0 ?X \<and> dim1 ?P = dim1 ?X
    \<and> (\<forall>t<dim0 ?P. \<forall>b<dim1 ?P. (\<Sum>v<dim2 ?P. at3 ?P t b v) = 1)"
  proof (rule no_ensemble_mass_is_one [where enc = ?E and features = ex_features
        and attn = "fst ?att" and w = "snd ?att"])
    show "weights_normalized (snd ?att)"
      by (simp add: weights_normalized_def ex_defs transpose01_def two)
    show "modules_keep_positions ?D"
      by (simp add: modules_keep_positions_def keeps_positions_def ex_defs)
    show "no_ensemble_probs ?D ?X ?E = Inr ?P"
      by (rule ok)
  qed (simp_all add: ex_defs transpose01_def)
  from r have m: "\<forall>t<dim0 ?P. \<forall>b<dim1 ?P. (\<Sum>v<dim2 ?P. at3 ?P t b v) = 1"
    by blast
  have "(\<Sum>v<2. at3 ?P 0 0 v) = 1"
    using m unfolding d by simp
  with r d show ?thesis
    by blast
qed

lemma upt_two: "[0..<2] = [0, Suc 0]"
  by (simp add: numeral_2_eq_2)

lemmas chunk_defs = tm_probs_def tm_chunks_def chunk_dim0_def chunk2_cols_def chunk2_rows_def
  chunk_bounds_two tm_range_def upt_two exemplar_pass_def nth_res_def narrow0_def
  narrow2_cols_def narrow2_rows_def

lemma ex_tm_probs_ok:
  "\<not> isl (tm_probs (ex_decoder ens 2 lp model width) (transpose01 ex_features)
            (ex_encoder_output 2 sim))"
  by (simp add: chunk_defs op_defs ex_defs list_all_iff)

lemma ex_tm_probs_length:
  "length (projr (tm_probs (ex_decoder ens 2 lp model width) (transpose01 ex_features)
            (ex_encoder_output 2 sim))) = 2"
  by (simp add: chunk_defs op_defs ex_defs list_all_iff)

lemma ex_tm_probs_shaped:
  "shaped 1 1 2 (projr (tm_probs (ex_decoder ens 2 lp model width) (transpose01 ex_features)
            (ex_encoder_output 2 sim)) ! 0)"
  "shaped 1 1 2 (projr (tm_probs (ex_decoder ens 2 lp model width) (transpose01 ex_features)
            (ex_encoder_output 2 sim)) ! 1)"
  by (simp_all add: chunk_defs op_defs ex_defs list_all_iff shaped_def)

lemma ex_tm_probs_values:
  "at3 (projr (tm_probs (ex_decoder ens 2 lp model width) (transpose01 ex_features)
            (ex_encoder_output 2 sim)) ! 0) 0 0 0 = 3 / 4"
  "at3 (projr (tm_probs (ex_decoder ens 2 lp model width) (transpose01 ex_features)
            (ex_encoder_output 2 sim)) ! 1) 0 0 0 = 1 / 4"
  "at3 (projr (tm_probs (ex_decoder ens 2 lp model width) (transpose01 ex_features)
            (ex_encoder_output 2 sim)) ! Suc 0) 0 0 0 = 1 / 4"
  by (simp_all add: chunk_defs op_defs ex_defs list_all_iff scatter_row_def flat3_def)

theorem similarity_weighted_output_witness:
  "\<exists>out. forward (ex_decoder True 2 False None 1)
            (ex_args (ex_encoder_output 2 (Some ex_similarity))) = Inr (out, ex_extra)
     \<and> shaped 1 1 2 out
     \<and> at3 out 0 0 0 = ln (7 / 10 * (3 / 4) + 3 / 10 * (1 / 4) + 1 / 10 ^ 12)"
proof -
  let ?D = "ex_decoder True 2 False None 1"
  let ?E = "ex_encoder_output 2 (Some ex_similarity)"
  let ?ps = "projr (tm_probs ?D (transpose01 ex_features) ?E)"
  have two: "{..<2::nat} = {0, 1}"
    by auto
  have ps: "tm_probs ?D (transpose01 ex_features) ?E = Inr ?ps"
    using ex_tm_probs_ok by simp
  have shp: "\<forall>p\<in>set ?ps. shaped 1 1 2 p"
    using ex_tm_probs_shaped [of True False None 1 "Some ex_similarity"]
      ex_tm_probs_length [of True False None 1 "Some ex_similarity"]
    by (auto simp: in_set_conv_nth less_Suc_eq numeral_2_eq_2)
  have "\<exists>out. forward ?D (ex_args ?E) = Inr (out, ex_extra) \<and> shaped 1 1 2 out
     \<and> (\<forall>b<1. \<forall>t<1. \<forall>v<2.
           at3 out b t v
           = ln ((\<Sum>i<nat (TM_num ?D). at2 ex_similarity b i * at3 (?ps ! i) t b v)
                 + 1 / 10 ^ 12))"
    using ps shp
    by (intro similarity_weighted_output [where enc = ?E and features = ex_features])
      (simp_all add: ex_defs)
  then obtain out where fw: "forward ?D (ex_args ?E) = Inr (out, ex_extra)"
    and sh: "shaped 1 1 2 out"
    and pt: "at3 out 0 0 0
       = ln ((\<Sum>i<nat (TM_num ?D). at2 ex_similarity 0 i * at3 (?ps ! i) 0 0 0) + 1 / 10 ^ 12)"
    by auto
  have n: "nat (TM_num ?D) = 2"
    by (simp add: ex_decoder_def)
  have s: "at2 ex_similarity 0 0 = 7 / 10" "at2 ex_similarity 0 (Suc 0) = 3 / 10"
    by (simp_all add: ex_similarity_def)
  have "at3 out 0 0 0 = ln (7 / 10 * (3 / 4) + 3 / 10 * (1 / 4) + 1 / 10 ^ 12)"
    unfolding pt n two using ex_tm_probs_values [of True False None 1 "Some ex_similarity"]
    by (simp add: s)
  with fw sh show ?thesis
    by blast
qed

lemma ex_no_ensemble_value:
  "at3 (fst (projr (forward (ex_decoder False 2 False None 1)
                      (ex_args (ex_encoder_output 2 None))))) 0 0 0
   = ln (3 / 4 + 1 / 10 ^ 12)"
  by (simp add: forward_def select_strategy_def run_strategy_def no_ensemble_branch_def
      no_ensemble_probs_def op_defs ex_defs log_floor_def scatter_row_def flat3_def
      list_all_iff upt_two)

text \<open>
  Without ensemble, two exemplars of one position each holding the tokens 0 and 1: the
  output for token 0 is \<open>log(3/4 + 1e-12)\<close>, from the one pass over the whole memory,
  while the mean of the two per-exemplar tensors would give \<open>log(1/2 + 1e-12)\<close>.
\<close>

theorem mean_claim_counterexample:
  "\<not> with_TM_ensemble (ex_decoder False 2 False None 1)
   \<and> at3 (fst (projr (forward (ex_decoder False 2 False None 1)
                         (ex_args (ex_encoder_output 2 None))))) 0 0 0
     \<noteq> ln ((at3 (projr (tm_probs (ex_decoder False 2 False None 1) (transpose01 ex_features)
                            (ex_encoder_output 2 None)) ! 0) 0 0 0
             + at3 (projr (tm_probs (ex_decoder False 2 False None 1) (transpose01 ex_features)
                            (ex_encoder_output 2 None)) ! 1) 0 0 0) / 2
            + 1 / 10 ^ 12)"
  unfolding ex_no_ensemble_value ex_tm_probs_values
  by (simp add: ex_decoder_def)

theorem mean_only_in_plain_ensemble_witness:
  "(\<exists>out. forward (ex_decoder True 2 False None 1) (ex_args (ex_encoder_output 2 None))
            = Inr (out, ex_extra)
       \<and> shaped 1 1 2 out
       \<and> at3 out 0 0 0 = ln ((3 / 4 + 1 / 4) / 2 + 1 / 10 ^ 12))
   \<and> forward (ex_decoder False 2 False None 1) (ex_args (ex_encoder_output 2 None))
     = res_bind (no_ensemble_probs (ex_decoder False 2 False None 1) (transpose01 ex_features)
                   (ex_encoder_output 2 None))
         (\<lambda>probs. Inr (transpose01 (log_floor probs), ex_extra))"
proof -
  let ?D = "ex_decoder True 2 False None 1"
  let ?Dn = "ex_decoder False 2 False None 1"
  let ?E = "ex_encoder_output 2 None"
  let ?X = "transpose01 ex_features"
  let ?ps = "projr (tm_probs ?D ?X ?E)"
  have two: "{..<2::nat} = {0, 1}"
    by auto
  have ps: "tm_probs ?D ?X ?E = Inr ?ps"
    using ex_tm_probs_ok by simp
  have shp: "\<forall>p\<in>set ?ps. shaped 1 1 2 p"
    using ex_tm_probs_shaped [of True False None 1 None]
      ex_tm_probs_length [of True False None 1 None]
    by (auto simp: in_set_conv_nth less_Suc_eq numeral_2_eq_2)
  have e: "encoder_out (ex_args ?E) = Some ?E"
    by (simp add: ex_args_def)
  have f: "extract_features ?D (prev_output_tokens (ex_args ?E)) (encoder_out (ex_args ?E))
       (incremental_state (ex_args ?E)) (full_context_alignment (ex_args ?E))
       (alignment_layer_arg (ex_args ?E)) (alignment_heads (ex_args ?E))
     = Inr (ex_features, ex_extra)"
    by (simp add: ex_decoder_def)
  have f0: "extract_features ?Dn (prev_output_tokens (ex_args ?E)) (encoder_out (ex_args ?E))
       (incremental_state (ex_args ?E)) (full_context_alignment (ex_args ?E))
       (alignment_layer_arg (ex_args ?E)) (alignment_heads (ex_args ?E))
     = Inr (ex_features, ex_extra)"
    by (simp add: ex_decoder_def)
  have s: "select_strategy ?D ?E = PlainMean"
    by (simp add: select_strategy_def ex_decoder_def ex_encoder_output_def)
  have n: "(2::nat) = nat (TM_num ?D)"
    by (simp add: ex_decoder_def)
  note m = mean_only_in_plain_ensemble [OF e f refl n, where ps = ?ps and T = 1 and B = 1
      and V = 2, THEN conjunct2, THEN mp, OF conjI [OF ps shp], THEN conjunct1, THEN mp, OF s]
  from m obtain out where fw: "forward ?D (ex_args ?E) = Inr (out, ex_extra)"
    and sh: "shaped 1 1 2 out"
    and pt: "\<forall>b<1. \<forall>t<1. \<forall>v<2.
       at3 out b t v = ln ((\<Sum>i<2. at3 (?ps ! i) t b v) / real (2::nat) + 1 / 10 ^ 12)"
    by (elim exE conjE)
  have "at3 out 0 0 0 = ln ((\<Sum>i<2. at3 (?ps ! i) 0 0 0) / real (2::nat) + 1 / 10 ^ 12)"
    using pt by simp
  then have v: "at3 out 0 0 0 = ln ((3 / 4 + 1 / 4) / 2 + 1 / 10 ^ 12)"
    unfolding two by (simp add: ex_tm_probs_values)
  have n0: "(2::nat) = nat (TM_num ?Dn)"
    by (simp add: ex_decoder_def)
  have d0: "\<not> with_TM_ensemble ?Dn"
    by (simp add: ex_decoder_def)
  note m0 = mean_only_in_plain_ensemble [OF e f0 refl n0, THEN conjunct1, THEN mp, OF d0]
  show ?thesis
    by (intro conjI exI [of _ out]) (rule fw sh v m0)+
qed

lemma ex_pooling_normalized: "pooling_normalized ex_pooling"
  by (simp add: pooling_normalized_def ex_pooling_def weights_normalized_def)

lemmas learned_defs = learned_weights_def attend_all_def linear_attend_all_def
  unscalable_weights_def attention_weights_def hybrid_weights_def linear_weights_def
  pooled_attention_def learnable_p_mlp_def attn_of_def attn_normalized_of_def stackable_def
  same_shape_def row_of_def stack_at_def cat_dim1_def cat_dim0_def

lemma ex_tm_chunks_ok:
  "\<not> isl (tm_chunks (ex_decoder ens 2 lp model width) (ex_encoder_output 2 sim))"
  by (simp add: chunk_defs ex_defs)

lemma ex_learned_ok:
  "\<not> isl (learned_weights UnscalableLinear (ex_decoder ens 2 lp model 2) (transpose01 ex_features)
            (projr (tm_chunks (ex_decoder ens 2 lp model 2) (ex_encoder_output 2 sim))))"
  "\<not> isl (learned_weights AttentionPooled (ex_decoder ens 2 lp model 1) (transpose01 ex_features)
            (projr (tm_chunks (ex_decoder ens 2 lp model 1) (ex_encoder_output 2 sim))))"
  "\<not> isl (learned_weights PairwiseLinear (ex_decoder ens 2 lp model 1) (transpose01 ex_features)
            (projr (tm_chunks (ex_decoder ens 2 lp model 1) (ex_encoder_output 2 sim))))"
  "\<not> isl (learned_weights HybridAttention (ex_decoder ens 2 lp model 1) (transpose01 ex_features)
            (projr (tm_chunks (ex_decoder ens 2 lp model 1) (ex_encoder_output 2 sim))))"
  by (simp_all add: chunk_defs learned_defs op_defs ex_defs)

lemma ex_TM_num: "TM_num (ex_decoder ens n lp model width) = n"
  by (simp add: ex_decoder_def)

lemma ex_learned_mlp_width:
  "dim2 (learnable_p_mlp (ex_decoder ens n lp model width) t) = width"
  by (simp add: learnable_p_mlp_def ex_decoder_def ex_zeros_def)

lemma ex_learned_dims:
  "dim0 (snd (projr (learned_weights s (ex_decoder ens 2 lp model width) (transpose01 ex_features)
            (projr (tm_chunks (ex_decoder ens 2 lp model width) (ex_encoder_output 2 sim)))))) = 1"
  "dim1 (snd (projr (learned_weights s (ex_decoder ens 2 lp model width) (transpose01 ex_features)
            (projr (tm_chunks (ex_decoder ens 2 lp model width) (ex_encoder_output 2 sim)))))) = 1"
  by (simp_all add: chunk_defs learned_defs op_defs ex_defs)

theorem learned_weights_sum_to_one_witness:
  "(\<Sum>i<2. at3 (snd (projr (learned_weights UnscalableLinear
        (ex_decoder True 2 True (Some ''unscalable_linear'') 2) (transpose01 ex_features)
        (projr (tm_chunks (ex_decoder True 2 True (Some ''unscalable_linear'') 2)
                  (ex_encoder_output 2 None)))))) 0 0 i) = 1
   \<and> (\<Sum>i<2. at3 (snd (projr (learned_weights AttentionPooled
        (ex_decoder True 2 True (Some ''attention'') 1) (transpose01 ex_features)
        (projr (tm_chunks (ex_decoder True 2 True (Some ''attention'') 1)
                  (ex_encoder_output 2 None)))))) 0 0 i) = 1
   \<and> (\<Sum>i<2. at3 (snd (projr (learned_weights PairwiseLinear
        (ex_decoder True 2 True (Some ''linear'') 1) (transpose01 ex_features)
        (projr (tm_chunks (ex_decoder True 2 True (Some ''linear'') 1)
                  (ex_encoder_output 2 None)))))) 0 0 i) = 1
   \<and> (\<Sum>i<2. at3 (snd (projr (learned_weights HybridAttention
        (ex_decoder True 2 True (Some ''attention_2'') 1) (transpose01 ex_features)
        (projr (tm_chunks (ex_decoder True 2 True (Some ''attention_2'') 1)
                  (ex_encoder_output 2 None)))))) 0 0 i) = 1
   \<and> (\<exists>out. similarity_branch (ex_decoder True 2 True (Some ''attention_2'') 1)
               (transpose01 ex_features) (ex_encoder_output 2 None) ex_similarity_raw = Inr out
          \<and> at3 out 0 0 0 = ln (7 / 10 * (3 / 4) + 7 / 10 * (1 / 4) + 1 / 10 ^ 12))"
proof -
  let ?E = "ex_encoder_output 2 None"
  let ?X = "transpose01 ex_features"
  have two: "{..<2::nat} = {0, 1}"
    by auto
  have gen: "((\<Sum>i<2. at3 (snd (projr (learned_weights s (ex_decoder True 2 True model width) ?X
        (projr (tm_chunks (ex_decoder True 2 True model width) ?E))))) 0 0 i) = 1)
      \<and> (\<forall>sim ps T B V.
          tm_probs (ex_decoder True 2 True model width) ?X ?E = Inr ps
          \<and> (\<forall>p\<in>set ps. shaped T B V p) \<and> rows sim = B
          \<and> nat (TM_num (ex_decoder True 2 True model width)) \<le> cols sim
          \<longrightarrow> (\<exists>out. similarity_branch (ex_decoder True 2 True model width) ?X ?E sim = Inr out
                 \<and> (\<forall>b<B. \<forall>t<T. \<forall>v<V.
                       at3 out b t v
                       = ln ((\<Sum>i<nat (TM_num (ex_decoder True 2 True model width)).
                                at2 sim b i * at3 (ps ! i) t b v)
                             + 1 / 10 ^ 12))))"
    if s: "s \<in> {UnscalableLinear, AttentionPooled, PairwiseLinear, HybridAttention}"
      and ok: "\<not> isl (learned_weights s (ex_decoder True 2 True model width) ?X
                 (projr (tm_chunks (ex_decoder True 2 True model width) ?E)))"
      and u: "s = UnscalableLinear \<Longrightarrow> width = 2"
      and l: "s = PairwiseLinear \<or> s = HybridAttention \<Longrightarrow> width = 1"
    for s model width
  proof -
    let ?D = "ex_decoder True 2 True model width"
    let ?C = "projr (tm_chunks ?D ?E)"
    let ?r = "projr (learned_weights s ?D ?X ?C)"
    have ch: "tm_chunks ?D ?E = Inr ?C"
      using ex_tm_chunks_ok by simp
    have lw: "learned_weights s ?D ?X ?C = Inr (fst ?r, snd ?r)"
      using ok by simp
    have n: "nat (TM_num ?D) = 2"
      by (simp add: ex_decoder_def)
    have pa: "learnable_p_attn ?D = ex_pooling"
      by (simp add: ex_decoder_def)
    have u': "s = UnscalableLinear \<longrightarrow> (\<forall>t. dim2 (learnable_p_mlp ?D t) = nat (TM_num ?D))"
      using u by (simp add: ex_learned_mlp_width ex_TM_num)
    have l': "s = PairwiseLinear \<or> s = HybridAttention \<longrightarrow> (\<forall>t. dim2 (learnable_p_mlp ?D t) = 1)"
      using l by (simp add: ex_learned_mlp_width)
    have p': "s = AttentionPooled \<longrightarrow> pooling_normalized (learnable_p_attn ?D)"
      by (simp add: pa ex_pooling_normalized)
    have b0: "0 < dim0 (snd ?r)" and t0: "0 < dim1 (snd ?r)"
      by (simp_all add: ex_learned_dims)
    note t = learned_weights_sum_to_one [OF s ch lw u' l' p' b0 t0]
    show ?thesis
      using t unfolding n by (intro conjI) (elim conjE, assumption)+
  qed
  note a = gen [of UnscalableLinear "Some ''unscalable_linear''" 2, THEN conjunct1]
  note b = gen [of AttentionPooled "Some ''attention''" 1, THEN conjunct1]
  note c = gen [of PairwiseLinear "Some ''linear''" 1, THEN conjunct1]
  note d = gen [of HybridAttention "Some ''attention_2''" 1]
  let ?D = "ex_decoder True 2 True (Some ''attention_2'') 1"
  let ?ps = "projr (tm_probs ?D ?X ?E)"
  have ps: "tm_probs ?D ?X ?E = Inr ?ps"
    using ex_tm_probs_ok by simp
  have shp: "\<forall>p\<in>set ?ps. shaped 1 1 2 p"
    using ex_tm_probs_shaped [of True True "Some ''attention_2''" 1 None]
      ex_tm_probs_length [of True True "Some ''attention_2''" 1 None]
    by (auto simp: in_set_conv_nth less_Suc_eq numeral_2_eq_2)
  have hyp: "tm_probs ?D ?X ?E = Inr ?ps \<and> (\<forall>p\<in>set ?ps. shaped 1 1 2 p)
      \<and> rows ex_similarity_raw = 1 \<and> nat (TM_num ?D) \<le> cols ex_similarity_raw"
    using ps shp by (simp add: ex_similarity_raw_def ex_decoder_def)
  have dd: "HybridAttention \<in> {UnscalableLinear, AttentionPooled, PairwiseLinear, HybridAttention}"
    by simp
  note raw = d [OF dd ex_learned_ok(4), THEN conjunct2, rule_format, OF _ _ hyp]
  have "\<exists>out. similarity_branch ?D ?X ?E ex_similarity_raw = Inr out
      \<and> (\<forall>b<1. \<forall>t<1. \<forall>v<2.
            at3 out b t v
            = ln ((\<Sum>i<nat (TM_num ?D). at2 ex_similarity_raw b i * at3 (?ps ! i) t b v)
                  + 1 / 10 ^ 12))"
    by (rule raw) simp_all
  then obtain out where o: "similarity_branch ?D ?X ?E ex_similarity_raw = Inr out"
    and pt: "\<forall>b<1. \<forall>t<1. \<forall>v<2.
            at3 out b t v
            = ln ((\<Sum>i<nat (TM_num ?D). at2 ex_similarity_raw b i * at3 (?ps ! i) t b v)
                  + 1 / 10 ^ 12)"
    by (elim exE conjE)
  have n: "nat (TM_num ?D) = 2"
    by (simp add: ex_decoder_def)
  have "at3 out 0 0 0
      = ln ((\<Sum>i<2. at2 ex_similarity_raw 0 i * at3 (?ps ! i) 0 0 0) + 1 / 10 ^ 12)"
    using pt unfolding n by simp
  then have v: "at3 out 0 0 0 = ln (7 / 10 * (3 / 4) + 7 / 10 * (1 / 4) + 1 / 10 ^ 12)"
    unfolding two by (simp add: ex_tm_probs_values ex_similarity_raw_def)
  show ?thesis
    by (intro conjI exI [of _ out] a b c d [OF dd ex_learned_ok(4), THEN conjunct1] o v
        ex_learned_ok)
      simp_all
qed

subsection \<open>The scatter on two positions that share a token\<close>

lemma ex_shared_float32:
  "copy_scatter_float32 ex_shared_probs ex_copy_gate ex_shared_weight ex_shared_copy_seq 1 1
     = Inr \<lparr>dim0 = 1, dim1 = 1, dim2 = 2,
            at3 = (\<lambda>i j. if i < 1 \<and> j < 1
               then scatter_row_float32 (at3 ex_shared_probs i j)
                      [(0, round_float32 (1 / 2 * (1 / 2 ^ 23))),
                       (0, round_float32 (1 / 2 * (1 - 1 / 2 ^ 23)))]
               else at3 ex_shared_probs i j)\<rparr>"
  by (subst copy_scatter_float32_eq [where S = 2])
    (simp_all add: ex_shared_probs_def ex_copy_gate_def ex_shared_weight_def
      ex_shared_copy_seq_def ids_in_range_def upt_two cong del: if_weak_cong)

lemma ex_shared_float32_swapped:
  "copy_scatter_float32 ex_shared_probs ex_copy_gate (permute_last ex_swap ex_shared_weight)
     (permute_rows ex_swap ex_shared_copy_seq) 1 1
     = Inr \<lparr>dim0 = 1, dim1 = 1, dim2 = 2,
            at3 = (\<lambda>i j. if i < 1 \<and> j < 1
               then scatter_row_float32 (at3 ex_shared_probs i j)
                      [(0, round_float32 (1 / 2 * (1 - 1 / 2 ^ 23))),
                       (0, round_float32 (1 / 2 * (1 / 2 ^ 23)))]
               else at3 ex_shared_probs i j)\<rparr>"
  by (subst copy_scatter_float32_eq [where S = 2])
    (simp_all add: ex_shared_probs_def ex_copy_gate_def ex_shared_weight_def
      ex_shared_copy_seq_def ids_in_range_def upt_two permute_last_def permute_rows_def
      ex_swap_def cong del: if_weak_cong)

lemma float32_sums:
  assumes "c0 = 1 / 2 * (1 / 2 ^ 23)" and "c1 = 1 / 2 * (1 - 1 / 2 ^ 23)"
    and "q = 1 / 4 + 1 / 2 ^ 25"
  shows "float32_add (round_float32 c1) (float32_add (round_float32 c0) q) = 3 / 4"
    and "float32_add (round_float32 c0) (float32_add (round_float32 c1) q)
         = 3 / 4 + 1 / 2 ^ 24"
proof -
  have c0: "round_float32 c0 = 1 / 2 ^ 24"
  proof -
    have "c0 = 1 / 2 ^ 24"
      unfolding assms by simp
    then show ?thesis
      by (simp only: round_float32_example)
  qed
  have c1: "round_float32 c1 = 1 / 2 - 1 / 2 ^ 24"
  proof -
    have "c1 = 1 / 2 - 1 / 2 ^ 24"
      unfolding assms by simp
    then show ?thesis
      by (simp only: round_float32_example)
  qed
  have a1: "round_float32 (q + 1 / 2 ^ 24) = 1 / 4 + 3 / 2 ^ 25"
  proof -
    have "q + 1 / 2 ^ 24 = 1 / 4 + 3 / 2 ^ 25"
      unfolding assms by simp
    then show ?thesis
      by (simp only: round_float32_example)
  qed
  have a2: "round_float32 (1 / 4 + 3 / 2 ^ 25 + (1 / 2 - 1 / 2 ^ 24)) = 3 / 4"
  proof -
    have "(1 / 4 + 3 / 2 ^ 25 + (1 / 2 - 1 / 2 ^ 24) :: real) = 3 / 4 + 1 / 2 ^ 25"
      by simp
    then show ?thesis
      by (simp only: round_float32_example)
  qed
  have b1: "round_float32 (q + (1 / 2 - 1 / 2 ^ 24)) = 3 / 4"
  proof -
    have "q + (1 / 2 - 1 / 2 ^ 24) = 3 / 4 - 1 / 2 ^ 25"
      unfolding assms by simp
    then show ?thesis
      by (simp only: round_float32_example)
  qed
  have b2: "round_float32 (3 / 4 + 1 / 2 ^ 24) = 3 / 4 + 1 / 2 ^ 24"
    by (rule round_float32_example)
  show "float32_add (round_float32 c1) (float32_add (round_float32 c0) q) = 3 / 4"
    unfolding float32_add_def c0 c1 a1 a2 ..
  show "float32_add (round_float32 c0) (float32_add (round_float32 c1) q)
         = 3 / 4 + 1 / 2 ^ 24"
    unfolding float32_add_def c0 c1 b1 b2 ..
qed

lemma ex_shared_is_float32:
  "is_float32 (at3 ex_shared_probs 0 0 0)" "is_float32 (at3 ex_shared_probs 0 0 1)"
  "is_float32 (at3 ex_copy_gate 0 0 0)"
  "is_float32 (at3 ex_shared_weight 0 0 0)" "is_float32 (at3 ex_shared_weight 0 0 1)"
proof -
  show "is_float32 (at3 ex_shared_probs 0 0 0)"
    unfolding is_float32_def
    by (rule round_float32_exact [where e = "-2" and m = 8388609])
      (simp_all add: ex_shared_probs_def power_int_minus)
  show "is_float32 (at3 ex_shared_probs 0 0 1)"
    unfolding is_float32_def
    by (rule round_float32_exact [where e = "-3" and m = 16777214])
      (simp_all add: ex_shared_probs_def power_int_minus)
  show "is_float32 (at3 ex_copy_gate 0 0 0)"
    unfolding is_float32_def
    by (rule round_float32_exact [where e = "-1" and m = 8388608])
      (simp_all add: ex_copy_gate_def power_int_minus)
  show "is_float32 (at3 ex_shared_weight 0 0 0)"
    unfolding is_float32_def
    by (rule round_float32_exact [where e = "-23" and m = 8388608])
      (simp_all add: ex_shared_weight_def power_int_minus)
  show "is_float32 (at3 ex_shared_weight 0 0 1)"
    unfolding is_float32_def
    by (rule round_float32_exact [where e = "-1" and m = 16777214])
      (simp_all add: ex_shared_weight_def power_int_minus)
qed

text \<open>
  The claim as stated, that any permutation gives an identical tensor, fails in single
  precision when two memory positions share a token. With the generation mass
  \<open>1/4 + 2^-25\<close> on token 0, copy gate 1/2 and the weights \<open>2^-23\<close> and \<open>1 - 2^-23\<close> on
  two positions that both hold token 0, all of them single-precision numbers, the scatter
  gives \<open>3/4\<close> for token 0, and with the two positions exchanged \<open>3/4 + 2^-24\<close>.
\<close>

theorem copy_scatter_float32_order_dependent:
  "bij_betw ex_swap {..<2} {..<2}
   \<and> is_float32 (at3 ex_shared_probs 0 0 0) \<and> is_float32 (at3 ex_shared_probs 0 0 1)
   \<and> is_float32 (at3 ex_copy_gate 0 0 0)
   \<and> is_float32 (at3 ex_shared_weight 0 0 0) \<and> is_float32 (at3 ex_shared_weight 0 0 1)
   \<and> \<not> isl (copy_scatter_float32 ex_shared_probs ex_copy_gate ex_shared_weight
              ex_shared_copy_seq 1 1)
   \<and> at3 (projr (copy_scatter_float32 ex_shared_probs ex_copy_gate ex_shared_weight
                   ex_shared_copy_seq 1 1)) 0 0 0 = 3 / 4
   \<and> \<not> isl (copy_scatter_float32 ex_shared_probs ex_copy_gate
              (permute_last ex_swap ex_shared_weight)
              (permute_rows ex_swap ex_shared_copy_seq) 1 1)
   \<and> at3 (projr (copy_scatter_float32 ex_shared_probs ex_copy_gate
                   (permute_last ex_swap ex_shared_weight)
                   (permute_rows ex_swap ex_shared_copy_seq) 1 1)) 0 0 0 = 3 / 4 + 1 / 2 ^ 24
   \<and> copy_scatter_float32 ex_shared_probs ex_copy_gate (permute_last ex_swap ex_shared_weight)
       (permute_rows ex_swap ex_shared_copy_seq) 1 1
     \<noteq> copy_scatter_float32 ex_shared_probs ex_copy_gate ex_shared_weight
         ex_shared_copy_seq 1 1"
proof -
  have two: "{..<2::nat} = {0, 1}"
    by auto
  have swap: "bij_betw ex_swap {..<2} {..<2}"
    unfolding two by (auto simp: bij_betw_def ex_swap_def)
  have a: "at3 (projr (copy_scatter_float32 ex_shared_probs ex_copy_gate ex_shared_weight
                   ex_shared_copy_seq 1 1)) 0 0 0 = 3 / 4"
    unfolding ex_shared_float32
    by (simp add: scatter_row_float32_def ex_shared_probs_def float32_sums)
  have b: "at3 (projr (copy_scatter_float32 ex_shared_probs ex_copy_gate
                   (permute_last ex_swap ex_shared_weight)
                   (permute_rows ex_swap ex_shared_copy_seq) 1 1)) 0 0 0 = 3 / 4 + 1 / 2 ^ 24"
    unfolding ex_shared_float32_swapped
    by (simp add: scatter_row_float32_def ex_shared_probs_def float32_sums)
  have "(3 / 4 :: real) \<noteq> 3 / 4 + 1 / 2 ^ 24"
    by simp
  with a b have c: "copy_scatter_float32 ex_shared_probs ex_copy_gate
       (permute_last ex_swap ex_shared_weight) (permute_rows ex_swap ex_shared_copy_seq) 1 1
     \<noteq> copy_scatter_float32 ex_shared_probs ex_copy_gate ex_shared_weight
         ex_shared_copy_seq 1 1"
    by metis
  have d: "\<not> isl (copy_scatter_float32 ex_shared_probs ex_copy_gate ex_shared_weight
              ex_shared_copy_seq 1 1)"
    unfolding ex_shared_float32 by simp
  have e: "\<not> isl (copy_scatter_float32 ex_shared_probs ex_copy_gate
              (permute_last ex_swap ex_shared_weight)
              (permute_rows ex_swap ex_shared_copy_seq) 1 1)"
    unfolding ex_shared_float32_swapped by simp
  show ?thesis
    using swap ex_shared_is_float32 a b c d e by (intro conjI)
qed

theorem copy_scatter_accumulates_witness:
  "copy_scatter ex_shared_probs ex_copy_gate (permute_last ex_swap ex_shared_weight)
     (permute_rows ex_swap ex_shared_copy_seq) 1 1
   = copy_scatter ex_shared_probs ex_copy_gate ex_shared_weight ex_shared_copy_seq 1 1
   \<and> at3 (projr (copy_scatter ex_shared_probs ex_copy_gate ex_shared_weight
                   ex_shared_copy_seq 1 1)) 0 0 0
     = 1 / 4 + 1 / 2 ^ 25 + (1 / 2 * (1 / 2 ^ 23) + 1 / 2 * (1 - 1 / 2 ^ 23))
   \<and> at3 (projr (copy_scatter_float32 ex_shared_probs ex_copy_gate ex_shared_weight
                   ex_shared_copy_seq 1 1)) 0 0 0
     = float32_add (round_float32 (1 / 2 * (1 - 1 / 2 ^ 23)))
         (float32_add (round_float32 (1 / 2 * (1 / 2 ^ 23))) (1 / 4 + 1 / 2 ^ 25))
   \<and> copy_scatter_float32 ex_gen_probs ex_copy_gate (permute_last ex_swap ex_alignment_weight)
       (permute_rows ex_swap ex_copy_seq) 1 1
     = copy_scatter_float32 ex_gen_probs ex_copy_gate ex_alignment_weight ex_copy_seq 1 1"
proof -
  have two: "{..<2::nat} = {0, 1}"
    by auto
  have swap: "bij_betw ex_swap {..<2} {..<2}"
    unfolding two by (auto simp: bij_betw_def ex_swap_def)
  have g: "dim0 ex_copy_gate = 1" "dim1 ex_copy_gate = 1" "dim2 ex_copy_gate = 1"
    by (simp_all add: ex_copy_gate_def)
  have w: "dim0 ex_shared_weight = 1" "dim1 ex_shared_weight = 1" "dim2 ex_shared_weight = 2"
    by (simp_all add: ex_shared_weight_def)
  have c: "rows ex_shared_copy_seq = 2" "cols ex_shared_copy_seq = 1"
    by (simp_all add: ex_shared_copy_seq_def)
  have ok: "0 < (1::nat) \<and> 0 < (1::nat) \<and> 1 \<le> dim0 ex_shared_probs \<and> 1 \<le> dim1 ex_shared_probs
        \<and> ids_in_range ex_shared_copy_seq (dim2 ex_shared_probs)"
    by (simp add: ex_shared_probs_def ex_shared_copy_seq_def ids_in_range_def)
  note shared = copy_scatter_accumulates [OF swap g w c, of ex_shared_probs]
  note run = shared [THEN conjunct2, THEN mp, OF ok]
  from run [THEN conjunct1] obtain out where out:
    "copy_scatter ex_shared_probs ex_copy_gate ex_shared_weight ex_shared_copy_seq 1 1 = Inr out"
    "\<forall>i<1. \<forall>j<1. \<forall>v. at3 out i j v
       = at3 ex_shared_probs i j v
         + (\<Sum>k<2. if nat (at2 ex_shared_copy_seq k j) = v
                   then at3 ex_copy_gate i j 0 * at3 ex_shared_weight j i k else 0)"
    by (elim exE conjE)
  from run [THEN conjunct2, THEN conjunct1] obtain out32 where out32:
    "copy_scatter_float32 ex_shared_probs ex_copy_gate ex_shared_weight ex_shared_copy_seq 1 1
       = Inr out32"
    "\<forall>i<1. \<forall>j<1. \<forall>v. at3 out32 i j v
       = fold float32_add
           (map (\<lambda>k. round_float32 (at3 ex_copy_gate i j 0 * at3 ex_shared_weight j i k))
              (filter (\<lambda>k. nat (at2 ex_shared_copy_seq k j) = v) [0..<2]))
           (at3 ex_shared_probs i j v)"
    by (elim exE conjE)
  have a: "at3 out 0 0 0 = 1 / 4 + 1 / 2 ^ 25 + (1 / 2 * (1 / 2 ^ 23) + 1 / 2 * (1 - 1 / 2 ^ 23))"
    using out(2) [THEN spec, of 0, THEN mp, OF zero_less_one, THEN spec, of 0, THEN mp,
        OF zero_less_one, THEN spec, of 0]
    by (simp add: two ex_shared_probs_def ex_shared_copy_seq_def ex_copy_gate_def
        ex_shared_weight_def)
  have b: "at3 out32 0 0 0
     = float32_add (round_float32 (1 / 2 * (1 - 1 / 2 ^ 23)))
         (float32_add (round_float32 (1 / 2 * (1 / 2 ^ 23))) (1 / 4 + 1 / 2 ^ 25))"
    unfolding out32(2) [THEN spec, of 0, THEN mp, OF zero_less_one, THEN spec, of 0, THEN mp,
        OF zero_less_one, THEN spec, of 0]
    by (simp add: upt_two ex_shared_probs_def ex_shared_copy_seq_def ex_copy_gate_def
        ex_shared_weight_def)
  have w': "dim0 ex_alignment_weight = 1" "dim1 ex_alignment_weight = 1"
    "dim2 ex_alignment_weight = 2"
    by (simp_all add: ex_alignment_weight_def)
  have c': "rows ex_copy_seq = 2" "cols ex_copy_seq = 1"
    by (simp_all add: ex_copy_seq_def)
  have ok': "0 < (1::nat) \<and> 0 < (1::nat) \<and> 1 \<le> dim0 ex_gen_probs \<and> 1 \<le> dim1 ex_gen_probs
        \<and> ids_in_range ex_copy_seq (dim2 ex_gen_probs)"
    by (auto simp: ex_gen_probs_def ex_copy_seq_def ids_in_range_def)
  have inj: "\<forall>j<1. inj_on (\<lambda>k. at2 ex_copy_seq k j) {..<2}"
    by (simp add: ex_copy_seq_def inj_on_def)
  note distinct = copy_scatter_accumulates [OF swap g w' c', of ex_gen_probs]
  note d = distinct [THEN conjunct2, THEN mp, OF ok', THEN conjunct2, THEN conjunct2, THEN mp,
      OF inj]
  show ?thesis
    using shared [THEN conjunct1] a b d unfolding out(1) out32(1) by simp
qed

subsection \<open>The decoder with an adaptive softmax\<close>

lemma ex_adaptive_ok:
  "\<not> isl (forward ex_adaptive_decoder (ex_args (ex_encoder_output 1 None)))"
  by (simp add: ex_adaptive_decoder_def forward_def select_strategy_def run_strategy_def
      no_ensemble_branch_def no_ensemble_probs_def op_defs ex_defs list_all_iff)

lemma ex_adaptive_value:
  "dim2 (fst (projr (forward ex_adaptive_decoder (ex_args (ex_encoder_output 1 None))))) = 1"
  "at3 (fst (projr (forward ex_adaptive_decoder (ex_args (ex_encoder_output 1 None))))) 0 0 0
   = ln (1 + 1 / 10 ^ 12)"
  by (simp_all add: ex_adaptive_decoder_def forward_def select_strategy_def run_strategy_def
      no_ensemble_branch_def no_ensemble_probs_def op_defs ex_defs log_floor_def
      scatter_row_def flat3_def list_all_iff)

lemma ex_projected_value:
  "\<not> isl (forward (ex_decoder False 1 False None 1) (ex_args (ex_encoder_output 1 None)))"
  "dim2 (fst (projr (forward (ex_decoder False 1 False None 1)
                       (ex_args (ex_encoder_output 1 None))))) = 2"
  by (simp_all add: forward_def select_strategy_def run_strategy_def
      no_ensemble_branch_def no_ensemble_probs_def op_defs ex_defs log_floor_def
      scatter_row_def flat3_def list_all_iff)

lemma ex_adaptive_any_projection:
  "forward (ex_adaptive_decoder\<lparr>output_projection := ex_zeros 5\<rparr>)
     (ex_args (ex_encoder_output 1 None))
   = forward ex_adaptive_decoder (ex_args (ex_encoder_output 1 None))"
  by (simp add: ex_adaptive_decoder_def forward_def select_strategy_def run_strategy_def
      no_ensemble_branch_def no_ensemble_probs_def exemplar_probs_def generate_probs_def
      gen_copy_gates_def gates_def feed_forward_def attend_def output_layer_def ex_decoder_def)

text \<open>
  The vocabulary projection does not always run. With an adaptive softmax configured,
  \<open>output_layer\<close> returns the features: the small decoder, whose projection has width 2
  and whose features have width 1, returns a tensor of width 1 that holds \<open>log(1 + 1e-12)\<close>
  and is the same for any other projection; without the adaptive softmax its output has
  the width of the projection.
\<close>

theorem projection_skipped_with_adaptive_softmax:
  "adaptive_softmax ex_adaptive_decoder
   \<and> \<not> isl (forward ex_adaptive_decoder (ex_args (ex_encoder_output 1 None)))
   \<and> dim2 (fst (projr (forward ex_adaptive_decoder (ex_args (ex_encoder_output 1 None))))) = 1
   \<and> at3 (fst (projr (forward ex_adaptive_decoder (ex_args (ex_encoder_output 1 None))))) 0 0 0
     = ln (1 + 1 / 10 ^ 12)
   \<and> dim2 (output_projection ex_adaptive_decoder ex_features) = 2
   \<and> output_layer ex_adaptive_decoder ex_features = ex_features
   \<and> forward (ex_adaptive_decoder\<lparr>output_projection := ex_zeros 5\<rparr>)
       (ex_args (ex_encoder_output 1 None))
     = forward ex_adaptive_decoder (ex_args (ex_encoder_output 1 None))
   \<and> \<not> isl (forward (ex_decoder False 1 False None 1) (ex_args (ex_encoder_output 1 None)))
   \<and> dim2 (fst (projr (forward (ex_decoder False 1 False None 1)
                         (ex_args (ex_encoder_output 1 None))))) = 2"
proof -
  have "adaptive_softmax ex_adaptive_decoder"
    by (simp add: ex_adaptive_decoder_def)
  moreover have "dim2 (output_projection ex_adaptive_decoder ex_features) = 2"
    by (simp add: ex_adaptive_decoder_def ex_decoder_def ex_zeros_def)
  moreover have "output_layer ex_adaptive_decoder ex_features = ex_features"
    by (simp add: output_layer_def ex_adaptive_decoder_def)
  ultimately show ?thesis
    using ex_adaptive_ok ex_adaptive_value ex_adaptive_any_projection ex_projected_value
    by (intro conjI)
qed

theorem forward_returns_log_probabilities_witness:
  "forward (ex_decoder False 2 False None 1)
     ((ex_args (ex_encoder_output 2 None))\<lparr>features_only := True\<rparr>)
   = forward (ex_decoder False 2 False None 1) (ex_args (ex_encoder_output 2 None))
   \<and> forward (ex_decoder False 2 False None 1) (ex_args (ex_encoder_output 2 None))
     = res_bind (no_ensemble_probs (ex_decoder False 2 False None 1) (transpose01 ex_features)
                   (ex_encoder_output 2 None))
         (\<lambda>probs. Inr (log_floor (transpose01 probs), ex_extra))
   \<and> at3 (fst (projr (forward (ex_decoder False 2 False None 1)
                         ((ex_args (ex_encoder_output 2 None))\<lparr>features_only := True\<rparr>))))
       0 0 0
     = ln (3 / 4 + 1 / 10 ^ 12)"
proof -
  note t = forward_returns_log_probabilities [where dec = "ex_decoder False 2 False None 1"
      and a = "ex_args (ex_encoder_output 2 None)" and fo = True]
  have a: "forward (ex_decoder False 2 False None 1)
     ((ex_args (ex_encoder_output 2 None))\<lparr>features_only := True\<rparr>)
   = forward (ex_decoder False 2 False None 1) (ex_args (ex_encoder_output 2 None))"
    by (rule t [THEN conjunct1])
  have b: "forward (ex_decoder False 2 False None 1) (ex_args (ex_encoder_output 2 None))
     = res_bind (no_ensemble_probs (ex_decoder False 2 False None 1) (transpose01 ex_features)
                   (ex_encoder_output 2 None))
         (\<lambda>probs. Inr (log_floor (transpose01 probs), ex_extra))"
    using t [THEN conjunct2, THEN conjunct1]
    by (simp add: ex_decoder_def ex_args_def select_strategy_def res_bind_assoc)
  show ?thesis
    unfolding a using b ex_no_ensemble_value by (intro conjI) simp_all
qed

subsection \<open>Splitting the memory into exemplars\<close>

lemma chunk_count_positive:
  assumes "0 < len" and "0 < n"
  shows "0 < chunk_size len n" and "0 < chunk_count len n"
proof -
  have "n \<le> len + n - 1"
    using assms by simp
  then show s: "0 < chunk_size len n"
    unfolding chunk_size_def using assms(2) by (simp add: div_greater_zero_iff)
  then have "chunk_size len n \<le> len + chunk_size len n - 1"
    using assms(1) by simp
  then show "0 < chunk_count len n"
    unfolding chunk_count_def using s by (simp add: div_greater_zero_iff)
qed

lemma chunk_bounds_length:
  assumes "chunk_bounds len c = Inr bs" and "0 < len"
  shows "length bs = chunk_count len (nat c)"
proof -
  have c: "0 < c"
    using assms(1) by (cases "c \<le> 0") (simp_all add: chunk_bounds_def)
  have s: "(len + nat c - 1) div nat c \<noteq> 0"
    using chunk_count_positive(1) [of len "nat c"] assms(2) c by (simp add: chunk_size_def)
  have q: "0 < chunk_count len (nat c)"
    using chunk_count_positive(2) [of len "nat c"] assms(2) c by simp
  have "length bs = max (chunk_count len (nat c)) 1"
    using assms(1) c s
    by (simp add: chunk_bounds_def Let_def chunk_size_def chunk_count_def) auto
  then show ?thesis
    using q by simp
qed


lemma exemplar_pass_missing:
  assumes "length (fst chunks) \<le> i"
  shows "isl (exemplar_pass dec x chunks i)"
  using assms by (cases chunks) (simp add: exemplar_pass_def nth_res_def)

lemma attend_all_missing:
  assumes "length (fst chunks) < nat (TM_num dec)"
  shows "isl (attend_all dec x chunks)" "isl (linear_attend_all dec x chunks)"
proof -
  obtain mems masks seqs where c: "chunks = (mems, masks, seqs)"
    by (cases chunks) auto
  have k: "length mems \<in> set (tm_range dec)"
    using assms by (simp add: tm_range_def c)
  show "isl (attend_all dec x chunks)"
    unfolding attend_all_def c prod.case
    by (rule map_res_isl [OF k]) (simp add: nth_res_def)
  show "isl (linear_attend_all dec x chunks)"
    unfolding linear_attend_all_def c prod.case
    by (rule map_res_isl [OF k]) (simp add: nth_res_def)
qed

lemma learned_weights_missing:
  assumes "length (fst chunks) < nat (TM_num dec)"
  shows "isl (learned_weights s dec x chunks)"
proof (cases "s = PairwiseLinear")
  case True
  then show ?thesis
    by (simp add: learned_weights_def res_bind_isl attend_all_missing(2) [OF assms])
next
  case False
  then show ?thesis
    by (simp add: learned_weights_def res_bind_isl attend_all_missing(1) [OF assms])
qed


lemma run_strategy_missing_chunk:
  assumes ch: "tm_chunks dec enc = Inr chunks"
    and k: "length (fst chunks) < nat (TM_num dec)"
    and s: "s \<noteq> NoEnsemble"
  shows "isl (run_strategy s dec x enc)"
proof -
  have kk: "length (fst chunks) \<in> set (tm_range dec)"
    using k by (simp add: tm_range_def)
  have ep: "isl (exemplar_pass dec x chunks (length (fst chunks)))"
    by (rule exemplar_pass_missing) simp
  have loop: "isl (map_res (exemplar_pass dec x chunks) (tm_range dec))"
    using kk ep by (rule map_res_isl)
  have mean: "isl (mean_branch dec x enc)"
    unfolding mean_branch_def tm_probs_def ch res_bind_Inr
    using loop by (rule res_bind_isl)
  have "isl (map_res (\<lambda>cur_idx.
                 res_bind (exemplar_pass dec x chunks cur_idx) (\<lambda>probs.
                 res_bind (select_col sim cur_idx) (\<lambda>cur_TMs_similarity.
                   mul3 (transpose01 probs) cur_TMs_similarity)))
               (tm_range dec))" for sim
    using kk by (rule map_res_isl) (rule res_bind_isl [OF ep])
  then have sim: "isl (similarity_branch dec x enc sim)" for sim
    unfolding similarity_branch_def ch res_bind_Inr by (rule res_bind_isl)
  have learned: "isl (learned_branch s' dec x enc)" for s'
    unfolding learned_branch_def ch res_bind_Inr
    using learned_weights_missing [OF k] by (rule res_bind_isl)
  show ?thesis
    using s mean sim learned by (cases s) (simp_all add: run_strategy_def)
qed

lemma tm_chunks_count:
  assumes "tm_chunks dec enc = Inr chunks" and "0 < dim0 (memory_encoder_out enc)"
  shows "length (fst chunks) = chunk_count (dim0 (memory_encoder_out enc)) (nat (TM_num dec))"
proof -
  from assms(1) obtain ms where ms: "chunk_dim0 (memory_encoder_out enc) (TM_num dec) = Inr ms"
    and f: "fst chunks = ms"
    unfolding tm_chunks_def res_bind_eq_Inr by force
  from ms obtain bs where bs: "chunk_bounds (dim0 (memory_encoder_out enc)) (TM_num dec) = Inr bs"
    and m: "ms = map (narrow0 (memory_encoder_out enc)) bs"
    unfolding chunk_dim0_def res_bind_eq_Inr by force
  show ?thesis
    using chunk_bounds_length [OF bs assms(2)] f m by simp
qed

lemma run_strategy_too_few_chunks:
  assumes s: "s \<noteq> NoEnsemble"
    and len: "0 < dim0 (memory_encoder_out enc)"
    and few: "chunk_count (dim0 (memory_encoder_out enc)) (nat (TM_num dec)) < nat (TM_num dec)"
  shows "isl (run_strategy s dec x enc)"
proof (cases "tm_chunks dec enc")
  case (Inl e)
  have "isl (mean_branch dec x enc)" "isl (similarity_branch dec x enc sim)"
    "isl (learned_branch s' dec x enc)" for sim s'
    by (simp_all add: mean_branch_def tm_probs_def similarity_branch_def learned_branch_def Inl)
  then show ?thesis
    using s by (cases s) (simp_all add: run_strategy_def)
next
  case (Inr chunks)
  have "length (fst chunks) < nat (TM_num dec)"
    using tm_chunks_count [OF Inr len] few by simp
  then show ?thesis
    using Inr s by (intro run_strategy_missing_chunk)
qed

lemma forward_too_few_chunks:
  assumes ens: "with_TM_ensemble dec"
    and enc: "encoder_out a = Some enc"
    and len: "0 < dim0 (memory_encoder_out enc)"
    and few: "chunk_count (dim0 (memory_encoder_out enc)) (nat (TM_num dec)) < nat (TM_num dec)"
  shows "isl (forward dec a)"
proof (cases "extract_features dec (prev_output_tokens a) (encoder_out a) (incremental_state a)
                 (full_context_alignment a) (alignment_layer_arg a) (alignment_heads a)")
  case (Inl e)
  then show ?thesis
    by (simp add: forward_def)
next
  case (Inr r)
  obtain x ex where r: "r = (x, ex)"
    by (cases r) auto
  have s: "select_strategy dec enc \<noteq> NoEnsemble"
    using ens by (simp add: select_strategy_def)
  have "isl (run_strategy (select_strategy dec enc) dec (transpose01 x) enc)"
    using s len few by (rule run_strategy_too_few_chunks)
  then have "isl (res_bind (run_strategy (select_strategy dec enc) dec (transpose01 x) enc)
                   (\<lambda>lprobs. Inr (lprobs, ex)))"
    by (rule res_bind_isl)
  moreover have "extract_features dec (prev_output_tokens a) (Some enc) (incremental_state a)
      (full_context_alignment a) (alignment_layer_arg a) (alignment_heads a) = Inr (x, ex)"
    using Inr r enc by simp
  ultimately show ?thesis
    by (simp add: forward_def enc)
qed


lemma chunk_count_bounds:
  assumes "0 < len" and "0 < n"
  shows "(chunk_count len n - 1) * chunk_size len n < len"
    and "len \<le> chunk_count len n * chunk_size len n"
proof -
  define sz where "sz = chunk_size len n"
  define q where "q = chunk_count len n"
  have sz: "0 < sz"
    using chunk_count_positive(1) [OF assms] by (simp add: sz_def)
  have q: "0 < q"
    using chunk_count_positive(2) [OF assms] by (simp add: q_def)
  have qd: "q = (len + sz - 1) div sz"
    by (simp add: q_def sz_def chunk_count_def)
  have "q * sz \<le> len + sz - 1"
    unfolding qd by simp
  then have "(q - 1) * sz + sz \<le> len + sz - 1"
    using q by (simp add: algebra_simps diff_mult_distrib)
  then show "(chunk_count len n - 1) * chunk_size len n < len"
    using sz assms(1) unfolding q_def [symmetric] sz_def [symmetric] by linarith
  have "len + sz - 1 < sz + sz * q"
    unfolding qd using sz by (rule dividend_less_times_div)
  then show "len \<le> chunk_count len n * chunk_size len n"
    unfolding q_def [symmetric] sz_def [symmetric] by (simp add: mult.commute)
qed

lemma chunk_bounds_positive:
  assumes "0 < len" and "0 < c"
  shows "chunk_bounds len c =
    Inr (map (\<lambda>i. (i * chunk_size len (nat c),
                    if i < chunk_count len (nat c) - 1 then chunk_size len (nat c)
                    else len - (chunk_count len (nat c) - 1) * chunk_size len (nat c)))
           [0..<chunk_count len (nat c)])"
proof -
  define sz where "sz = chunk_size len (nat c)"
  define q where "q = chunk_count len (nat c)"
  have n: "0 < nat c"
    using assms(2) by simp
  have sz: "0 < sz"
    using chunk_count_positive(1) [OF assms(1) n] by (simp add: sz_def)
  have q: "0 < q"
    using chunk_count_positive(2) [OF assms(1) n] by (simp add: q_def)
  have lo: "(q - 1) * sz < len" and hi: "len \<le> q * sz"
    using chunk_count_bounds [OF assms(1) n] by (simp_all add: q_def sz_def)
  have "q * sz = (q - 1) * sz + sz"
    using q by (simp add: diff_mult_distrib)
  then have last: "sz - (sz * q - len) = len - (q - 1) * sz"
    using lo hi by (simp add: mult.commute)
  have m: "max q 1 = q"
    using q by simp
  have raw_sz: "(len + nat c - 1) div nat c = sz"
    by (simp add: sz_def chunk_size_def)
  have raw_q: "(len + sz - 1) div sz = q"
    by (simp add: q_def chunk_count_def sz_def)
  have "chunk_bounds len c =
    Inr (map (\<lambda>i. (i * sz, if i < q - 1 then sz else sz - (sz * q - len))) [0..<q])"
    unfolding chunk_bounds_def Let_def raw_sz raw_q m
    using assms(2) sz by simp
  then have "chunk_bounds len c =
    Inr (map (\<lambda>i. (i * sz, if i < q - 1 then sz else len - (q - 1) * sz)) [0..<q])"
    by (simp only: last)
  then show ?thesis
    unfolding sz_def q_def .
qed

lemma chunk_count_dvd:
  assumes "0 < len" and "0 < n" and "n dvd len"
  shows "chunk_size len n = len div n" and "chunk_count len n = n"
proof -
  from assms(3) obtain k where k: "len = n * k"
    by (auto simp: dvd_def)
  have kp: "0 < k"
    using assms(1) k by (cases k) simp_all
  have "(n * k + n - 1) div n = k"
    using assms(2) by (intro div_nat_eqI) simp_all
  then show sz: "chunk_size len n = len div n"
    using assms(2) by (simp add: chunk_size_def k)
  have "(n * k + k - 1) div k = n"
    using kp by (intro div_nat_eqI) (simp_all add: mult.commute)
  then show "chunk_count len n = n"
    using sz assms(2) by (simp add: chunk_count_def k)
qed


lemma chunk_bounds_succeeds: "0 < c \<Longrightarrow> \<not> isl (chunk_bounds n c)"
  by (simp add: chunk_bounds_def Let_def)

lemma tm_chunks_lengths:
  assumes len: "0 < dim0 (memory_encoder_out enc)" and n: "0 < TM_num dec"
  shows "\<exists>chunks. tm_chunks dec enc = Inr chunks
     \<and> map dim0 (fst chunks)
       = map (\<lambda>i. if i < chunk_count (dim0 (memory_encoder_out enc)) (nat (TM_num dec)) - 1
                  then chunk_size (dim0 (memory_encoder_out enc)) (nat (TM_num dec))
                  else dim0 (memory_encoder_out enc)
                       - (chunk_count (dim0 (memory_encoder_out enc)) (nat (TM_num dec)) - 1)
                         * chunk_size (dim0 (memory_encoder_out enc)) (nat (TM_num dec)))
           [0..<chunk_count (dim0 (memory_encoder_out enc)) (nat (TM_num dec))]"
proof -
  obtain b1 where b1: "chunk_bounds (cols (memory_encoder_padding_mask enc)) (TM_num dec) = Inr b1"
    using chunk_bounds_succeeds [OF n, of "cols (memory_encoder_padding_mask enc)"]
    by (cases "chunk_bounds (cols (memory_encoder_padding_mask enc)) (TM_num dec)") simp_all
  obtain b2 where b2: "chunk_bounds (rows (TMs enc)) (TM_num dec) = Inr b2"
    using chunk_bounds_succeeds [OF n, of "rows (TMs enc)"]
    by (cases "chunk_bounds (rows (TMs enc)) (TM_num dec)") simp_all
  show ?thesis
    by (simp add: tm_chunks_def chunk_dim0_def chunk2_cols_def chunk2_rows_def b1 b2
        chunk_bounds_positive [OF len n] narrow0_def comp_def)
qed

text \<open>
  C6. \<open>forward\<close> has no test of divisibility. With \<open>with_TM_ensemble = true\<close>,
  \<open>TM_num\<close> positive and a memory of \<open>L > 0\<close> positions, the split succeeds: the memory is
  cut into \<open>chunk_count L TM_num\<close> segments of \<open>chunk_size L TM_num\<close> positions, the last
  one holding what is left. When fewer than \<open>TM_num\<close> segments result, \<open>forward\<close> fails,
  at the latest when the missing segment is looked up. When \<open>TM_num\<close> divides \<open>L\<close> there
  are \<open>TM_num\<close> segments of \<open>L / TM_num\<close> positions.
\<close>

theorem chunking_checks_no_divisibility:
  assumes ens: "with_TM_ensemble dec"
    and enc: "encoder_out a = Some enc"
    and len: "0 < dim0 (memory_encoder_out enc)"
    and n: "0 < TM_num dec"
  shows "(\<exists>chunks. tm_chunks dec enc = Inr chunks
     \<and> map dim0 (fst chunks)
       = map (\<lambda>i. if i < chunk_count (dim0 (memory_encoder_out enc)) (nat (TM_num dec)) - 1
                  then chunk_size (dim0 (memory_encoder_out enc)) (nat (TM_num dec))
                  else dim0 (memory_encoder_out enc)
                       - (chunk_count (dim0 (memory_encoder_out enc)) (nat (TM_num dec)) - 1)
                         * chunk_size (dim0 (memory_encoder_out enc)) (nat (TM_num dec)))
           [0..<chunk_count (dim0 (memory_encoder_out enc)) (nat (TM_num dec))])
   \<and> (chunk_count (dim0 (memory_encoder_out enc)) (nat (TM_num dec)) < nat (TM_num dec)
        \<longrightarrow> isl (forward dec a))
   \<and> (nat (TM_num dec) dvd dim0 (memory_encoder_out enc)
        \<longrightarrow> chunk_count (dim0 (memory_encoder_out enc)) (nat (TM_num dec)) = nat (TM_num dec)
          \<and> chunk_size (dim0 (memory_encoder_out enc)) (nat (TM_num dec))
            = dim0 (memory_encoder_out enc) div nat (TM_num dec))"
proof (intro conjI impI)
  show "\<exists>chunks. tm_chunks dec enc = Inr chunks
     \<and> map dim0 (fst chunks)
       = map (\<lambda>i. if i < chunk_count (dim0 (memory_encoder_out enc)) (nat (TM_num dec)) - 1
                  then chunk_size (dim0 (memory_encoder_out enc)) (nat (TM_num dec))
                  else dim0 (memory_encoder_out enc)
                       - (chunk_count (dim0 (memory_encoder_out enc)) (nat (TM_num dec)) - 1)
                         * chunk_size (dim0 (memory_encoder_out enc)) (nat (TM_num dec)))
           [0..<chunk_count (dim0 (memory_encoder_out enc)) (nat (TM_num dec))]"
    using len n by (rule tm_chunks_lengths)
next
  assume "chunk_count (dim0 (memory_encoder_out enc)) (nat (TM_num dec)) < nat (TM_num dec)"
  with ens enc len show "isl (forward dec a)"
    by (rule forward_too_few_chunks)
next
  assume d: "nat (TM_num dec) dvd dim0 (memory_encoder_out enc)"
  have p: "0 < nat (TM_num dec)"
    using n by simp
  show "chunk_count (dim0 (memory_encoder_out enc)) (nat (TM_num dec)) = nat (TM_num dec)"
    using len p d by (rule chunk_count_dvd(2))
  show "chunk_size (dim0 (memory_encoder_out enc)) (nat (TM_num dec))
            = dim0 (memory_encoder_out enc) div nat (TM_num dec)"
    using len p d by (rule chunk_count_dvd(1))
qed

lemma chunk_bounds_three: "chunk_bounds 3 2 = Inr [(0, 2), (2, 1)]"
  by code_simp

lemma ex_unequal_chunks:
  "map dim0 (fst (projr (tm_chunks (ex_decoder True 2 False None 1) (ex_encoder_output 3 None))))
   = [2, 1]"
  by (simp add: tm_chunks_def chunk_dim0_def chunk2_cols_def chunk2_rows_def chunk_bounds_three
      ex_decoder_def ex_encoder_output_def narrow0_def)

lemma ex_unequal_ok:
  "\<not> isl (forward (ex_decoder True 2 False None 1) (ex_args (ex_encoder_output 3 None)))"
  by (simp add: forward_def select_strategy_def run_strategy_def mean_branch_def
      tm_probs_def tm_chunks_def chunk_dim0_def chunk2_cols_def chunk2_rows_def
      chunk_bounds_three tm_range_def upt_two exemplar_pass_def nth_res_def narrow0_def
      narrow2_cols_def narrow2_rows_def op_defs ex_defs list_all_iff stack_mean_def
      stackable_def same_shape_def)

text \<open>
  A memory of 3 positions that is not divisible by \<open>TM_num = 2\<close>: \<open>forward\<close> does not
  fail, it runs on segments of 2 and 1 positions.
\<close>

theorem unequal_segments_are_processed:
  "with_TM_ensemble (ex_decoder True 2 False None 1)
   \<and> TM_num (ex_decoder True 2 False None 1) = 2
   \<and> dim0 (memory_encoder_out (ex_encoder_output 3 None)) = 3
   \<and> \<not> (2::nat) dvd 3
   \<and> \<not> isl (forward (ex_decoder True 2 False None 1) (ex_args (ex_encoder_output 3 None)))
   \<and> map dim0 (fst (projr (tm_chunks (ex_decoder True 2 False None 1)
                              (ex_encoder_output 3 None)))) = [2, 1]"
  using ex_unequal_ok ex_unequal_chunks
  by (simp add: ex_decoder_def ex_encoder_output_def)

lemma upt_three: "[0..<3] = [0, Suc 0, Suc (Suc 0)]"
  by (simp add: numeral_3_eq_3)

theorem chunking_checks_no_divisibility_witness:
  "isl (forward (ex_decoder True 4 False None 1) (ex_args (ex_encoder_output 5 None)))
   \<and> map dim0 (fst (projr (tm_chunks (ex_decoder True 4 False None 1)
                              (ex_encoder_output 5 None)))) = [2, 2, 1]
   \<and> chunk_count (dim0 (memory_encoder_out (ex_encoder_output 4 None)))
       (nat (TM_num (ex_decoder True 2 False None 1))) = 2
   \<and> chunk_size (dim0 (memory_encoder_out (ex_encoder_output 4 None)))
       (nat (TM_num (ex_decoder True 2 False None 1))) = 2"
proof -
  have ens: "with_TM_ensemble (ex_decoder True n False None 1)" for n
    by (simp add: ex_decoder_def)
  have enc: "encoder_out (ex_args e) = Some e" for e
    by (simp add: ex_args_def)
  have len: "0 < dim0 (memory_encoder_out (ex_encoder_output 5 None))"
    "0 < dim0 (memory_encoder_out (ex_encoder_output 4 None))"
    by (simp_all add: ex_encoder_output_def)
  have n: "0 < TM_num (ex_decoder True 4 False None 1)"
    "0 < TM_num (ex_decoder True 2 False None 1)"
    by (simp_all add: ex_decoder_def)
  note five = chunking_checks_no_divisibility [OF ens enc len(1) n(1)]
  note four = chunking_checks_no_divisibility [OF ens enc len(2) n(2)]
  have L: "dim0 (memory_encoder_out (ex_encoder_output 5 None)) = 5"
    "nat (TM_num (ex_decoder True 4 False None 1)) = 4"
    by (simp_all add: ex_encoder_output_def ex_decoder_def)
  have c: "chunk_size 5 4 = 2" "chunk_count 5 4 = 3"
    by (simp_all add: chunk_size_def chunk_count_def)
  have a: "isl (forward (ex_decoder True 4 False None 1) (ex_args (ex_encoder_output 5 None)))"
    using five [THEN conjunct2, THEN conjunct1] unfolding L c by simp
  from five [THEN conjunct1] obtain chunks where
    ch: "tm_chunks (ex_decoder True 4 False None 1) (ex_encoder_output 5 None) = Inr chunks"
    and d: "map dim0 (fst chunks) = [2, 2, 1]"
    unfolding L c upt_three by auto
  have b: "map dim0 (fst (projr (tm_chunks (ex_decoder True 4 False None 1)
                              (ex_encoder_output 5 None)))) = [2, 2, 1]"
    unfolding ch using d by simp
  have dv: "nat (TM_num (ex_decoder True 2 False None 1))
      dvd dim0 (memory_encoder_out (ex_encoder_output 4 None))"
    by (simp add: ex_encoder_output_def ex_decoder_def)
  note e = four [THEN conjunct2, THEN conjunct2, THEN mp, OF dv]
  have f: "nat (TM_num (ex_decoder True 2 False None 1)) = 2"
    "dim0 (memory_encoder_out (ex_encoder_output 4 None)) div
       nat (TM_num (ex_decoder True 2 False None 1)) = 2"
    by (simp_all add: ex_encoder_output_def ex_decoder_def)
  have g: "chunk_count (dim0 (memory_encoder_out (ex_encoder_output 4 None)))
       (nat (TM_num (ex_decoder True 2 False None 1))) = 2"
    using e [THEN conjunct1] f(1) by simp
  have h: "chunk_size (dim0 (memory_encoder_out (ex_encoder_output 4 None)))
       (nat (TM_num (ex_decoder True 2 False None 1))) = 2"
    using e [THEN conjunct2] f(2) by simp
  show ?thesis
    using a b g h by (intro conjI)
qed

subsection \<open>Padding in the attention over the memory\<close>

lemma masked_softmax_padding:
  "at2 key_padding_mask b s \<Longrightarrow> at3 (masked_softmax scores key_padding_mask) b t s = 0"
  by (simp add: masked_softmax_def)

lemma masked_softmax_sum:
  assumes "s < dim2 scores" and "\<not> at2 key_padding_mask b s"
  shows "(\<Sum>s'<dim2 scores. at3 (masked_softmax scores key_padding_mask) b t s') = 1"
proof -
  define e where "e s' = (if at2 key_padding_mask b s' then 0 else exp (at3 scores b t s'))" for s'
  have nonneg: "0 \<le> e s'" for s'
    by (simp add: e_def)
  have "0 < e s"
    using assms(2) by (simp add: e_def)
  also have "e s \<le> (\<Sum>s'<dim2 scores. e s')"
    using assms(1) nonneg by (intro member_le_sum) simp_all
  finally have pos: "0 < (\<Sum>s'<dim2 scores. e s')" .
  have "(\<Sum>s'<dim2 scores. at3 (masked_softmax scores key_padding_mask) b t s')
      = (\<Sum>s'<dim2 scores. e s' / (\<Sum>s'<dim2 scores. e s'))"
    by (simp add: masked_softmax_def e_def)
  also have "\<dots> = (\<Sum>s'<dim2 scores. e s') / (\<Sum>s'<dim2 scores. e s')"
    by (simp add: sum_divide_distrib [symmetric])
  also have "\<dots> = 1"
    using pos by simp
  finally show ?thesis .
qed

text \<open>
  C8. With the Attention-over-Memory unit of the spec as alignment attention, every call
  that \<open>forward\<close> makes of it (\<open>attend\<close>, in every branch, with the padding mask of the
  whole memory or with an exemplar's chunk of it) gives weight exactly 0 to a memory
  position that the mask marks as padding, whatever the raw scores are; a position that
  is not padding has positive weight, and the weights of a row with such a position sum
  to 1.
\<close>

theorem padding_gets_zero_alignment_weight:
  assumes unit: "alignment_layer dec = attention_over_memory raw_scores attended"
    and att: "attend dec x memory key_padding_mask = (attn, alignment_weight, attn_normalized)"
  shows "(at2 key_padding_mask b s \<longrightarrow> at3 alignment_weight b t s = 0)
    \<and> (s < dim2 alignment_weight \<and> \<not> at2 key_padding_mask b s \<longrightarrow>
          0 < at3 alignment_weight b t s
          \<and> (\<Sum>s'<dim2 alignment_weight. at3 alignment_weight b t s') = 1)
    \<and> (attend dec x cur_memory (narrow2_cols key_padding_mask bound)
          = (cur_attn, cur_alignment_weight, cur_attn_normalized)
        \<and> at2 key_padding_mask b (fst bound + s) \<longrightarrow> at3 cur_alignment_weight b t s = 0)"
proof (intro conjI impI)
  have w: "alignment_weight = masked_softmax (raw_scores x memory) key_padding_mask"
    using att by (simp add: attend_def unit attention_over_memory_def Let_def)
  show "at3 alignment_weight b t s = 0" if "at2 key_padding_mask b s"
    unfolding w using that by (rule masked_softmax_padding)
  show "(\<Sum>s'<dim2 alignment_weight. at3 alignment_weight b t s') = 1"
    if "s < dim2 alignment_weight \<and> \<not> at2 key_padding_mask b s"
  proof -
    have valid: "\<not> at2 key_padding_mask b s"
      using that by (rule conjunct2)
    have "s < dim2 (raw_scores x memory)"
      using that by (simp add: w masked_softmax_def)
    then have "(\<Sum>s'<dim2 (raw_scores x memory).
        at3 (masked_softmax (raw_scores x memory) key_padding_mask) b t s') = 1"
      using valid by (rule masked_softmax_sum)
    then show ?thesis
      by (simp add: w masked_softmax_def)
  qed
  show "0 < at3 alignment_weight b t s"
    if v: "s < dim2 alignment_weight \<and> \<not> at2 key_padding_mask b s"
  proof -
    define e where
      "e s' = (if at2 key_padding_mask b s' then 0 else exp (at3 (raw_scores x memory) b t s'))"
      for s'
    have s: "s < dim2 (raw_scores x memory)"
      using v by (simp add: w masked_softmax_def)
    have nonneg: "0 \<le> e s'" for s'
      by (simp add: e_def)
    have es: "0 < e s"
      using v by (simp add: e_def)
    also have "e s \<le> (\<Sum>s'<dim2 (raw_scores x memory). e s')"
      using s nonneg by (intro member_le_sum) simp_all
    finally have "0 < (\<Sum>s'<dim2 (raw_scores x memory). e s')" .
    then have "0 < e s / (\<Sum>s'<dim2 (raw_scores x memory). e s')"
      using es by simp
    then show ?thesis
      by (simp add: w masked_softmax_def e_def)
  qed
  show "at3 cur_alignment_weight b t s = 0"
    if c: "attend dec x cur_memory (narrow2_cols key_padding_mask bound)
          = (cur_attn, cur_alignment_weight, cur_attn_normalized)
        \<and> at2 key_padding_mask b (fst bound + s)"
  proof -
    have "cur_alignment_weight
        = masked_softmax (raw_scores x cur_memory) (narrow2_cols key_padding_mask bound)"
      using c by (simp add: attend_def unit attention_over_memory_def Let_def)
    moreover have "at2 (narrow2_cols key_padding_mask bound) b s"
      using c by (simp add: narrow2_cols_def)
    ultimately show ?thesis
      by (simp add: masked_softmax_padding)
  qed
qed

theorem padding_gets_zero_alignment_weight_witness:
  "at3 (fst (snd (attend ex_masked_decoder (transpose01 ex_features)
                    (memory_encoder_out (ex_encoder_output 2 None)) ex_padding_mask))) 0 0 1 = 0
   \<and> 0 < at3 (fst (snd (attend ex_masked_decoder (transpose01 ex_features)
                    (memory_encoder_out (ex_encoder_output 2 None)) ex_padding_mask))) 0 0 0
   \<and> (\<Sum>s<2. at3 (fst (snd (attend ex_masked_decoder (transpose01 ex_features)
                    (memory_encoder_out (ex_encoder_output 2 None)) ex_padding_mask))) 0 0 s) = 1
   \<and> at3 (fst (snd (attend ex_masked_decoder (transpose01 ex_features)
                    (narrow0 (memory_encoder_out (ex_encoder_output 2 None)) (1, 1))
                    (narrow2_cols ex_padding_mask (1, 1))))) 0 0 0 = 0"
proof -
  let ?A = "attend ex_masked_decoder (transpose01 ex_features)
              (memory_encoder_out (ex_encoder_output 2 None)) ex_padding_mask"
  let ?C = "attend ex_masked_decoder (transpose01 ex_features)
              (narrow0 (memory_encoder_out (ex_encoder_output 2 None)) (1, 1))
              (narrow2_cols ex_padding_mask (1, 1))"
  have unit: "alignment_layer ex_masked_decoder = attention_over_memory ex_raw_scores (\<lambda>w v. v)"
    by (simp add: ex_masked_decoder_def)
  have att: "?A = (fst ?A, fst (snd ?A), snd (snd ?A))"
    by simp
  have cur: "?C = (fst ?C, fst (snd ?C), snd (snd ?C))"
    by simp
  have d: "dim2 (fst (snd ?A)) = 2"
    by (simp add: attend_def unit attention_over_memory_def masked_softmax_def ex_raw_scores_def
        ex_encoder_output_def)
  note t0 = padding_gets_zero_alignment_weight [OF unit att, where b = 0 and t = 0 and s = 0]
  note t1 = padding_gets_zero_alignment_weight [OF unit att, where b = 0 and t = 0 and s = 1]
  note t2 = padding_gets_zero_alignment_weight [OF unit att, where b = 0 and t = 0 and s = 0
      and cur_memory = "narrow0 (memory_encoder_out (ex_encoder_output 2 None)) (1, 1)"
      and bound = "(1, 1)"]
  have a: "at3 (fst (snd ?A)) 0 0 1 = 0"
    using t1 [THEN conjunct1] by (simp add: ex_padding_mask_def)
  have b: "0 < at3 (fst (snd ?A)) 0 0 0 \<and> (\<Sum>s<2. at3 (fst (snd ?A)) 0 0 s) = 1"
    using t0 [THEN conjunct2, THEN conjunct1] unfolding d by (simp add: ex_padding_mask_def)
  have c: "at3 (fst (snd ?C)) 0 0 0 = 0"
    using t2 [THEN conjunct2, THEN conjunct2, THEN mp, OF conjI [OF cur]]
    by (simp add: ex_padding_mask_def)
  show ?thesis
    using a b c by (intro conjI) simp_all
qed


end
